theory Spec2Isabelle
  imports Main "HOL-Library.Multiset" "HOL-Library.Char_ord" "HOL-Library.List_Lexorder"
begin

section \<open>Text helpers (Go strings and fmt)\<close>

text \<open>
  Go strings are byte sequences; they are modelled as \<open>string\<close> (a \<open>char list\<close>, one
  \<open>char\<close> per byte).  The characters that cannot stand in a literal are named here.
\<close>

definition NL :: string where "NL = [CHR 0x0A]"
definition SQ :: string where "SQ = [CHR 0x27]"
definition DQ :: string where "DQ = [CHR 0x22]"
definition BS :: string where "BS = [CHR 0x5C]"

fun hasPrefix :: "string \<Rightarrow> string \<Rightarrow> bool" where
  "hasPrefix s [] = True"
| "hasPrefix [] (p # ps) = False"
| "hasPrefix (c # cs) (p # ps) = (c = p \<and> hasPrefix cs ps)"

text \<open>\<open>strings.Contains(s, sub)\<close>.\<close>

fun contains :: "string \<Rightarrow> string \<Rightarrow> bool" where
  "contains [] sub = (sub = [])"
| "contains (c # cs) sub = (hasPrefix (c # cs) sub \<or> contains cs sub)"

text \<open>
  \<open>strings.Split(s, sep)\<close> for a non-empty separator (every call of the tools package
  passes a literal one): the pieces between the non-overlapping occurrences of \<open>sep\<close>,
  read left to right; the result always has at least one element.
\<close>

function splitFrom :: "string \<Rightarrow> string \<Rightarrow> string \<Rightarrow> string list" where
  "splitFrom sep acc [] = [rev acc]"
| "splitFrom sep acc (c # cs) =
     (if sep \<noteq> [] \<and> hasPrefix (c # cs) sep
      then rev acc # splitFrom sep [] (drop (length sep - 1) cs)
      else splitFrom sep (c # acc) cs)"
  by pat_completeness auto
termination
  by (relation "measure (\<lambda>(sep, acc, s). length s)") auto

definition split :: "string \<Rightarrow> string \<Rightarrow> string list" where
  "split s sep = splitFrom sep [] s"

text \<open>\<open>strings.Join(xs, sep)\<close>.\<close>

fun join :: "string list \<Rightarrow> string \<Rightarrow> string" where
  "join [] sep = []"
| "join [x] sep = x"
| "join (x # y # ys) sep = x @ sep @ join (y # ys) sep"

text \<open>
  ASCII case mapping.  \<open>strings.ToLower\<close> and the key folding of \<open>encoding/json\<close> also map
  letters outside ASCII; bytes outside ASCII are left as they are here.
\<close>

definition toLowerChar :: "char \<Rightarrow> char" where
  "toLowerChar c =
     (let n = (of_char c :: nat) in if 65 \<le> n \<and> n \<le> 90 then char_of (n + 32) else c)"

definition toLower :: "string \<Rightarrow> string" where
  "toLower s = map toLowerChar s"

text \<open>White space as \<open>strings.TrimSpace\<close> and \<open>strings.Fields\<close> see it (ASCII).\<close>

definition isSpace :: "char \<Rightarrow> bool" where
  "isSpace c = (c \<in> set [CHR 0x20, CHR 0x09, CHR 0x0A, CHR 0x0B, CHR 0x0C, CHR 0x0D])"

definition trimSpace :: "string \<Rightarrow> string" where
  "trimSpace s = rev (dropWhile isSpace (rev (dropWhile isSpace s)))"

fun fieldsFrom :: "string \<Rightarrow> string \<Rightarrow> string list" where
  "fieldsFrom acc [] = (if acc = [] then [] else [rev acc])"
| "fieldsFrom acc (c # cs) =
     (if isSpace c then (if acc = [] then fieldsFrom [] cs else rev acc # fieldsFrom [] cs)
      else fieldsFrom (c # acc) cs)"

definition strFields :: "string \<Rightarrow> string list" where
  "strFields s = fieldsFrom [] s"

text \<open>Decimal digits, and \<open>%d\<close> of \<open>fmt.Sprintf\<close>.\<close>

definition digitChar :: "nat \<Rightarrow> char" where
  "digitChar d = char_of (48 + d)"

function showNat :: "nat \<Rightarrow> string" where
  "showNat n = (if n < 10 then [digitChar n] else showNat (n div 10) @ [digitChar (n mod 10)])"
  by pat_completeness auto
termination
  by (relation "measure id") auto

definition showInt :: "int \<Rightarrow> string" where
  "showInt i = (if i < 0 then CHR ''-'' # showNat (nat (- i)) else showNat (nat i))"

definition isDigit :: "char \<Rightarrow> bool" where
  "isDigit c = (let n = (of_char c :: nat) in 48 \<le> n \<and> n \<le> 57)"

definition digitVal :: "char \<Rightarrow> nat" where
  "digitVal c = (of_char c :: nat) - 48"

fun readNat :: "nat \<Rightarrow> string \<Rightarrow> nat" where
  "readNat acc [] = acc"
| "readNat acc (c # cs) = readNat (10 * acc + digitVal c) cs"

text \<open>
  \<open>fmt.Sscanf(s, "%d", &n)\<close>.  Leading white space is skipped: the blank, the tab, the
  vertical tab, the form feed and the carriage return, and the spaces of Unicode that
  \<open>fmt\<close> knows (U+0085, U+00A0, U+1680, U+2000 to U+200A, U+2028, U+2029, U+202F, U+205F,
  U+3000), read in their UTF-8 encoding; a line feed met while skipping is the error
  \<open>unexpected newline\<close>.  Then one sign is accepted, and the longest run of decimal
  digits is the token: it must not be empty and the number must fit 64 bits.  Text after
  the token is not read.  \<open>Some n\<close> stands for the return \<open>(1, nil)\<close> with \<open>n\<close> stored;
  \<open>None\<close> for an error, with nothing stored.
\<close>

definition spaceLen :: "string \<Rightarrow> nat" where
  "spaceLen s =
     (if take 1 s \<in> set [[CHR 0x20], [CHR 0x09], [CHR 0x0B], [CHR 0x0C], [CHR 0x0D]] then 1
      else if take 2 s \<in> set [[CHR 0xC2, CHR 0x85], [CHR 0xC2, CHR 0xA0]] then 2
      else if take 3 s \<in> set
          [[CHR 0xE1, CHR 0x9A, CHR 0x80],
           [CHR 0xE2, CHR 0x80, CHR 0x80], [CHR 0xE2, CHR 0x80, CHR 0x81],
           [CHR 0xE2, CHR 0x80, CHR 0x82], [CHR 0xE2, CHR 0x80, CHR 0x83],
           [CHR 0xE2, CHR 0x80, CHR 0x84], [CHR 0xE2, CHR 0x80, CHR 0x85],
           [CHR 0xE2, CHR 0x80, CHR 0x86], [CHR 0xE2, CHR 0x80, CHR 0x87],
           [CHR 0xE2, CHR 0x80, CHR 0x88], [CHR 0xE2, CHR 0x80, CHR 0x89],
           [CHR 0xE2, CHR 0x80, CHR 0x8A],
           [CHR 0xE2, CHR 0x80, CHR 0xA8], [CHR 0xE2, CHR 0x80, CHR 0xA9],
           [CHR 0xE2, CHR 0x80, CHR 0xAF], [CHR 0xE2, CHR 0x81, CHR 0x9F],
           [CHR 0xE3, CHR 0x80, CHR 0x80]] then 3
      else 0)"

function skipSpace :: "string \<Rightarrow> string option" where
  "skipSpace s =
     (if take 1 s = [CHR 0x0A] then None
      else if spaceLen s = 0 then Some s
      else skipSpace (drop (spaceLen s) s))"
  by pat_completeness auto
termination
proof (relation "measure length")
  show "wf (measure length)" by simp
next
  fix s :: string
  assume "spaceLen s \<noteq> 0"
  moreover have "spaceLen [] = 0" by (simp add: spaceLen_def)
  ultimately have "s \<noteq> [] \<and> 0 < spaceLen s" by (cases s) auto
  then show "(drop (spaceLen s) s, s) \<in> measure length" by simp
qed

declare skipSpace.simps [simp del]

definition sscanfInt :: "string \<Rightarrow> int option" where
  "sscanfInt s =
     (case skipSpace s of
        None \<Rightarrow> None
      | Some s1 \<Rightarrow>
          (let neg = (case s1 of c # _ \<Rightarrow> c = CHR ''-'' | [] \<Rightarrow> False);
               s2 = (case s1 of c # cs \<Rightarrow> if c = CHR ''+'' \<or> c = CHR ''-'' then cs else s1 | [] \<Rightarrow> s1);
               tok = takeWhile isDigit s2
           in if tok = [] then None
              else let n = int (readNat 0 tok); v = (if neg then - n else n)
                   in if - (2 ^ 63) \<le> v \<and> v < 2 ^ 63 then Some v else None))"

section \<open>JSON values and \<open>encoding/json\<close>\<close>

text \<open>
  A JSON text as \<open>encoding/json\<close> scans it.  A number literal without fraction and
  exponent is \<open>JInt\<close>; any other number literal is \<open>JFloat\<close>: whether it has a minus
  sign, its integer part, and its fraction and exponent as written.  An object keeps its
  members in textual order, duplicates included.
\<close>

datatype json =
    JNull
  | JBool bool
  | JInt int
  | JFloat bool nat string
  | JStr string
  | JArr "json list"
  | JObj "(string \<times> json) list"

text \<open>
  \<open>json.RawMessage\<close>: the argument bytes of an invocation.  The scanner of
  \<open>encoding/json\<close> is not part of the repository; the bytes are carried by what it makes
  of them: \<open>Malformed e\<close> for bytes it rejects with the syntax error \<open>e\<close> (the empty
  payload among them), \<open>Wellformed v\<close> for the JSON text of \<open>v\<close>.
\<close>

datatype raw_message = Malformed string | Wellformed json

text \<open>
  The parameter structs of the handlers.  Every handler declares an anonymous struct
  and hands it to \<open>json.Unmarshal\<close>, which works by reflection over the field list; the
  model does the same over a \<open>schema\<close>: the JSON name and the Go type of every field.
  \<open>KInt w\<close> is \<open>int\<close> for \<open>w = 64\<close> (the programs are built for 64-bit platforms) and
  \<open>int32\<close> for \<open>w = 32\<close>, \<open>KInt64\<close> is \<open>int64\<close>, \<open>KStrings\<close> is \<open>[]string\<close>, \<open>KMap\<close> is
  \<open>map[string]interface{}\<close>.
\<close>

datatype kind = KString | KInt nat | KInt64 | KBool | KStrings | KMap

datatype gval =
    VString string
  | VInt int
  | VBool bool
  | VStrings "string list"
  | VMap "(string \<times> json) list"

type_synonym schema = "(string \<times> kind) list"
type_synonym params = "string \<Rightarrow> gval"

text \<open>
  The zero value a Go variable starts with.  A nil slice and an empty one, and a nil map
  and an empty one, are not told apart: the handlers only take \<open>len\<close> of them, range over
  them or replace a nil map by an empty one before use.  A struct is the function from
  its fields' JSON names to their values.
\<close>

fun zeroOf :: "kind \<Rightarrow> gval" where
  "zeroOf KString = VString []"
| "zeroOf (KInt w) = VInt 0"
| "zeroOf KInt64 = VInt 0"
| "zeroOf KBool = VBool False"
| "zeroOf KStrings = VStrings []"
| "zeroOf KMap = VMap []"

definition zeroParams :: "schema \<Rightarrow> params" where
  "zeroParams sch = (\<lambda>n. case map_of sch n of Some k \<Rightarrow> zeroOf k | None \<Rightarrow> VBool False)"

text \<open>Field access, by the type of the field.\<close>

definition str :: "params \<Rightarrow> string \<Rightarrow> string" where
  "str p n = (case p n of VString s \<Rightarrow> s | _ \<Rightarrow> [])"

definition num :: "params \<Rightarrow> string \<Rightarrow> int" where
  "num p n = (case p n of VInt i \<Rightarrow> i | _ \<Rightarrow> 0)"

definition flag :: "params \<Rightarrow> string \<Rightarrow> bool" where
  "flag p n = (case p n of VBool b \<Rightarrow> b | _ \<Rightarrow> False)"

definition strs :: "params \<Rightarrow> string \<Rightarrow> string list" where
  "strs p n = (case p n of VStrings xs \<Rightarrow> xs | _ \<Rightarrow> [])"

definition obj :: "params \<Rightarrow> string \<Rightarrow> (string \<times> json) list" where
  "obj p n = (case p n of VMap m \<Rightarrow> m | _ \<Rightarrow> [])"

text \<open>The defaulting idiom of the handlers: \<open>if params.X == "" { params.X = d }\<close>, and the
  same for a number that is \<open>0\<close> and a slice of length \<open>0\<close>.\<close>

definition defaultStr :: "string \<Rightarrow> string \<Rightarrow> params \<Rightarrow> params" where
  "defaultStr n d p = (if str p n = [] then p(n := VString d) else p)"

definition defaultInt :: "string \<Rightarrow> int \<Rightarrow> params \<Rightarrow> params" where
  "defaultInt n d p = (if num p n = 0 then p(n := VInt d) else p)"

definition defaultStrs :: "string \<Rightarrow> string list \<Rightarrow> params \<Rightarrow> params" where
  "defaultStrs n d p = (if length (strs p n) = 0 then p(n := VStrings d) else p)"

definition always :: "string \<Rightarrow> params \<Rightarrow> params" where
  "always n p = p(n := VBool True)"

text \<open>
  The field a member key selects: the field of that exact name, else the first field
  whose name equals the key when letter case is ignored.
\<close>

definition fieldFor :: "schema \<Rightarrow> string \<Rightarrow> (string \<times> kind) option" where
  "fieldFor sch key =
     (case find (\<lambda>(n, k). n = key) sch of
        Some f \<Rightarrow> Some f
      | None \<Rightarrow> find (\<lambda>(n, k). toLower n = toLower key) sch)"

definition floatText :: "bool \<Rightarrow> nat \<Rightarrow> string \<Rightarrow> string" where
  "floatText neg n s = (if neg then ''-'' else []) @ showNat n @ s"

text \<open>
  The words \<open>encoding/json\<close> uses for a value in an \<open>UnmarshalTypeError\<close>.  A number that
  an integer field refuses (a fraction, an exponent, or a value out of range) is named
  with its literal; a number that any other field refuses is just \<open>number\<close>.  The literal
  of an integer is written from its value, which is the literal itself but for \<open>-0\<close>
  (and \<open>-0\<close> is in range).
\<close>

fun valueWord :: "json \<Rightarrow> string" where
  "valueWord JNull = ''null''"
| "valueWord (JBool b) = ''bool''"
| "valueWord (JInt i) = ''number''"
| "valueWord (JFloat neg n s) = ''number''"
| "valueWord (JStr s) = ''string''"
| "valueWord (JArr xs) = ''array''"
| "valueWord (JObj kvs) = ''object''"

fun numberWord :: "json \<Rightarrow> string" where
  "numberWord (JInt i) = ''number '' @ showInt i"
| "numberWord (JFloat neg n s) = ''number '' @ floatText neg n s"
| "numberWord v = valueWord v"

fun isIntKind :: "kind \<Rightarrow> bool" where
  "isIntKind (KInt w) = True"
| "isIntKind KInt64 = True"
| "isIntKind k = False"

fun kindWord :: "kind \<Rightarrow> string" where
  "kindWord KString = ''string''"
| "kindWord (KInt w) = ''int'' @ (if w = 64 then [] else showNat w)"
| "kindWord KInt64 = ''int64''"
| "kindWord KBool = ''bool''"
| "kindWord KStrings = ''[]string''"
| "kindWord KMap = ''map[string]interface {}''"

definition typeError :: "json \<Rightarrow> string \<Rightarrow> kind \<Rightarrow> string" where
  "typeError v field k =
     ''json: cannot unmarshal '' @ (if isIntKind k then numberWord v else valueWord v)
       @ '' into Go struct field .'' @ field @ '' of type '' @ kindWord k"

text \<open>A Go map built from the members of an object: a later member replaces an
  earlier one of the same key.\<close>

fun putKey :: "string \<Rightarrow> 'a \<Rightarrow> (string \<times> 'a) list \<Rightarrow> (string \<times> 'a) list" where
  "putKey k v [] = [(k, v)]"
| "putKey k v ((k', v') # rest) = (if k' = k then (k, v) # rest else (k', v') # putKey k v rest)"

definition asMap :: "(string \<times> 'a) list \<Rightarrow> (string \<times> 'a) list" where
  "asMap kvs = foldl (\<lambda>m (k, v). putKey k v m) [] kvs"

text \<open>
  Decoding one JSON value into one field.  The result is the value to store (\<open>None\<close>:
  the field is left as it is) and the error to record, if any.  \<open>null\<close> leaves a string,
  a number and a bool alone and sets a slice and a map to nil; a value of the wrong
  JSON type, a number with a fraction or an exponent, and an integer outside the range
  of the field are type errors and store nothing.  A string slice takes the array's
  elements in turn; an element that is not a string is a type error and stays empty.
\<close>

definition inRange :: "nat \<Rightarrow> int \<Rightarrow> bool" where
  "inRange w i = (- (2 ^ (w - 1)) \<le> i \<and> i < 2 ^ (w - 1))"

definition elemString :: "json \<Rightarrow> string" where
  "elemString v = (case v of JStr s \<Rightarrow> s | _ \<Rightarrow> [])"

definition elemOk :: "json \<Rightarrow> bool" where
  "elemOk v = (case v of JStr s \<Rightarrow> True | JNull \<Rightarrow> True | _ \<Rightarrow> False)"

definition decodeValue :: "string \<Rightarrow> kind \<Rightarrow> json \<Rightarrow> gval option \<times> string option" where
  "decodeValue field k v =
     (case (k, v) of
        (KString, JNull) \<Rightarrow> (None, None)
      | (KInt w, JNull) \<Rightarrow> (None, None)
      | (KInt64, JNull) \<Rightarrow> (None, None)
      | (KBool, JNull) \<Rightarrow> (None, None)
      | (KStrings, JNull) \<Rightarrow> (Some (VStrings []), None)
      | (KMap, JNull) \<Rightarrow> (Some (VMap []), None)
      | (KString, JStr s) \<Rightarrow> (Some (VString s), None)
      | (KInt w, JInt i) \<Rightarrow>
          (if inRange w i then (Some (VInt i), None) else (None, Some (typeError v field k)))
      | (KInt64, JInt i) \<Rightarrow>
          (if inRange 64 i then (Some (VInt i), None) else (None, Some (typeError v field k)))
      | (KBool, JBool b) \<Rightarrow> (Some (VBool b), None)
      | (KStrings, JArr xs) \<Rightarrow>
          (Some (VStrings (map elemString xs)),
           (case find (\<lambda>x. \<not> elemOk x) xs of
              None \<Rightarrow> None
            | Some x \<Rightarrow> Some (typeError x field KString)))
      | (KMap, JObj kvs) \<Rightarrow> (Some (VMap (asMap kvs)), None)
      | _ \<Rightarrow> (None, Some (typeError v field k)))"

text \<open>
  The members of an object, in order.  A key that selects no field is skipped.  The
  first error is kept and decoding goes on, as \<open>encoding/json\<close> does.
\<close>

fun decodeMembers :: "schema \<Rightarrow> (string \<times> json) list \<Rightarrow> params \<times> string option
    \<Rightarrow> params \<times> string option" where
  "decodeMembers sch [] acc = acc"
| "decodeMembers sch ((key, v) # rest) (p, err) =
     (case fieldFor sch key of
        None \<Rightarrow> decodeMembers sch rest (p, err)
      | Some (n, k) \<Rightarrow>
          (case decodeValue n k v of
             (stored, e) \<Rightarrow>
               decodeMembers sch rest
                 ((case stored of None \<Rightarrow> p | Some x \<Rightarrow> p(n := x)),
                  (case err of None \<Rightarrow> e | Some e0 \<Rightarrow> Some e0))))"

text \<open>
  \<open>json.Unmarshal(args, &params)\<close> on a zero-initialised struct: \<open>Inl e\<close> is the error
  \<open>e\<close>, \<open>Inr p\<close> the struct after a decoding without error.  \<open>null\<close> decodes into any
  struct and changes nothing; a JSON value that is neither \<open>null\<close> nor an object is a
  type error.
\<close>

definition Unmarshal :: "schema \<Rightarrow> raw_message \<Rightarrow> string + params" where
  "Unmarshal sch args =
     (case args of
        Malformed e \<Rightarrow> Inl e
      | Wellformed JNull \<Rightarrow> Inr (zeroParams sch)
      | Wellformed (JObj kvs) \<Rightarrow>
          (case decodeMembers sch kvs (zeroParams sch, None) of
             (p, None) \<Rightarrow> Inr p
           | (p, Some e) \<Rightarrow> Inl e)
      | Wellformed v \<Rightarrow>
          Inl (''json: cannot unmarshal '' @ valueWord v @ '' into Go value of type struct''))"

text \<open>
  \<open>json.Marshal\<close> of strings: the quote and the backslash are escaped, as are the line
  feed, the carriage return and the tab; other control characters and the characters
  \<open><\<close>, \<open>>\<close> and \<open>&\<close> are written \<open>\u00XX\<close>.  Bytes outside ASCII are copied (the text is
  taken to be valid UTF-8).
\<close>

definition hexDigit :: "nat \<Rightarrow> char" where
  "hexDigit d = (if d < 10 then char_of (48 + d) else char_of (87 + d))"

definition escapeChar :: "char \<Rightarrow> string" where
  "escapeChar c =
     (let n = (of_char c :: nat) in
      if c = CHR 0x22 then BS @ DQ
      else if c = CHR 0x5C then BS @ BS
      else if c = CHR 0x0A then BS @ ''n''
      else if c = CHR 0x0D then BS @ ''r''
      else if c = CHR 0x09 then BS @ ''t''
      else if n < 32 \<or> c = CHR ''<'' \<or> c = CHR ''>'' \<or> c = CHR ''&''
        then BS @ ''u00'' @ [hexDigit (n div 16), hexDigit (n mod 16)]
      else [c])"

definition quote :: "string \<Rightarrow> string" where
  "quote s = DQ @ concat (map escapeChar s) @ DQ"

text \<open>
  The compact encoding (\<open>json.Marshal\<close>) and the indented one (\<open>json.MarshalIndent\<close> with
  prefix \<open>""\<close> and indent of two blanks, at nesting depth \<open>d\<close>).  Members are written in
  the order of the list: the order of the struct's fields, or the sorted keys of a map,
  is fixed where the value is built.  An empty object and an empty array stay on one
  line.  Every value handed over is taken to be encodable, so the error that the
  handlers discard (\<open>resultJSON, _ := ...\<close>) does not arise.
\<close>

fun encode :: "json \<Rightarrow> string" where
  "encode JNull = ''null''"
| "encode (JBool b) = (if b then ''true'' else ''false'')"
| "encode (JInt i) = showInt i"
| "encode (JFloat neg n s) = floatText neg n s"
| "encode (JStr s) = quote s"
| "encode (JArr xs) = ''['' @ join (map encode xs) '','' @ '']''"
| "encode (JObj kvs) =
     ''{'' @ join (map (\<lambda>kv. quote (fst kv) @ '':'' @ encode (snd kv)) kvs) '','' @ ''}''"

definition indent :: "nat \<Rightarrow> string" where
  "indent d = replicate (2 * d) CHR '' ''"

fun encodeIndent :: "nat \<Rightarrow> json \<Rightarrow> string" where
  "encodeIndent d JNull = ''null''"
| "encodeIndent d (JBool b) = (if b then ''true'' else ''false'')"
| "encodeIndent d (JInt i) = showInt i"
| "encodeIndent d (JFloat neg n s) = floatText neg n s"
| "encodeIndent d (JStr s) = quote s"
| "encodeIndent d (JArr xs) =
     (if xs = [] then ''[]''
      else ''['' @ NL @ indent (Suc d)
        @ join (map (encodeIndent (Suc d)) xs) ('','' @ NL @ indent (Suc d))
        @ NL @ indent d @ '']'')"
| "encodeIndent d (JObj kvs) =
     (if kvs = [] then ''{}''
      else ''{'' @ NL @ indent (Suc d)
        @ join (map (\<lambda>kv. quote (fst kv) @ '': '' @ encodeIndent (Suc d) (snd kv)) kvs)
            ('','' @ NL @ indent (Suc d))
        @ NL @ indent d @ ''}'')"

definition MarshalIndent :: "json \<Rightarrow> string" where
  "MarshalIndent v = encodeIndent 0 v"

text \<open>
  A value of type \<open>interface{}\<close> that was decoded from JSON and is encoded again:
  its objects have become Go maps, which are written with their keys sorted, a later
  duplicate having replaced an earlier one.  (Numbers pass through \<open>float64\<close>; an
  integer literal is written back as it was read, which holds below \<open>2^53\<close>.)
\<close>

fun normalise :: "json \<Rightarrow> json" where
  "normalise (JArr xs) = JArr (map normalise xs)"
| "normalise (JObj kvs) = JObj (sort_key fst (asMap (map (\<lambda>kv. (fst kv, normalise (snd kv))) kvs)))"
| "normalise v = v"

definition Marshal :: "json \<Rightarrow> string" where
  "Marshal v = encode (normalise v)"

section \<open>Results\<close>

text \<open>
  \<open>CallToolResult\<close> and \<open>TextContent\<close> of the tools package.  \<open>Content\<close> is a slice of
  \<open>interface{}\<close> in the source; the package only ever puts \<open>TextContent\<close> values in it.
  A handler returns \<open>(*CallToolResult, error)\<close>: a pointer that may be nil and an error
  that may be nil.
\<close>

record TextContent =
  Type :: string
  Text :: string

record CallToolResult =
  IsError :: bool
  Content :: "TextContent list"

type_synonym go_return = "CallToolResult option \<times> string option"

definition errorResult :: "string \<Rightarrow> go_return" where
  "errorResult msg =
     (Some \<lparr>IsError = True, Content = [\<lparr>Type = ''text'', Text = msg\<rparr>]\<rparr>, None)"

definition textResult :: "string \<Rightarrow> go_return" where
  "textResult msg =
     (Some \<lparr>IsError = False, Content = [\<lparr>Type = ''text'', Text = msg\<rparr>]\<rparr>, None)"

section \<open>The collaborators\<close>

text \<open>
  What the handlers reach outside the process: the cluster API behind \<open>client-go\<close>, the
  \<open>helm\<close> and \<open>kubectl\<close> programs, the kubeconfig file, the clock and the Go runtime.
  None of it is code of the repository; all of it is a parameter of the model.

  An error of the cluster API carries the reason that \<open>errors.IsNotFound\<close> and
  \<open>errors.IsAlreadyExists\<close> test, and its text.
\<close>

datatype reason = NotFound | AlreadyExists | OtherReason

datatype api_error = ApiError reason string

fun errorText :: "api_error \<Rightarrow> string" where
  "errorText (ApiError r msg) = msg"

fun IsNotFound :: "api_error option \<Rightarrow> bool" where
  "IsNotFound (Some (ApiError r msg)) = (r = NotFound)"
| "IsNotFound None = False"

fun IsAlreadyExists :: "api_error option \<Rightarrow> bool" where
  "IsAlreadyExists (Some (ApiError r msg)) = (r = AlreadyExists)"
| "IsAlreadyExists None = False"

text \<open>The parts of the cluster's objects that the handlers read.\<close>

record Pod =
  pdName :: string
  pdNamespace :: string
  pdIP :: string
  pdNode :: string
  pdContainers :: "string list"
  pdLabels :: "(string \<times> string) list option"

record Deployment =
  depReplicas :: int
  depReady :: int
  depAvailable :: int
  depImages :: "string list"

record DaemonSet =
  dsDesired :: int
  dsReady :: int

record Service =
  svcClusterIP :: string

record Namespace =
  nsLabels :: "(string \<times> string) list option"

datatype selector_op = OpIn | OpNotIn | OpExists | OpDoesNotExist | OpOther

record Requirement =
  reqKey :: string
  reqOp :: selector_op
  reqValues :: "string list"

text \<open>A network policy: \<open>npSpec\<close> is its spec as \<open>encoding/json\<close> writes it, the two
  selector fields are the pod selector of that spec.\<close>

record NetworkPolicy =
  npName :: string
  npNamespace :: string
  npSpec :: json
  npMatchLabels :: "(string \<times> string) list"
  npMatchExpressions :: "Requirement list"

record KubeContext =
  ctxCluster :: string
  ctxAuthInfo :: string
  ctxNamespace :: string

record Kubeconfig =
  kcContexts :: "(string \<times> KubeContext) list"
  kcCurrent :: string

record LogOptions =
  loContainer :: string
  loPrevious :: bool
  loTimestamps :: bool
  loTailLines :: int
  loSince :: "string option"

text \<open>
  Running a command in a container: building the executor may fail; otherwise the
  stream ends with what was written to standard output and standard error, and with
  an error or none.
\<close>

datatype exec_reply = ExecutorError string | Streamed string string "string option"

text \<open>
  The requests a handler sends, with the arguments it sends them.  A handler appends
  each request to the history it was given and hands the longer history back, so that a
  theorem can say which requests an invocation made, in which order and with which
  arguments.  \<open>Command\<close> is a child process (\<open>exec.Command\<close>), the three \<open>Kubeconfig\<close>
  requests read and write the kubeconfig file through \<open>clientcmd\<close>.  Log lines written
  through \<open>logrus\<close> are not part of the model.
\<close>

datatype call =
    PodsGet string string
  | PodsList string string
  | PodsGetLogs string string LogOptions
  | PodsExec string string string "string list" "int option"
  | ServicesGet string string
  | ServicesCreate string string
  | ServicesDelete string string
  | NamespacesGet string
  | NamespacesCreate string "(string \<times> string) list"
  | NamespacesUpdate string "(string \<times> string) list"
  | NamespacesList
  | NodesList
  | ServerVersion
  | DeploymentsList string string
  | DeploymentsCreate string string int
  | DeploymentsDelete string string
  | DaemonSetsGet string string
  | ServiceAccountsCreate string string
  | ServiceAccountsDelete string string
  | NetworkPoliciesList string string
  | Command string "string list"
  | KubeconfigRaw
  | KubeconfigStarting
  | KubeconfigModify string

text \<open>
  The answers.  Every answer may depend on the requests made so far (the history), which
  is how a cluster that changes under the requests is covered; an answer is a value,
  so asking twice after the same history gives the same answer.

  The clock: \<open>now\<close> is \<open>time.Now()\<close> as \<open>encoding/json\<close> writes it, \<open>nowUnix\<close> its Unix
  seconds, \<open>since\<close> the text of the duration since the handler took its start time,
  \<open>spent\<close> the milliseconds the last request took.  The runtime: \<open>rangeOrder\<close> is the
  order in which a \<open>range\<close> over a map with the given keys visits them, which the
  language leaves open and the runtime varies.  Two functions of the standard library
  are taken as given: \<open>parseTime\<close> is \<open>time.Parse(time.RFC3339Nano, s)\<close> followed by the
  JSON encoding of the time (\<open>None\<close>: the text does not parse), and \<open>durationError\<close> is
  the error of \<open>time.ParseDuration\<close>, if any.  \<open>scanJson\<close> is the scanner of
  \<open>encoding/json\<close> on bytes that a child process printed.
\<close>

record world =
  getPod :: "call list \<Rightarrow> string \<Rightarrow> string \<Rightarrow> api_error + Pod"
  listPods :: "call list \<Rightarrow> string \<Rightarrow> string \<Rightarrow> api_error + Pod list"
  streamLogs :: "call list \<Rightarrow> string \<Rightarrow> string \<Rightarrow> LogOptions
     \<Rightarrow> string + (string list \<times> string option)"
  execInPod :: "call list \<Rightarrow> string \<Rightarrow> string \<Rightarrow> string \<Rightarrow> string list \<Rightarrow> exec_reply"
  getService :: "call list \<Rightarrow> string \<Rightarrow> string \<Rightarrow> api_error + Service"
  getNamespace :: "call list \<Rightarrow> string \<Rightarrow> api_error + Namespace"
  listNamespaces :: "call list \<Rightarrow> api_error + string list"
  listNodes :: "call list \<Rightarrow> api_error + nat"
  serverVersion :: "call list \<Rightarrow> string + string"
  listDeployments :: "call list \<Rightarrow> string \<Rightarrow> string \<Rightarrow> api_error + Deployment list"
  getDaemonSet :: "call list \<Rightarrow> string \<Rightarrow> string \<Rightarrow> api_error + DaemonSet"
  listNetworkPolicies :: "call list \<Rightarrow> string \<Rightarrow> string \<Rightarrow> api_error + NetworkPolicy list"
  mutate :: "call list \<Rightarrow> call \<Rightarrow> api_error option"
  runCommand :: "call list \<Rightarrow> string \<Rightarrow> string list \<Rightarrow> string \<times> string option"
  rawConfig :: "call list \<Rightarrow> string + Kubeconfig"
  startingConfig :: "call list \<Rightarrow> string + Kubeconfig"
  modifyConfig :: "call list \<Rightarrow> string \<Rightarrow> string option"
  configHost :: string
  now :: "call list \<Rightarrow> string"
  nowUnix :: "call list \<Rightarrow> int"
  since :: "call list \<Rightarrow> string"
  spent :: "call list \<Rightarrow> nat"
  rangeOrder :: "call list \<Rightarrow> string list \<Rightarrow> string list"
  parseTime :: "string \<Rightarrow> string option"
  durationError :: "string \<Rightarrow> string option"
  scanJson :: "string \<Rightarrow> raw_message"

text \<open>
  \<open>Manager\<close> of the tools package: its one field is the client, nil when none could be
  built at start-up.  A client that is there gives access to the collaborators.
\<close>

record Manager =
  k8sClient :: "world option"

text \<open>
  Ranging over a Go map.  The map is the association list \<open>m\<close> (a later entry for a key
  replaces an earlier one); the visiting order is the runtime's.  Whatever
  \<open>rangeOrder\<close> answers is read as an order of the keys: the keys it names, each once,
  then the keys it left out.
\<close>

definition visitOrder :: "string list \<Rightarrow> string list \<Rightarrow> string list" where
  "visitOrder keys answer =
     filter (\<lambda>k. k \<in> set keys) (remdups answer) @ filter (\<lambda>k. k \<notin> set answer) keys"

definition rangeMap :: "world \<Rightarrow> call list \<Rightarrow> (string \<times> 'a) list \<Rightarrow> (string \<times> 'a) list" where
  "rangeMap w tr m =
     (let m' = asMap m; keys = map fst m'
      in List.map_filter (\<lambda>k. map_option (Pair k) (map_of m' k))
           (visitOrder keys (rangeOrder w tr keys)))"

text \<open>A slice that was grown by \<open>append\<close> from nil is nil when nothing was appended,
  and a nil slice is written \<open>null\<close>.\<close>

definition sliceJson :: "json list \<Rightarrow> json" where
  "sliceJson xs = (if xs = [] then JNull else JArr xs)"

definition stringsJson :: "string list \<Rightarrow> json" where
  "stringsJson xs = sliceJson (map JStr xs)"

text \<open>Fields tagged \<open>omitempty\<close> are left out when they hold the zero value.\<close>

definition omitEmptyStr :: "string \<Rightarrow> string \<Rightarrow> (string \<times> json) list" where
  "omitEmptyStr key s = (if s = [] then [] else [(key, JStr s)])"

definition omitEmptyInt :: "string \<Rightarrow> int \<Rightarrow> (string \<times> json) list" where
  "omitEmptyInt key i = (if i = 0 then [] else [(key, JInt i)])"

definition omitEmptyBool :: "string \<Rightarrow> bool \<Rightarrow> (string \<times> json) list" where
  "omitEmptyBool key b = (if b then [(key, JBool True)] else [])"

definition omitEmptyStrings :: "string \<Rightarrow> string list \<Rightarrow> (string \<times> json) list" where
  "omitEmptyStrings key xs = (if xs = [] then [] else [(key, JArr (map JStr xs))])"

section \<open>Cluster tools\<close>

definition ContextInfoJson :: "string \<Rightarrow> string \<Rightarrow> KubeContext \<Rightarrow> json" where
  "ContextInfoJson current name c =
     JObj [(''name'', JStr name), (''cluster'', JStr (ctxCluster c)),
           (''user'', JStr (ctxAuthInfo c)), (''namespace'', JStr (ctxNamespace c)),
           (''current'', JBool (name = current))]"

text \<open>\<open>ListContexts\<close> never looks at its arguments.\<close>

definition ListContexts :: "world \<Rightarrow> call list \<Rightarrow> raw_message \<Rightarrow> go_return \<times> call list" where
  "ListContexts w tr args =
     (let tr1 = tr @ [KubeconfigRaw] in
      case rawConfig w tr of
        Inl err \<Rightarrow> (errorResult (''Failed to load kubeconfig: '' @ err), tr1)
      | Inr config \<Rightarrow>
          (let contexts = map (\<lambda>(name, c). ContextInfoJson (kcCurrent config) name c)
                            (rangeMap w tr1 (kcContexts config))
           in (textResult (MarshalIndent (sliceJson contexts)), tr1)))"

definition SwitchContext_schema :: schema where
  "SwitchContext_schema = [(''context'', KString)]"

definition SwitchContext :: "world \<Rightarrow> call list \<Rightarrow> raw_message \<Rightarrow> go_return \<times> call list" where
  "SwitchContext w tr args =
     (case Unmarshal SwitchContext_schema args of
        Inl err \<Rightarrow> (errorResult (''Invalid parameters: '' @ err), tr)
      | Inr p \<Rightarrow>
          if str p ''context'' = [] then (errorResult ''Context name is required'', tr)
          else
            (let tr1 = tr @ [KubeconfigStarting] in
             case startingConfig w tr of
               Inl err \<Rightarrow> (errorResult (''Failed to get kubeconfig: '' @ err), tr1)
             | Inr config \<Rightarrow>
                 if map_of (kcContexts config) (str p ''context'') = None
                 then (errorResult (''Context '' @ SQ @ str p ''context'' @ SQ @ '' does not exist''), tr1)
                 else
                   (let tr2 = tr1 @ [KubeconfigModify (str p ''context'')] in
                    case modifyConfig w tr1 (str p ''context'') of
                      Some err \<Rightarrow> (errorResult (''Failed to switch context: '' @ err), tr2)
                    | None \<Rightarrow>
                        (textResult (''Successfully switched to context: '' @ str p ''context''), tr2))))"

text \<open>\<open>GetCurrentContext\<close> of the client: the current context of the kubeconfig.\<close>

definition GetCurrentContext :: "world \<Rightarrow> call list \<Rightarrow> (string + string) \<times> call list" where
  "GetCurrentContext w tr =
     (case rawConfig w tr of
        Inl err \<Rightarrow> (Inl err, tr @ [KubeconfigRaw])
      | Inr config \<Rightarrow> (Inr (kcCurrent config), tr @ [KubeconfigRaw]))"

definition ClusterInfoJson :: "string \<Rightarrow> string \<Rightarrow> string \<Rightarrow> nat \<Rightarrow> string list \<Rightarrow> json" where
  "ClusterInfoJson context server version nodes nsNames =
     JObj [(''name'', JStr context), (''server'', JStr server), (''version'', JStr version),
           (''nodes'', JInt (int nodes)), (''namespaces'', stringsJson nsNames),
           (''context'', JStr context)]"

text \<open>\<open>GetClusterInfo\<close> never looks at its arguments either.\<close>

definition GetClusterInfo :: "world \<Rightarrow> call list \<Rightarrow> raw_message \<Rightarrow> go_return \<times> call list" where
  "GetClusterInfo w tr args =
     (let tr1 = tr @ [ServerVersion] in
      case serverVersion w tr of
        Inl err \<Rightarrow> (errorResult (''Failed to get server version: '' @ err), tr1)
      | Inr version \<Rightarrow>
          (let tr2 = tr1 @ [NodesList] in
           case listNodes w tr1 of
             Inl err \<Rightarrow> (errorResult (''Failed to get nodes: '' @ errorText err), tr2)
           | Inr nodes \<Rightarrow>
               (let tr3 = tr2 @ [NamespacesList] in
                case listNamespaces w tr2 of
                  Inl err \<Rightarrow> (errorResult (''Failed to get namespaces: '' @ errorText err), tr3)
                | Inr nsNames \<Rightarrow>
                    (case GetCurrentContext w tr3 of
                       (cur, tr4) \<Rightarrow>
                         (let currentContext = (case cur of Inl err \<Rightarrow> ''unknown'' | Inr c \<Rightarrow> c)
                          in (textResult (MarshalIndent
                                (ClusterInfoJson currentContext (configHost w) version nodes nsNames)),
                              tr4))))))"

section \<open>Child processes\<close>

text \<open>\<open>cmd.CombinedOutput()\<close> (and \<open>cmd.Run()\<close>, whose output is dropped): the output and
  the error, with the request recorded.\<close>

definition run :: "world \<Rightarrow> call list \<Rightarrow> string \<Rightarrow> string list
    \<Rightarrow> (string \<times> string option) \<times> call list" where
  "run w tr prog args = (runCommand w tr prog args, tr @ [Command prog args])"

text \<open>The shape shared by the helm helpers: run \<open>helm\<close> with the arguments and wrap a
  failure as \<open>fmt.Errorf("<what> failed: %w, output: %s", err, output)\<close>.\<close>

definition runHelm :: "world \<Rightarrow> call list \<Rightarrow> string \<Rightarrow> string list \<Rightarrow> string option \<times> call list" where
  "runHelm w tr what args =
     (case run w tr ''helm'' args of
        ((output, Some err), tr1) \<Rightarrow> (Some (what @ '' failed: '' @ err @ '', output: '' @ output), tr1)
      | ((output, None), tr1) \<Rightarrow> (None, tr1))"

definition checkHelmAvailable :: "world \<Rightarrow> call list \<Rightarrow> string option \<times> call list" where
  "checkHelmAvailable w tr =
     (case run w tr ''helm'' [''version'', ''--short''] of
        ((output, Some err), tr1) \<Rightarrow> (Some (''helm command not found or not working: '' @ err), tr1)
      | ((output, None), tr1) \<Rightarrow> (None, tr1))"

definition versionArgs :: "string \<Rightarrow> string list" where
  "versionArgs version = (if version \<noteq> [] then [''--version'', version] else [])"

definition waitArgs :: "bool \<Rightarrow> string \<Rightarrow> string list" where
  "waitArgs wait timeout =
     (if wait then ''--wait'' # (if timeout \<noteq> [] then [''--timeout'', timeout] else []) else [])"

text \<open>The \<open>--set-json key=value\<close> arguments, one pair per entry of the values map in the
  order the runtime visits them.\<close>

definition setJsonArgs :: "world \<Rightarrow> call list \<Rightarrow> (string \<times> json) list \<Rightarrow> string list" where
  "setJsonArgs w tr values =
     concat (map (\<lambda>(key, v). [''--set-json'', key @ ''='' @ Marshal v]) (rangeMap w tr values))"

text \<open>\<open>addIstioHelmRepo\<close> and \<open>addSailOperatorHelmRepo\<close> differ in the repository's name
  and URL only: add it (a failure whose output says \<open>already exists\<close> is passed over),
  then update it.\<close>

definition updateHelmRepo :: "world \<Rightarrow> call list \<Rightarrow> string \<Rightarrow> string option \<times> call list" where
  "updateHelmRepo w tr name =
     (case run w tr ''helm'' [''repo'', ''update'', name] of
        ((output, Some err), tr1) \<Rightarrow>
          (Some (''failed to update '' @ name @ '' helm repo: '' @ err @ '', output: '' @ output), tr1)
      | ((output, None), tr1) \<Rightarrow> (None, tr1))"

definition addHelmRepo :: "world \<Rightarrow> call list \<Rightarrow> string \<Rightarrow> string \<Rightarrow> string option \<times> call list" where
  "addHelmRepo w tr name url =
     (case run w tr ''helm'' [''repo'', ''add'', name, url] of
        ((output, Some err), tr1) \<Rightarrow>
          if \<not> contains output ''already exists''
          then (Some (''failed to add '' @ name @ '' helm repo: '' @ err @ '', output: '' @ output), tr1)
          else updateHelmRepo w tr1 name
      | ((output, None), tr1) \<Rightarrow> updateHelmRepo w tr1 name)"

definition addIstioHelmRepo :: "world \<Rightarrow> call list \<Rightarrow> string option \<times> call list" where
  "addIstioHelmRepo w tr =
     addHelmRepo w tr ''istio'' ''https://istio-release.storage.googleapis.com/charts''"

definition addSailOperatorHelmRepo :: "world \<Rightarrow> call list \<Rightarrow> string option \<times> call list" where
  "addSailOperatorHelmRepo w tr =
     addHelmRepo w tr ''sail-operator'' ''https://istio-ecosystem.github.io/sail-operator''"

text \<open>
  \<open>getIstioHelmReleaseVersion\<close>: \<open>helm list\<close> printed as JSON and decoded into a slice of
  structs whose fields are all strings.  Of the first release, the chart if it has one,
  else the application version, else \<open>unknown\<close>.
\<close>

definition release_schema :: schema where
  "release_schema = [(''name'', KString), (''namespace'', KString), (''revision'', KString),
     (''updated'', KString), (''status'', KString), (''chart'', KString),
     (''app_version'', KString)]"

text \<open>One element of the array: an object fills a struct, \<open>null\<close> leaves it zero,
  anything else is a type error and leaves it zero.\<close>

definition decodeElement :: "schema \<Rightarrow> json \<Rightarrow> params \<times> string option" where
  "decodeElement sch v =
     (case v of
        JObj kvs \<Rightarrow> decodeMembers sch kvs (zeroParams sch, None)
      | JNull \<Rightarrow> (zeroParams sch, None)
      | _ \<Rightarrow> (zeroParams sch,
              Some (''json: cannot unmarshal '' @ valueWord v @ '' into Go value of type struct'')))"

definition UnmarshalSlice :: "schema \<Rightarrow> raw_message \<Rightarrow> string + params list" where
  "UnmarshalSlice sch bytes =
     (case bytes of
        Malformed e \<Rightarrow> Inl e
      | Wellformed JNull \<Rightarrow> Inr []
      | Wellformed (JArr xs) \<Rightarrow>
          (case List.map_filter (\<lambda>x. snd (decodeElement sch x)) xs of
             e # _ \<Rightarrow> Inl e
           | [] \<Rightarrow> Inr (map (\<lambda>x. fst (decodeElement sch x)) xs))
      | Wellformed v \<Rightarrow>
          Inl (''json: cannot unmarshal '' @ valueWord v @ '' into Go value of type []struct''))"

definition getIstioHelmReleaseVersion :: "world \<Rightarrow> call list \<Rightarrow> string \<Rightarrow> string
    \<Rightarrow> (string + string) \<times> call list" where
  "getIstioHelmReleaseVersion w tr namespace releaseName =
     (case run w tr ''helm''
             [''list'', ''--namespace'', namespace, ''--filter'', releaseName, ''--output'', ''json''] of
        ((output, Some err), tr1) \<Rightarrow> (Inl (''failed to get helm release info: '' @ err), tr1)
      | ((output, None), tr1) \<Rightarrow>
          (case UnmarshalSlice release_schema (scanJson w output) of
             Inl err \<Rightarrow> (Inl (''failed to parse helm release info: '' @ err), tr1)
           | Inr [] \<Rightarrow> (Inl (''release '' @ releaseName @ '' not found''), tr1)
           | Inr (r # rs) \<Rightarrow>
               if str r ''chart'' \<noteq> [] then (Inr (str r ''chart''), tr1)
               else if str r ''app_version'' \<noteq> [] then (Inr (str r ''app_version''), tr1)
               else (Inr ''unknown'', tr1)))"

section \<open>Istio tools\<close>

record ComponentStatus =
  csName :: string
  csReady :: bool
  csReplicas :: int
  csAvailable :: int

record IstioStatus =
  isInstalled :: bool
  isVersion :: string
  isComponents :: "ComponentStatus list"
  isNamespace :: string
  isIssues :: "string list"

definition ComponentStatusJson :: "ComponentStatus \<Rightarrow> json" where
  "ComponentStatusJson c =
     JObj [(''name'', JStr (csName c)), (''ready'', JBool (csReady c)),
           (''replicas'', JInt (csReplicas c)), (''available'', JInt (csAvailable c))]"

definition IstioStatusJson :: "IstioStatus \<Rightarrow> json" where
  "IstioStatusJson st =
     JObj ([(''installed'', JBool (isInstalled st))]
           @ omitEmptyStr ''version'' (isVersion st)
           @ [(''components'', sliceJson (map ComponentStatusJson (isComponents st))),
              (''namespace'', JStr (isNamespace st))]
           @ omitEmptyStrings ''issues'' (isIssues st))"

text \<open>The three helm installs of \<open>install_istio\<close> and the gateway's.\<close>

definition installIstioBase :: "world \<Rightarrow> call list \<Rightarrow> string \<Rightarrow> string \<Rightarrow> bool \<Rightarrow> string
    \<Rightarrow> string option \<times> call list" where
  "installIstioBase w tr namespace version wait timeout =
     runHelm w tr ''helm install istio-base''
       ([''install'', ''istio-base'', ''istio/base'', ''--namespace'', namespace, ''--create-namespace'']
        @ versionArgs version @ waitArgs wait timeout)"

definition installIstiod :: "world \<Rightarrow> call list \<Rightarrow> string \<Rightarrow> string \<Rightarrow> (string \<times> json) list
    \<Rightarrow> bool \<Rightarrow> string \<Rightarrow> string option \<times> call list" where
  "installIstiod w tr namespace version values wait timeout =
     runHelm w tr ''helm install istiod''
       ([''install'', ''istiod'', ''istio/istiod'', ''--namespace'', namespace]
        @ versionArgs version @ waitArgs wait timeout @ setJsonArgs w tr values)"

definition installIstioGateway :: "world \<Rightarrow> call list \<Rightarrow> string \<Rightarrow> string \<Rightarrow> bool \<Rightarrow> string
    \<Rightarrow> string option \<times> call list" where
  "installIstioGateway w tr namespace version wait timeout =
     runHelm w tr ''helm install istio-ingress''
       ([''install'', ''istio-ingress'', ''istio/gateway'', ''--namespace'', namespace,
         ''--create-namespace'']
        @ versionArgs version @ waitArgs wait timeout)"

definition installIstioCNI :: "world \<Rightarrow> call list \<Rightarrow> string \<Rightarrow> string \<Rightarrow> (string \<times> json) list
    \<Rightarrow> bool \<Rightarrow> string \<Rightarrow> string option \<times> call list" where
  "installIstioCNI w tr namespace version values wait timeout =
     runHelm w tr ''helm install istio-cni''
       ([''install'', ''istio-cni'', ''istio/cni'', ''--namespace'', namespace]
        @ versionArgs version @ waitArgs wait timeout @ setJsonArgs w tr values)"

text \<open>The uninstalls.  For the gateway and the CNI agent a failure whose output says
  \<open>not found\<close> counts as done.\<close>

definition uninstallLenient :: "world \<Rightarrow> call list \<Rightarrow> string \<Rightarrow> string \<Rightarrow> bool \<Rightarrow> string
    \<Rightarrow> string option \<times> call list" where
  "uninstallLenient w tr release namespace wait timeout =
     (case run w tr ''helm'' ([''uninstall'', release, ''--namespace'', namespace] @ waitArgs wait timeout) of
        ((output, Some err), tr1) \<Rightarrow>
          if contains output ''not found'' then (None, tr1)
          else (Some (''helm uninstall '' @ release @ '' failed: '' @ err @ '', output: '' @ output), tr1)
      | ((output, None), tr1) \<Rightarrow> (None, tr1))"

definition uninstallIstioGateway :: "world \<Rightarrow> call list \<Rightarrow> string \<Rightarrow> bool \<Rightarrow> string
    \<Rightarrow> string option \<times> call list" where
  "uninstallIstioGateway w tr namespace wait timeout =
     uninstallLenient w tr ''istio-ingress'' namespace wait timeout"

definition uninstallIstioCNI :: "world \<Rightarrow> call list \<Rightarrow> string \<Rightarrow> bool \<Rightarrow> string
    \<Rightarrow> string option \<times> call list" where
  "uninstallIstioCNI w tr namespace wait timeout =
     uninstallLenient w tr ''istio-cni'' namespace wait timeout"

definition uninstallIstiod :: "world \<Rightarrow> call list \<Rightarrow> string \<Rightarrow> bool \<Rightarrow> string
    \<Rightarrow> string option \<times> call list" where
  "uninstallIstiod w tr namespace wait timeout =
     runHelm w tr ''helm uninstall istiod''
       ([''uninstall'', ''istiod'', ''--namespace'', namespace] @ waitArgs wait timeout)"

definition uninstallIstioBase :: "world \<Rightarrow> call list \<Rightarrow> string \<Rightarrow> bool \<Rightarrow> string
    \<Rightarrow> string option \<times> call list" where
  "uninstallIstioBase w tr namespace wait timeout =
     runHelm w tr ''helm uninstall istio-base''
       ([''uninstall'', ''istio-base'', ''--namespace'', namespace] @ waitArgs wait timeout)"

definition deleteIstioCRDs :: "world \<Rightarrow> call list \<Rightarrow> string option \<times> call list" where
  "deleteIstioCRDs w tr =
     (case run w tr ''kubectl'' [''get'', ''crd'', ''-oname''] of
        ((output, Some err), tr1) \<Rightarrow> (Some (''failed to get CRDs: '' @ err), tr1)
      | ((output, None), tr1) \<Rightarrow>
          (let istioCRDs = map trimSpace (filter (\<lambda>line. contains line ''istio.io'') (split output NL))
           in if istioCRDs \<noteq> [] then
                (case run w tr1 ''kubectl'' (''delete'' # istioCRDs) of
                   ((output2, Some err2), tr2) \<Rightarrow>
                     (Some (''failed to delete Istio CRDs: '' @ err2 @ '', output: '' @ output2), tr2)
                 | ((output2, None), tr2) \<Rightarrow> (None, tr2))
              else (None, tr1)))"

text \<open>
  \<open>getIstioStatus\<close>.  Only a not-found answer for the namespace ends it early; any
  other answer, an error included, lets it go on.  Its error result is always nil.
\<close>

definition ready :: "int \<Rightarrow> int \<Rightarrow> bool" where
  "ready have want = (have = want \<and> want > 0)"

definition getIstioStatus :: "world \<Rightarrow> call list \<Rightarrow> string
    \<Rightarrow> (IstioStatus option \<times> string option) \<times> call list" where
  "getIstioStatus w tr namespace =
     (let tr1 = tr @ [NamespacesGet namespace] in
      if IsNotFound (case getNamespace w tr namespace of Inl e \<Rightarrow> Some e | Inr n \<Rightarrow> None)
      then ((Some \<lparr>isInstalled = False, isVersion = [], isComponents = [],
                   isNamespace = namespace, isIssues = [''Istio namespace not found'']\<rparr>, None), tr1)
      else
        (let tr2 = tr1 @ [DaemonSetsGet namespace ''istio-cni-node''];
             (components1, issues1, installed1) =
               (case getDaemonSet w tr1 namespace ''istio-cni-node'' of
                  Inr cniDS \<Rightarrow>
                    (let r = ready (dsReady cniDS) (dsDesired cniDS) in
                     ([\<lparr>csName = ''istio-cni-node'', csReady = r, csReplicas = dsDesired cniDS,
                        csAvailable = dsReady cniDS\<rparr>],
                      (if \<not> r then [''istio-cni-node is not ready''] else []),
                      True))
                | Inl e \<Rightarrow> ([], [], False));
             tr3 = tr2 @ [DeploymentsList namespace ''app=istiod''];
             (components2, issues2, installed2) =
               (case listDeployments w tr2 namespace ''app=istiod'' of
                  Inl e \<Rightarrow>
                    (components1,
                     issues1 @ [''Failed to list istiod deployments: '' @ errorText e],
                     installed1)
                | Inr [] \<Rightarrow>
                    (components1 @ [\<lparr>csName = ''istiod'', csReady = False, csReplicas = 0,
                                     csAvailable = 0\<rparr>],
                     issues1, installed1)
                | Inr (deployment # ds) \<Rightarrow>
                    (let r = ready (depReady deployment) (depReplicas deployment) in
                     (components1 @ [\<lparr>csName = ''istiod'', csReady = r,
                                      csReplicas = depReplicas deployment,
                                      csAvailable = depAvailable deployment\<rparr>],
                      issues1 @ (if \<not> r then [''istiod is not ready''] else []),
                      True)))
         in case getIstioHelmReleaseVersion w tr3 namespace ''istiod'' of
              (helm, tr4) \<Rightarrow>
                ((Some \<lparr>isInstalled = installed2,
                        isVersion = (case helm of Inr helmVersion \<Rightarrow> helmVersion | Inl e \<Rightarrow> ''unknown''),
                        isComponents = components2, isNamespace = namespace,
                        isIssues = issues2\<rparr>, None), tr4)))"

definition InstallIstio_schema :: schema where
  "InstallIstio_schema = [(''namespace'', KString), (''version'', KString), (''values'', KMap),
     (''install_gateway'', KBool), (''gateway_namespace'', KString), (''install_cni'', KBool),
     (''cni_values'', KMap), (''timeout'', KString), (''wait'', KBool)]"

text \<open>The defaults of \<open>InstallIstio\<close>, set right after decoding and before anything else
  is done.\<close>

definition InstallIstio_defaults :: "params \<Rightarrow> params" where
  "InstallIstio_defaults p =
     always ''wait''
       (defaultStr ''timeout'' ''5m''
         (defaultStr ''gateway_namespace'' ''istio-ingress''
           (defaultStr ''namespace'' ''istio-system'' p)))"

text \<open>Setting \<open>pilot.cni.enabled = true\<close> in the istiod values when the CNI agent is
  installed: a \<open>pilot\<close> or a \<open>pilot.cni\<close> that is there but is no object is left alone.\<close>

definition enableCNI :: "(string \<times> json) list \<Rightarrow> (string \<times> json) list" where
  "enableCNI istiodValues =
     (case map_of istiodValues ''pilot'' of
        Some (JObj pm) \<Rightarrow>
          (let pilotMap = asMap pm in
           case map_of pilotMap ''cni'' of
             Some (JObj cm) \<Rightarrow>
               putKey ''pilot''
                 (JObj (putKey ''cni'' (JObj (putKey ''enabled'' (JBool True) (asMap cm))) pilotMap))
                 istiodValues
           | Some other \<Rightarrow> istiodValues
           | None \<Rightarrow>
               putKey ''pilot''
                 (JObj (putKey ''cni'' (JObj [(''enabled'', JBool True)]) pilotMap)) istiodValues)
      | Some other \<Rightarrow> istiodValues
      | None \<Rightarrow>
          putKey ''pilot'' (JObj [(''cni'', JObj [(''enabled'', JBool True)])]) istiodValues)"

definition InstallIstio :: "world \<Rightarrow> call list \<Rightarrow> raw_message \<Rightarrow> go_return \<times> call list" where
  "InstallIstio w tr args =
     (case Unmarshal InstallIstio_schema args of
        Inl err \<Rightarrow> (errorResult (''Invalid parameters: '' @ err), tr)
      | Inr p0 \<Rightarrow>
     (let p = InstallIstio_defaults p0;
          namespace = str p ''namespace''; version = str p ''version'';
          wait = flag p ''wait''; timeout = str p ''timeout'' in
      case checkHelmAvailable w tr of
        (Some err, tr1) \<Rightarrow>
          (errorResult (''Helm is not available: '' @ err
             @ ''. Please install Helm to use this feature.''), tr1)
      | (None, tr1) \<Rightarrow>
     (case addIstioHelmRepo w tr1 of
        (Some err, tr2) \<Rightarrow> (errorResult (''Failed to add Istio Helm repository: '' @ err), tr2)
      | (None, tr2) \<Rightarrow>
     (case (if flag p ''install_cni''
            then installIstioCNI w tr2 namespace version (obj p ''cni_values'') wait timeout
            else (None, tr2)) of
        (Some err, tr3) \<Rightarrow> (errorResult (''Failed to install Istio CNI: '' @ err), tr3)
      | (None, tr3) \<Rightarrow>
     (case installIstioBase w tr3 namespace version wait timeout of
        (Some err, tr4) \<Rightarrow> (errorResult (''Failed to install Istio base chart: '' @ err), tr4)
      | (None, tr4) \<Rightarrow>
     (let istiodValues = (if flag p ''install_cni'' then enableCNI (obj p ''values'')
                          else obj p ''values'') in
      case installIstiod w tr4 namespace version istiodValues wait timeout of
        (Some err, tr5) \<Rightarrow> (errorResult (''Failed to install Istio discovery chart: '' @ err), tr5)
      | (None, tr5) \<Rightarrow>
     (let message1 = ''Istio successfully installed using Helm in namespace '' @ SQ @ namespace @ SQ
            @ (if version \<noteq> [] then '' (version: '' @ version @ '')'' else [])
            @ (if flag p ''install_cni'' then '' with CNI node agent'' else []) in
      case (if flag p ''install_gateway''
            then (case installIstioGateway w tr5 (str p ''gateway_namespace'') version wait timeout of
                    (Some err, t) \<Rightarrow> (''. Warning: Gateway installation failed.'', t)
                  | (None, t) \<Rightarrow>
                      (''. Ingress gateway installed in namespace '' @ SQ
                         @ str p ''gateway_namespace'' @ SQ @ ''.'', t))
            else ([], tr5)) of
        (message2, tr6) \<Rightarrow>
     (case getIstioStatus w tr6 namespace of
        ((status, err), tr7) \<Rightarrow>
          (textResult (message1 @ message2
             @ (if (case status of Some st \<Rightarrow> isInstalled st | None \<Rightarrow> False)
                then '' Istio control plane is ready.''
                else '' Use check_istio_status to monitor the deployment status.'')), tr7)))))))))"

definition UninstallIstio_schema :: schema where
  "UninstallIstio_schema = [(''namespace'', KString), (''gateway_namespace'', KString),
     (''uninstall_cni'', KBool), (''delete_crds'', KBool), (''wait'', KBool), (''timeout'', KString)]"

definition UninstallIstio_defaults :: "params \<Rightarrow> params" where
  "UninstallIstio_defaults p =
     always ''wait''
       (defaultStr ''timeout'' ''5m''
         (defaultStr ''gateway_namespace'' ''istio-ingress''
           (defaultStr ''namespace'' ''istio-system'' p)))"

definition UninstallIstio :: "world \<Rightarrow> call list \<Rightarrow> raw_message \<Rightarrow> go_return \<times> call list" where
  "UninstallIstio w tr args =
     (case Unmarshal UninstallIstio_schema args of
        Inl err \<Rightarrow> (errorResult (''Invalid parameters: '' @ err), tr)
      | Inr p0 \<Rightarrow>
     (let p = UninstallIstio_defaults p0;
          namespace = str p ''namespace''; wait = flag p ''wait''; timeout = str p ''timeout'' in
      case checkHelmAvailable w tr of
        (Some err, tr1) \<Rightarrow>
          (errorResult (''Helm is not available: '' @ err
             @ ''. Please install Helm to use this feature.''), tr1)
      | (None, tr1) \<Rightarrow>
     (case uninstallIstioGateway w tr1 (str p ''gateway_namespace'') wait timeout of
        (gw, tr2) \<Rightarrow>
     (let messages1 = [case gw of
                         Some err \<Rightarrow> ''Warning: Gateway uninstall failed''
                       | None \<Rightarrow> ''Gateway uninstalled from namespace '' @ SQ
                                   @ str p ''gateway_namespace'' @ SQ] in
      case uninstallIstiod w tr2 namespace wait timeout of
        (Some err, tr3) \<Rightarrow> (errorResult (''Failed to uninstall Istio discovery: '' @ err), tr3)
      | (None, tr3) \<Rightarrow>
     (case uninstallIstioBase w tr3 namespace wait timeout of
        (Some err, tr4) \<Rightarrow> (errorResult (''Failed to uninstall Istio base: '' @ err), tr4)
      | (None, tr4) \<Rightarrow>
     (let messages2 = messages1 @ [''Istio discovery (istiod) uninstalled'', ''Istio base uninstalled''] in
      case (if flag p ''uninstall_cni''
            then (case uninstallIstioCNI w tr4 namespace wait timeout of
                    (Some err, t) \<Rightarrow> ([''Warning: CNI uninstall failed''], t)
                  | (None, t) \<Rightarrow> ([''Istio CNI uninstalled''], t))
            else ([], tr4)) of
        (messages3, tr5) \<Rightarrow>
     (case (if flag p ''delete_crds''
            then (case deleteIstioCRDs w tr5 of
                    (Some err, t) \<Rightarrow> ([''Warning: Failed to delete Istio CRDs''], t)
                  | (None, t) \<Rightarrow> ([''Istio CRDs deleted''], t))
            else ([], tr5)) of
        (messages4, tr6) \<Rightarrow>
          (textResult (''Istio successfully uninstalled using Helm. ''
             @ join (messages2 @ messages3 @ messages4) ''. ''), tr6))))))))"

definition CheckIstioStatus_schema :: schema where
  "CheckIstioStatus_schema = [(''namespace'', KString)]"

definition CheckIstioStatus :: "world \<Rightarrow> call list \<Rightarrow> raw_message \<Rightarrow> go_return \<times> call list" where
  "CheckIstioStatus w tr args =
     (case Unmarshal CheckIstioStatus_schema args of
        Inl err \<Rightarrow> (errorResult (''Invalid parameters: '' @ err), tr)
      | Inr p0 \<Rightarrow>
          (let p = defaultStr ''namespace'' ''istio-system'' p0 in
           case getIstioStatus w tr (str p ''namespace'') of
             ((status, Some err), tr1) \<Rightarrow> (errorResult (''Failed to get Istio status: '' @ err), tr1)
           | ((status, None), tr1) \<Rightarrow>
               (textResult (MarshalIndent
                  (case status of None \<Rightarrow> JNull | Some st \<Rightarrow> IstioStatusJson st)), tr1)))"

section \<open>Sail operator tools\<close>

record SailStatus =
  ssInstalled :: bool
  ssVersion :: string
  ssNamespace :: string
  ssReady :: bool
  ssReplicas :: int
  ssAvailable :: int
  ssIssues :: "string list"

definition SailStatusJson :: "SailStatus \<Rightarrow> json" where
  "SailStatusJson st =
     JObj ([(''installed'', JBool (ssInstalled st))]
           @ omitEmptyStr ''version'' (ssVersion st)
           @ [(''namespace'', JStr (ssNamespace st)), (''ready'', JBool (ssReady st)),
              (''replicas'', JInt (ssReplicas st)), (''available'', JInt (ssAvailable st))]
           @ omitEmptyStrings ''issues'' (ssIssues st))"

definition installSailOperatorWithHelm :: "world \<Rightarrow> call list \<Rightarrow> string \<Rightarrow> string \<Rightarrow> string
    \<Rightarrow> (string \<times> json) list \<Rightarrow> bool \<Rightarrow> string \<Rightarrow> string option \<times> call list" where
  "installSailOperatorWithHelm w tr namespace releaseName version values wait timeout =
     runHelm w tr ''helm install''
       ([''install'', releaseName, ''sail-operator/sail-operator'', ''--namespace'', namespace,
         ''--create-namespace'']
        @ versionArgs version @ waitArgs wait timeout @ setJsonArgs w tr values)"

definition uninstallSailOperatorWithHelm :: "world \<Rightarrow> call list \<Rightarrow> string \<Rightarrow> string
    \<Rightarrow> bool \<Rightarrow> string \<Rightarrow> string option \<times> call list" where
  "uninstallSailOperatorWithHelm w tr namespace releaseName wait timeout =
     runHelm w tr ''helm uninstall''
       ([''uninstall'', releaseName, ''--namespace'', namespace] @ waitArgs wait timeout)"

text \<open>The version read off the first container's image: what follows the last colon.\<close>

definition imageVersion :: "string list \<Rightarrow> string" where
  "imageVersion images =
     (case images of
        [] \<Rightarrow> ''unknown''
      | img # rest \<Rightarrow>
          if contains img '':'' then
            (let parts = split img '':'' in
             if length parts > 1 then last parts else ''unknown'')
          else ''unknown'')"

text \<open>Listing the operator's deployments under a label selector; \<open>what\<close> names the
  attempt in the error text.\<close>

definition listSail :: "world \<Rightarrow> call list \<Rightarrow> string \<Rightarrow> string \<Rightarrow> string
    \<Rightarrow> (string + Deployment list) \<times> call list" where
  "listSail w tr namespace selector what =
     (case listDeployments w tr namespace selector of
        Inl e \<Rightarrow> (Inl (''failed to list deployments'' @ what @ '': '' @ errorText e),
                  tr @ [DeploymentsList namespace selector])
      | Inr ds \<Rightarrow> (Inr ds, tr @ [DeploymentsList namespace selector]))"

definition sailStatusOf :: "world \<Rightarrow> call list \<Rightarrow> string \<Rightarrow> Deployment list
    \<Rightarrow> (SailStatus option \<times> string option) \<times> call list" where
  "sailStatusOf w tr namespace deployments =
     (case deployments of
        [] \<Rightarrow>
          ((Some \<lparr>ssInstalled = False, ssVersion = [], ssNamespace = namespace, ssReady = False,
                  ssReplicas = 0, ssAvailable = 0,
                  ssIssues = [''Sail operator deployment not found'']\<rparr>, None), tr)
      | deployment # rest \<Rightarrow>
          (let r = ready (depReady deployment) (depReplicas deployment);
               issues = (if \<not> r then [''Sail operator is not ready''] else []);
               version = imageVersion (depImages deployment)
           in case getIstioHelmReleaseVersion w tr namespace ''sail-operator'' of
                (helm, tr1) \<Rightarrow>
                  ((Some \<lparr>ssInstalled = True,
                          ssVersion = (case helm of Inr helmVersion \<Rightarrow> helmVersion | Inl e \<Rightarrow> version),
                          ssNamespace = namespace, ssReady = r,
                          ssReplicas = depReplicas deployment,
                          ssAvailable = depAvailable deployment, ssIssues = issues\<rparr>, None), tr1)))"

text \<open>\<open>getSailOperatorStatus\<close>: up to three label selectors are tried, each only while
  the list found so far is empty.\<close>

definition getSailOperatorStatus :: "world \<Rightarrow> call list \<Rightarrow> string
    \<Rightarrow> (SailStatus option \<times> string option) \<times> call list" where
  "getSailOperatorStatus w tr namespace =
     (case listSail w tr namespace ''app.kubernetes.io/component=sail-operator'' [] of
        (Inl err, tr1) \<Rightarrow> ((None, Some err), tr1)
      | (Inr ds1, tr1) \<Rightarrow>
     (case (if length ds1 = 0
            then listSail w tr1 namespace ''app.kubernetes.io/name=sail-operator''
                   '' with second selector''
            else (Inr ds1, tr1)) of
        (Inl err, tr2) \<Rightarrow> ((None, Some err), tr2)
      | (Inr ds2, tr2) \<Rightarrow>
     (case (if length ds2 = 0
            then listSail w tr2 namespace ''app=sail-operator'' '' with fallback selector''
            else (Inr ds2, tr2)) of
        (Inl err, tr3) \<Rightarrow> ((None, Some err), tr3)
      | (Inr ds3, tr3) \<Rightarrow> sailStatusOf w tr3 namespace ds3)))"

definition InstallSailOperator_schema :: schema where
  "InstallSailOperator_schema = [(''namespace'', KString), (''version'', KString),
     (''release_name'', KString), (''values'', KMap), (''wait'', KBool), (''timeout'', KString)]"

definition SailOperator_defaults :: "params \<Rightarrow> params" where
  "SailOperator_defaults p =
     always ''wait''
       (defaultStr ''timeout'' ''5m''
         (defaultStr ''release_name'' ''sail-operator''
           (defaultStr ''namespace'' ''sail-operator'' p)))"

definition InstallSailOperator :: "world \<Rightarrow> call list \<Rightarrow> raw_message \<Rightarrow> go_return \<times> call list" where
  "InstallSailOperator w tr args =
     (case Unmarshal InstallSailOperator_schema args of
        Inl err \<Rightarrow> (errorResult (''Invalid parameters: '' @ err), tr)
      | Inr p0 \<Rightarrow>
     (let p = SailOperator_defaults p0;
          namespace = str p ''namespace''; releaseName = str p ''release_name'' in
      case checkHelmAvailable w tr of
        (Some err, tr1) \<Rightarrow>
          (errorResult (''Helm is not available: '' @ err
             @ ''. Please install Helm to use this feature.''), tr1)
      | (None, tr1) \<Rightarrow>
     (case addSailOperatorHelmRepo w tr1 of
        (Some err, tr2) \<Rightarrow>
          (errorResult (''Failed to add Sail operator Helm repository: '' @ err), tr2)
      | (None, tr2) \<Rightarrow>
     (case installSailOperatorWithHelm w tr2 namespace releaseName (str p ''version'')
             (obj p ''values'') (flag p ''wait'') (str p ''timeout'') of
        (Some err, tr3) \<Rightarrow>
          (errorResult (''Failed to install Sail operator with Helm: '' @ err), tr3)
      | (None, tr3) \<Rightarrow>
     (case getSailOperatorStatus w tr3 namespace of
        ((status, err), tr4) \<Rightarrow>
          (textResult (''Sail operator successfully installed using Helm in namespace '' @ SQ
             @ namespace @ SQ @ '' with release name '' @ SQ @ releaseName @ SQ
             @ (if str p ''version'' \<noteq> [] then '' (version: '' @ str p ''version'' @ '')'' else [])
             @ (if (case status of Some st \<Rightarrow> ssReady st | None \<Rightarrow> False)
                then ''. Operator is ready and running.''
                else ''. Use check_sail_status to monitor the deployment status.'')), tr4))))))"

definition UninstallSailOperator_schema :: schema where
  "UninstallSailOperator_schema = [(''namespace'', KString), (''release_name'', KString),
     (''wait'', KBool), (''timeout'', KString)]"

definition UninstallSailOperator :: "world \<Rightarrow> call list \<Rightarrow> raw_message \<Rightarrow> go_return \<times> call list" where
  "UninstallSailOperator w tr args =
     (case Unmarshal UninstallSailOperator_schema args of
        Inl err \<Rightarrow> (errorResult (''Invalid parameters: '' @ err), tr)
      | Inr p0 \<Rightarrow>
     (let p = SailOperator_defaults p0;
          namespace = str p ''namespace''; releaseName = str p ''release_name'' in
      case checkHelmAvailable w tr of
        (Some err, tr1) \<Rightarrow>
          (errorResult (''Helm is not available: '' @ err
             @ ''. Please install Helm to use this feature.''), tr1)
      | (None, tr1) \<Rightarrow>
     (case uninstallSailOperatorWithHelm w tr1 namespace releaseName (flag p ''wait'')
             (str p ''timeout'') of
        (Some err, tr2) \<Rightarrow>
          (errorResult (''Failed to uninstall Sail operator with Helm: '' @ err), tr2)
      | (None, tr2) \<Rightarrow>
          (textResult (''Sail operator successfully uninstalled from namespace '' @ SQ @ namespace
             @ SQ @ '' (release: '' @ releaseName @ '')''), tr2))))"

definition CheckSailStatus_schema :: schema where
  "CheckSailStatus_schema = [(''namespace'', KString)]"

definition CheckSailStatus :: "world \<Rightarrow> call list \<Rightarrow> raw_message \<Rightarrow> go_return \<times> call list" where
  "CheckSailStatus w tr args =
     (case Unmarshal CheckSailStatus_schema args of
        Inl err \<Rightarrow> (errorResult (''Invalid parameters: '' @ err), tr)
      | Inr p0 \<Rightarrow>
          (let p = defaultStr ''namespace'' ''sail-operator'' p0 in
           case getSailOperatorStatus w tr (str p ''namespace'') of
             ((status, Some err), tr1) \<Rightarrow>
               (errorResult (''Failed to get Sail operator status: '' @ err), tr1)
           | ((status, None), tr1) \<Rightarrow>
               (textResult (MarshalIndent
                  (case status of None \<Rightarrow> JNull | Some st \<Rightarrow> SailStatusJson st)), tr1)))"

section \<open>Sample application tools\<close>

text \<open>A request that creates, updates or deletes an object and answers with an error
  or none.\<close>

definition request :: "world \<Rightarrow> call list \<Rightarrow> call \<Rightarrow> api_error option \<times> call list" where
  "request w tr c = (mutate w tr c, tr @ [c])"

text \<open>The shape shared by the create helpers: an object that is there already is fine,
  any other error is wrapped.\<close>

definition createUnlessExists :: "world \<Rightarrow> call list \<Rightarrow> call \<Rightarrow> string
    \<Rightarrow> string option \<times> call list" where
  "createUnlessExists w tr c what =
     (case request w tr c of
        (Some e, tr1) \<Rightarrow>
          if \<not> IsAlreadyExists (Some e) then (Some (what @ errorText e), tr1) else (None, tr1)
      | (None, tr1) \<Rightarrow> (None, tr1))"

definition mergeLabels :: "(string \<times> string) list \<Rightarrow> (string \<times> string) list
    \<Rightarrow> (string \<times> string) list" where
  "mergeLabels existing labels = foldl (\<lambda>m (k, v). putKey k v m) existing labels"

definition createOrUpdateNamespace :: "world \<Rightarrow> call list \<Rightarrow> string \<Rightarrow> bool
    \<Rightarrow> string option \<times> call list" where
  "createOrUpdateNamespace w tr name istioInjection =
     (let labels = (if istioInjection then [(''istio-injection'', ''enabled'')] else []) in
      case request w tr (NamespacesCreate name labels) of
        (err, tr1) \<Rightarrow>
          if IsAlreadyExists err then
            (let tr2 = tr1 @ [NamespacesGet name] in
             case getNamespace w tr1 name of
               Inl getErr \<Rightarrow> (Some (errorText getErr), tr2)
             | Inr existingNs \<Rightarrow>
                 (let existing = (case nsLabels existingNs of None \<Rightarrow> [] | Some ls \<Rightarrow> ls) in
                  case request w tr2 (NamespacesUpdate name (mergeLabels existing labels)) of
                    (Some e, tr3) \<Rightarrow>
                      (Some (''failed to update namespace labels: '' @ errorText e), tr3)
                  | (None, tr3) \<Rightarrow> (None, tr3)))
          else (map_option errorText err, tr1))"

definition createSleepServiceAccount :: "world \<Rightarrow> call list \<Rightarrow> string \<Rightarrow> string option \<times> call list" where
  "createSleepServiceAccount w tr namespace =
     createUnlessExists w tr (ServiceAccountsCreate namespace ''sleep'')
       ''failed to create service account: ''"

definition createSleepDeployment :: "world \<Rightarrow> call list \<Rightarrow> string \<Rightarrow> int
    \<Rightarrow> string option \<times> call list" where
  "createSleepDeployment w tr namespace replicas =
     createUnlessExists w tr (DeploymentsCreate namespace ''sleep'' replicas)
       ''failed to create deployment: ''"

definition createHttpbinServiceAccount :: "world \<Rightarrow> call list \<Rightarrow> string \<Rightarrow> string option \<times> call list" where
  "createHttpbinServiceAccount w tr namespace =
     createUnlessExists w tr (ServiceAccountsCreate namespace ''httpbin'')
       ''failed to create service account: ''"

definition createHttpbinDeployment :: "world \<Rightarrow> call list \<Rightarrow> string \<Rightarrow> int
    \<Rightarrow> string option \<times> call list" where
  "createHttpbinDeployment w tr namespace replicas =
     createUnlessExists w tr (DeploymentsCreate namespace ''httpbin'' replicas)
       ''failed to create deployment: ''"

definition createHttpbinService :: "world \<Rightarrow> call list \<Rightarrow> string \<Rightarrow> string option \<times> call list" where
  "createHttpbinService w tr namespace =
     createUnlessExists w tr (ServicesCreate namespace ''httpbin'') ''failed to create service: ''"

definition DeploySleepApp_schema :: schema where
  "DeploySleepApp_schema = [(''namespace'', KString), (''istio_injection'', KBool),
     (''replicas'', KInt 32)]"

definition DeploySleepApp_defaults :: "params \<Rightarrow> params" where
  "DeploySleepApp_defaults p =
     always ''istio_injection'' (defaultInt ''replicas'' 1 (defaultStr ''namespace'' ''default'' p))"

definition DeploySleepApp :: "world \<Rightarrow> call list \<Rightarrow> raw_message \<Rightarrow> go_return \<times> call list" where
  "DeploySleepApp w tr args =
     (case Unmarshal DeploySleepApp_schema args of
        Inl err \<Rightarrow> (errorResult (''Invalid parameters: '' @ err), tr)
      | Inr p0 \<Rightarrow>
     (let p = DeploySleepApp_defaults p0; namespace = str p ''namespace'' in
      case createOrUpdateNamespace w tr namespace (flag p ''istio_injection'') of
        (Some err, tr1) \<Rightarrow> (errorResult (''Failed to create/update namespace: '' @ err), tr1)
      | (None, tr1) \<Rightarrow>
     (case createSleepServiceAccount w tr1 namespace of
        (Some err, tr2) \<Rightarrow> (errorResult (''Failed to create service account: '' @ err), tr2)
      | (None, tr2) \<Rightarrow>
     (case createSleepDeployment w tr2 namespace (num p ''replicas'') of
        (Some err, tr3) \<Rightarrow> (errorResult (''Failed to create deployment: '' @ err), tr3)
      | (None, tr3) \<Rightarrow>
          (textResult (''Sleep app deployment initiated in namespace '' @ SQ @ namespace @ SQ
             @ '' with '' @ showInt (num p ''replicas'')
             @ '' replicas and Istio injection enabled''), tr3)))))"

definition DeployHttpbinApp_schema :: schema where
  "DeployHttpbinApp_schema = [(''namespace'', KString), (''istio_injection'', KBool),
     (''replicas'', KInt 32), (''expose_service'', KBool)]"

definition DeployHttpbinApp_defaults :: "params \<Rightarrow> params" where
  "DeployHttpbinApp_defaults p =
     always ''expose_service''
       (always ''istio_injection''
         (defaultInt ''replicas'' 1 (defaultStr ''namespace'' ''default'' p)))"

definition DeployHttpbinApp :: "world \<Rightarrow> call list \<Rightarrow> raw_message \<Rightarrow> go_return \<times> call list" where
  "DeployHttpbinApp w tr args =
     (case Unmarshal DeployHttpbinApp_schema args of
        Inl err \<Rightarrow> (errorResult (''Invalid parameters: '' @ err), tr)
      | Inr p0 \<Rightarrow>
     (let p = DeployHttpbinApp_defaults p0; namespace = str p ''namespace'' in
      case createOrUpdateNamespace w tr namespace (flag p ''istio_injection'') of
        (Some err, tr1) \<Rightarrow> (errorResult (''Failed to create/update namespace: '' @ err), tr1)
      | (None, tr1) \<Rightarrow>
     (case createHttpbinServiceAccount w tr1 namespace of
        (Some err, tr2) \<Rightarrow> (errorResult (''Failed to create service account: '' @ err), tr2)
      | (None, tr2) \<Rightarrow>
     (case createHttpbinDeployment w tr2 namespace (num p ''replicas'') of
        (Some err, tr3) \<Rightarrow> (errorResult (''Failed to create deployment: '' @ err), tr3)
      | (None, tr3) \<Rightarrow>
     (case (if flag p ''expose_service'' then createHttpbinService w tr3 namespace
            else (None, tr3)) of
        (Some err, tr4) \<Rightarrow> (errorResult (''Failed to create service: '' @ err), tr4)
      | (None, tr4) \<Rightarrow>
          (textResult (''Httpbin app deployment initiated in namespace '' @ SQ @ namespace @ SQ
             @ '' with '' @ showInt (num p ''replicas'')
             @ '' replicas, Istio injection enabled, and service exposed''), tr4))))))"

definition Undeploy_schema :: schema where
  "Undeploy_schema = [(''namespace'', KString)]"

text \<open>The two removals only log a failed delete; the result says that the removal was
  started whatever the answers were.\<close>

definition UndeploySleepApp :: "world \<Rightarrow> call list \<Rightarrow> raw_message \<Rightarrow> go_return \<times> call list" where
  "UndeploySleepApp w tr args =
     (case Unmarshal Undeploy_schema args of
        Inl err \<Rightarrow> (errorResult (''Invalid parameters: '' @ err), tr)
      | Inr p0 \<Rightarrow>
     (let p = defaultStr ''namespace'' ''default'' p0; namespace = str p ''namespace'' in
      case request w tr (DeploymentsDelete namespace ''sleep'') of
        (err1, tr1) \<Rightarrow>
     (case request w tr1 (ServiceAccountsDelete namespace ''sleep'') of
        (err2, tr2) \<Rightarrow>
          (textResult (''Sleep app removal initiated from namespace '' @ SQ @ namespace @ SQ), tr2))))"

definition UndeployHttpbinApp :: "world \<Rightarrow> call list \<Rightarrow> raw_message \<Rightarrow> go_return \<times> call list" where
  "UndeployHttpbinApp w tr args =
     (case Unmarshal Undeploy_schema args of
        Inl err \<Rightarrow> (errorResult (''Invalid parameters: '' @ err), tr)
      | Inr p0 \<Rightarrow>
     (let p = defaultStr ''namespace'' ''default'' p0; namespace = str p ''namespace'' in
      case request w tr (DeploymentsDelete namespace ''httpbin'') of
        (err1, tr1) \<Rightarrow>
     (case request w tr1 (ServicesDelete namespace ''httpbin'') of
        (err2, tr2) \<Rightarrow>
     (case request w tr2 (ServiceAccountsDelete namespace ''httpbin'') of
        (err3, tr3) \<Rightarrow>
          (textResult (''Httpbin app removal initiated from namespace '' @ SQ @ namespace @ SQ),
           tr3)))))"

section \<open>Running a command in a pod\<close>

text \<open>\<open>execCommandInPod\<close>: \<open>Inl\<close> is the error, \<open>Inr\<close> the standard output.  The context's
  timeout, when the caller set one, is part of the request.\<close>

definition execCommandInPod :: "world \<Rightarrow> call list \<Rightarrow> int option \<Rightarrow> string \<Rightarrow> string \<Rightarrow> string
    \<Rightarrow> string list \<Rightarrow> (string + string) \<times> call list" where
  "execCommandInPod w tr timeout namespace podName containerName command =
     (let tr1 = tr @ [PodsExec namespace podName containerName command timeout] in
      case execInPod w tr namespace podName containerName command of
        ExecutorError err \<Rightarrow> (Inl (''failed to create executor: '' @ err), tr1)
      | Streamed out errOut (Some err) \<Rightarrow>
          if length errOut > 0
          then (Inl (''command failed: '' @ err @ '', stderr: '' @ errOut), tr1)
          else (Inl (''command failed: '' @ err), tr1)
      | Streamed out errOut None \<Rightarrow> (Inr out, tr1))"

section \<open>Logging tools\<close>

record LogEntry =
  leTimestamp :: string
  leLevel :: string
  leMessage :: string
  leContainer :: string
  lePod :: string
  leNamespace :: string

record LogResult =
  lrPod :: string
  lrNamespace :: string
  lrContainer :: string
  lrLines :: int
  lrEntries :: "LogEntry list"
  lrRawLogs :: string
  lrTruncated :: bool

definition LogEntryJson :: "LogEntry \<Rightarrow> json" where
  "LogEntryJson e =
     JObj ([(''timestamp'', JStr (leTimestamp e))]
           @ omitEmptyStr ''level'' (leLevel e)
           @ [(''message'', JStr (leMessage e)), (''container'', JStr (leContainer e)),
              (''pod'', JStr (lePod e)), (''namespace'', JStr (leNamespace e))])"

definition LogResultJson :: "LogResult \<Rightarrow> json" where
  "LogResultJson r =
     JObj ([(''pod'', JStr (lrPod r)), (''namespace'', JStr (lrNamespace r)),
            (''container'', JStr (lrContainer r)), (''lines'', JInt (lrLines r))]
           @ (if lrEntries r = [] then [] else [(''entries'', JArr (map LogEntryJson (lrEntries r)))])
           @ omitEmptyStr ''raw_logs'' (lrRawLogs r)
           @ omitEmptyBool ''truncated'' (lrTruncated r))"

text \<open>The zero \<open>time.Time\<close> as \<open>encoding/json\<close> writes it.\<close>

definition zeroTime :: string where
  "zeroTime = ''0001-01-01T00:00:00Z''"

definition logLevel :: "string \<Rightarrow> string" where
  "logLevel message =
     (let m = toLower message in
      if contains m ''error'' \<or> contains m ''err'' then ''error''
      else if contains m ''warn'' then ''warning''
      else if contains m ''info'' then ''info''
      else if contains m ''debug'' then ''debug''
      else [])"

text \<open>\<open>parseLogLine\<close>: \<open>None\<close> is the nil entry of an empty line.  Every index into the
  line stands under the length test before it.\<close>

definition parseLogLine :: "world \<Rightarrow> string \<Rightarrow> string \<Rightarrow> string \<Rightarrow> string \<Rightarrow> LogEntry option" where
  "parseLogLine w line podName namespace container =
     (if length line = 0 then None
      else
        (let stamped =
               (if length line > 30 \<and> line ! 10 = CHR ''T'' \<and> line ! 19 = CHR ''.''
                then parseTime w (take 30 line) else None);
             timestamp = (case stamped of Some t \<Rightarrow> t | None \<Rightarrow> zeroTime);
             message = (case stamped of
                          Some t \<Rightarrow> if length line > 31 then drop 31 line else line
                        | None \<Rightarrow> line)
         in Some \<lparr>leTimestamp = timestamp, leLevel = logLevel message, leMessage = message,
                  leContainer = container, lePod = podName, leNamespace = namespace\<rparr>))"

text \<open>
  The loop of \<open>processLogs\<close>, \<open>for scanner.Scan() && lineCount < maxLines\<close>, over the lines
  the scanner still has.  \<open>Scan\<close> is called first: with no line left it returns false and
  the scanner's error, if there is one, is what \<open>scanner.Err()\<close> gives afterwards; with a
  line left and the bound reached the loop stops with no error seen.  The result is the
  line count, the raw text, the entries and \<open>scanner.Err()\<close>.
\<close>

fun scanLines :: "(string \<Rightarrow> LogEntry option) \<Rightarrow> int \<Rightarrow> string list \<Rightarrow> string option
    \<Rightarrow> int \<Rightarrow> string \<Rightarrow> LogEntry list \<Rightarrow> int \<times> string \<times> LogEntry list \<times> string option" where
  "scanLines parse maxLines [] scanErr lineCount rawLogs entries =
     (lineCount, rawLogs, entries, scanErr)"
| "scanLines parse maxLines (line # rest) scanErr lineCount rawLogs entries =
     (if lineCount < maxLines
      then scanLines parse maxLines rest scanErr (lineCount + 1) (rawLogs @ line @ NL)
             (case parse line of Some entry \<Rightarrow> entries @ [entry] | None \<Rightarrow> entries)
      else (lineCount, rawLogs, entries, None))"

definition processLogs :: "world \<Rightarrow> string list \<times> string option \<Rightarrow> string \<Rightarrow> string \<Rightarrow> string
    \<Rightarrow> bool \<Rightarrow> int \<Rightarrow> LogResult option \<times> string option" where
  "processLogs w logs podName namespace container parseLogs maxLines =
     (case scanLines (\<lambda>line. if parseLogs then parseLogLine w line podName namespace container
                               else None)
             maxLines (fst logs) (snd logs) 0 [] [] of
        (lineCount, rawLogs, entries, Some err) \<Rightarrow> (None, Some (''error reading logs: '' @ err))
      | (lineCount, rawLogs, entries, None) \<Rightarrow>
          (Some \<lparr>lrPod = podName, lrNamespace = namespace, lrContainer = container,
                  lrLines = lineCount, lrEntries = (if parseLogs then entries else []),
                  lrRawLogs = rawLogs, lrTruncated = (lineCount \<ge> maxLines)\<rparr>, None))"

definition GetPodLogs_schema :: schema where
  "GetPodLogs_schema = [(''pod_name'', KString), (''namespace'', KString), (''container'', KString),
     (''lines'', KInt64), (''since'', KString), (''follow'', KBool), (''previous'', KBool),
     (''timestamps'', KBool), (''parse_logs'', KBool), (''max_lines'', KInt 64)]"

definition GetPodLogs_defaults :: "params \<Rightarrow> params" where
  "GetPodLogs_defaults p =
     always ''timestamps''
       (defaultInt ''max_lines'' 1000
         (defaultInt ''lines'' 100 (defaultStr ''namespace'' ''default'' p)))"

definition GetPodLogs :: "world \<Rightarrow> call list \<Rightarrow> raw_message \<Rightarrow> go_return \<times> call list" where
  "GetPodLogs w tr args =
     (case Unmarshal GetPodLogs_schema args of
        Inl err \<Rightarrow> (errorResult (''Invalid parameters: '' @ err), tr)
      | Inr p0 \<Rightarrow>
     (let p = GetPodLogs_defaults p0;
          namespace = str p ''namespace''; podName = str p ''pod_name'';
          tr1 = tr @ [PodsGet namespace podName] in
      case getPod w tr namespace podName of
        Inl err \<Rightarrow> (errorResult (''Failed to get pod: '' @ errorText err), tr1)
      | Inr pod \<Rightarrow>
     (case (if str p ''container'' = []
            then (case pdContainers pod of c # cs \<Rightarrow> Some c | [] \<Rightarrow> None)
            else Some (str p ''container'')) of
        None \<Rightarrow> (errorResult ''No containers found in pod'', tr1)
      | Some container \<Rightarrow>
     (case (if str p ''since'' \<noteq> [] then durationError w (str p ''since'') else None) of
        Some err \<Rightarrow> (errorResult (''Invalid duration format: '' @ err), tr1)
      | None \<Rightarrow>
     (let logOptions = \<lparr>loContainer = container, loPrevious = flag p ''previous'',
                         loTimestamps = flag p ''timestamps'', loTailLines = num p ''lines'',
                         loSince = (if str p ''since'' \<noteq> [] then Some (str p ''since'') else None)\<rparr>;
          tr2 = tr1 @ [PodsGetLogs namespace podName logOptions] in
      case streamLogs w tr1 namespace podName logOptions of
        Inl err \<Rightarrow> (errorResult (''Failed to get logs: '' @ err), tr2)
      | Inr logs \<Rightarrow>
     (case processLogs w logs podName namespace container (flag p ''parse_logs'')
             (num p ''max_lines'') of
        (result, Some err) \<Rightarrow> (errorResult (''Failed to process logs: '' @ err), tr2)
      | (result, None) \<Rightarrow>
          (textResult (MarshalIndent
             (case result of None \<Rightarrow> JNull | Some r \<Rightarrow> LogResultJson r)), tr2)))))))"

definition GetIstioProxyLogs_schema :: schema where
  "GetIstioProxyLogs_schema = [(''pod_name'', KString), (''namespace'', KString),
     (''lines'', KInt64), (''since'', KString), (''log_level'', KString)]"

text \<open>
  \<open>GetIstioProxyLogs\<close> builds the arguments of \<open>GetPodLogs\<close> as a map, encodes it and
  hands the bytes over; the model hands over the JSON value that the bytes spell (the
  keys of a map are written sorted).  The filter by log level only writes a log line.
\<close>

definition GetIstioProxyLogs :: "world \<Rightarrow> call list \<Rightarrow> raw_message \<Rightarrow> go_return \<times> call list" where
  "GetIstioProxyLogs w tr args =
     (case Unmarshal GetIstioProxyLogs_schema args of
        Inl err \<Rightarrow> (errorResult (''Invalid parameters: '' @ err), tr)
      | Inr p0 \<Rightarrow>
     (let p = defaultInt ''lines'' 100 (defaultStr ''namespace'' ''default'' p0);
          proxyLogsArgs =
            [(''container'', JStr ''istio-proxy''), (''lines'', JInt (num p ''lines'')),
             (''namespace'', JStr (str p ''namespace'')), (''parse_logs'', JBool True),
             (''pod_name'', JStr (str p ''pod_name''))]
            @ (if str p ''since'' \<noteq> [] then [(''since'', JStr (str p ''since''))] else [])
            @ [(''timestamps'', JBool True)] in
      case GetPodLogs w tr (Wellformed (JObj proxyLogsArgs)) of
        ((result, Some err), tr1) \<Rightarrow> ((result, Some err), tr1)
      | ((result, None), tr1) \<Rightarrow> ((result, None), tr1)))"

definition ExecPodCommand_schema :: schema where
  "ExecPodCommand_schema = [(''pod_name'', KString), (''namespace'', KString),
     (''container'', KString), (''command'', KStrings), (''interactive'', KBool),
     (''timeout'', KInt 64)]"

text \<open>The result map of \<open>ExecPodCommand\<close>, its keys in the sorted order in which a map
  is written.\<close>

definition ExecResultJson :: "string \<Rightarrow> string \<Rightarrow> string \<Rightarrow> string list \<Rightarrow> string
    \<Rightarrow> string + string \<Rightarrow> json" where
  "ExecResultJson podName namespace container command timestamp outcome =
     JObj ([(''command'', JStr (join command '' '')), (''container'', JStr container)]
           @ (case outcome of Inl err \<Rightarrow> [(''error'', JStr err)] | Inr out \<Rightarrow> [])
           @ [(''namespace'', JStr namespace)]
           @ (case outcome of Inl err \<Rightarrow> [] | Inr out \<Rightarrow> [(''output'', JStr out)])
           @ [(''pod'', JStr podName),
              (''success'', JBool (case outcome of Inl err \<Rightarrow> False | Inr out \<Rightarrow> True)),
              (''timestamp'', JStr timestamp)])"

text \<open>The part of \<open>ExecPodCommand\<close> after the container is known: the check of the
  command, the execution and the result.\<close>

definition runPodCommand :: "world \<Rightarrow> call list \<Rightarrow> params \<Rightarrow> string \<Rightarrow> go_return \<times> call list" where
  "runPodCommand w tr p container =
     (if length (strs p ''command'') = 0 then (errorResult ''Command is required'', tr)
      else
        (case execCommandInPod w tr
                (if num p ''timeout'' > 0 then Some (num p ''timeout'') else None)
                (str p ''namespace'') (str p ''pod_name'') container (strs p ''command'') of
           (outcome, tr1) \<Rightarrow>
             (textResult (MarshalIndent
                (ExecResultJson (str p ''pod_name'') (str p ''namespace'') container
                   (strs p ''command'') (now w tr1) outcome)), tr1)))"

definition ExecPodCommand :: "world \<Rightarrow> call list \<Rightarrow> raw_message \<Rightarrow> go_return \<times> call list" where
  "ExecPodCommand w tr args =
     (case Unmarshal ExecPodCommand_schema args of
        Inl err \<Rightarrow> (errorResult (''Invalid parameters: '' @ err), tr)
      | Inr p0 \<Rightarrow>
     (let p = defaultStr ''namespace'' ''default'' p0;
          namespace = str p ''namespace''; podName = str p ''pod_name'' in
      if str p ''container'' = [] then
        (let tr1 = tr @ [PodsGet namespace podName] in
         case getPod w tr namespace podName of
           Inl err \<Rightarrow> (errorResult (''Failed to get pod: '' @ errorText err), tr1)
         | Inr pod \<Rightarrow>
             (case pdContainers pod of
                c # cs \<Rightarrow> runPodCommand w tr1 p c
              | [] \<Rightarrow> (errorResult ''No containers found in pod'', tr1)))
      else runPodCommand w tr p (str p ''container'')))"

section \<open>Connectivity tools\<close>

record PodInfo =
  piName :: string
  piNamespace :: string
  piIP :: string
  piNode :: string

record ConnectivityTestResult =
  crSource :: PodInfo
  crDestination :: PodInfo
  crSuccess :: bool
  crStatusCode :: int
  crResponse :: string
  crError :: string
  crDuration :: string
  crCommand :: string
  crTimestamp :: string

definition PodInfoJson :: "PodInfo \<Rightarrow> json" where
  "PodInfoJson i =
     JObj ([(''name'', JStr (piName i)), (''namespace'', JStr (piNamespace i))]
           @ omitEmptyStr ''ip'' (piIP i) @ omitEmptyStr ''node'' (piNode i))"

definition ConnectivityTestResultJson :: "ConnectivityTestResult \<Rightarrow> json" where
  "ConnectivityTestResultJson r =
     JObj ([(''source'', PodInfoJson (crSource r)), (''destination'', PodInfoJson (crDestination r)),
            (''success'', JBool (crSuccess r))]
           @ omitEmptyInt ''status_code'' (crStatusCode r)
           @ omitEmptyStr ''response'' (crResponse r)
           @ omitEmptyStr ''error'' (crError r)
           @ omitEmptyStr ''duration'' (crDuration r)
           @ [(''command'', JStr (crCommand r)), (''timestamp'', JStr (crTimestamp r))])"

definition podInfoOf :: "Pod \<Rightarrow> PodInfo" where
  "podInfoOf pod = \<lparr>piName = pdName pod, piNamespace = pdNamespace pod, piIP = pdIP pod,
                    piNode = pdNode pod\<rparr>"

text \<open>The argument of \<open>curl -w\<close>; the backslashes are in the argument as written.\<close>

definition curlFormat :: string where
  "curlFormat = BS @ ''nHTTP_CODE:%{http_code}'' @ BS @ ''nTIME_TOTAL:%{time_total}'' @ BS @ ''n''"

text \<open>
  Reading the status code out of the output of \<open>curl\<close>: the text between the first
  \<open>HTTP_CODE:\<close> and the end of its line is scanned as a number.  The result is the status
  code to report (\<open>0\<close> when none was read) and the success flag, which starts as true and
  is replaced only when a number was read.  (\<open>strings.Split\<close> never returns an empty
  slice, so the index \<open>[0]\<close> of the source is always in range.)
\<close>

definition httpStatus :: "string \<Rightarrow> int \<times> bool" where
  "httpStatus output =
     (if contains output ''HTTP_CODE:'' then
        (case split output ''HTTP_CODE:'' of
           first # second # rest \<Rightarrow>
             (case split second NL of
                codePart # lines \<Rightarrow>
                  (case sscanfInt codePart of
                     Some code \<Rightarrow> (code, code \<ge> 200 \<and> code < 400)
                   | None \<Rightarrow> (0, True))
              | [] \<Rightarrow> (0, True))
         | parts \<Rightarrow> (0, True))
      else (0, True))"

definition TestConnectivity_schema :: schema where
  "TestConnectivity_schema = [(''source_pod'', KString), (''source_namespace'', KString),
     (''target_service'', KString), (''target_port'', KInt 64), (''protocol'', KString),
     (''path'', KString), (''timeout'', KInt 64), (''method'', KString)]"

definition TestConnectivity_defaults :: "params \<Rightarrow> params" where
  "TestConnectivity_defaults p =
     defaultStr ''method'' ''GET''
       (defaultInt ''timeout'' 10
         (defaultStr ''path'' ''/''
           (defaultStr ''protocol'' ''http''
             (defaultStr ''source_namespace'' ''default'' p))))"

text \<open>The command of \<open>TestConnectivity\<close> for the protocol; \<open>None\<close> for a protocol that is
  not supported.\<close>

definition connectivityCommand :: "params \<Rightarrow> string list option" where
  "connectivityCommand p =
     (if str p ''protocol'' = ''http'' \<or> str p ''protocol'' = ''https'' then
        Some [''curl'', ''-s'', ''-w'', curlFormat, ''-X'', str p ''method'', ''--connect-timeout'',
              showInt (num p ''timeout''),
              str p ''protocol'' @ ''://'' @ str p ''target_service'' @ '':''
                @ showInt (num p ''target_port'') @ str p ''path'']
      else if str p ''protocol'' = ''tcp'' then
        Some [''nc'', ''-z'', ''-v'', ''-w'', showInt (num p ''timeout''), str p ''target_service'',
              showInt (num p ''target_port'')]
      else None)"

definition connectivityOutcome :: "params \<Rightarrow> Pod \<Rightarrow> string list \<Rightarrow> string \<Rightarrow> string
    \<Rightarrow> string + string \<Rightarrow> ConnectivityTestResult" where
  "connectivityOutcome p sourcePod command startTime duration outcome =
     (let status = (case outcome of
                      Inl err \<Rightarrow> (0, False)
                    | Inr output \<Rightarrow>
                        if str p ''protocol'' = ''http'' \<or> str p ''protocol'' = ''https''
                        then httpStatus output else (0, True))
      in \<lparr>crSource = podInfoOf sourcePod,
          crDestination = \<lparr>piName = str p ''target_service'', piNamespace = [],
                            piIP = str p ''target_service'', piNode = []\<rparr>,
          crSuccess = snd status, crStatusCode = fst status,
          crResponse = (case outcome of Inl err \<Rightarrow> [] | Inr output \<Rightarrow> output),
          crError = (case outcome of Inl err \<Rightarrow> err | Inr output \<Rightarrow> []),
          crDuration = duration, crCommand = join command '' '', crTimestamp = startTime\<rparr>)"

definition connectivityJson :: "ConnectivityTestResult \<Rightarrow> json" where
  "connectivityJson result =
     JObj [(''results'', JArr [ConnectivityTestResultJson result]),
           (''summary'', JStr (''Connectivity test from '' @ piName (crSource result) @ '' to ''
              @ piName (crDestination result) @ '': ''
              @ (if crSuccess result then ''SUCCESS'' else ''FAILED'')))]"

definition TestConnectivity :: "world \<Rightarrow> call list \<Rightarrow> raw_message \<Rightarrow> go_return \<times> call list" where
  "TestConnectivity w tr args =
     (case Unmarshal TestConnectivity_schema args of
        Inl err \<Rightarrow> (errorResult (''Invalid parameters: '' @ err), tr)
      | Inr p0 \<Rightarrow>
          if str p0 ''source_pod'' = [] then (errorResult ''source_pod is required'', tr)
          else if str p0 ''target_service'' = [] then (errorResult ''target_service is required'', tr)
          else if num p0 ''target_port'' = 0 then (errorResult ''target_port is required'', tr)
          else
     (let p = TestConnectivity_defaults p0;
          tr1 = tr @ [PodsGet (str p ''source_namespace'') (str p ''source_pod'')] in
      case getPod w tr (str p ''source_namespace'') (str p ''source_pod'') of
        Inl err \<Rightarrow> (errorResult (''Failed to get source pod: '' @ errorText err), tr1)
      | Inr sourcePod \<Rightarrow>
     (case connectivityCommand p of
        None \<Rightarrow> (errorResult (''Unsupported protocol: '' @ str p ''protocol''), tr1)
      | Some command \<Rightarrow>
     (case execCommandInPod w tr1 None (str p ''source_namespace'') (str p ''source_pod'')
             ''sleep'' command of
        (outcome, tr2) \<Rightarrow>
          (textResult (MarshalIndent (connectivityJson
             (connectivityOutcome p sourcePod command (now w tr1) (since w tr2) outcome))),
           tr2)))))"

definition TestSleepToHttpbin_schema :: schema where
  "TestSleepToHttpbin_schema = [(''source_namespace'', KString), (''target_namespace'', KString),
     (''test_endpoints'', KStrings), (''timeout'', KInt 64)]"

definition TestSleepToHttpbin_defaults :: "params \<Rightarrow> params" where
  "TestSleepToHttpbin_defaults p =
     defaultStrs ''test_endpoints'' [''/get'', ''/headers'', ''/status/200'', ''/delay/1'']
       (defaultInt ''timeout'' 10
         (defaultStr ''target_namespace'' ''default''
           (defaultStr ''source_namespace'' ''default'' p)))"

text \<open>The loop over the endpoints: one \<open>curl\<close> in the sleep pod for each, in order.\<close>

fun testEndpoints :: "world \<Rightarrow> call list \<Rightarrow> params \<Rightarrow> Pod \<Rightarrow> Service \<Rightarrow> string list
    \<Rightarrow> ConnectivityTestResult list \<times> call list" where
  "testEndpoints w tr p sleepPod httpbinService [] = ([], tr)"
| "testEndpoints w tr p sleepPod httpbinService (endpoint # rest) =
     (let url = ''http://'' @ ''httpbin.'' @ str p ''target_namespace'' @ ''.svc.cluster.local''
                  @ '':'' @ showInt 8000 @ endpoint;
          command = [''curl'', ''-s'', ''-w'', curlFormat, ''--connect-timeout'',
                     showInt (num p ''timeout''), url]
      in case execCommandInPod w tr None (pdNamespace sleepPod) (pdName sleepPod) ''sleep'' command of
           (outcome, tr1) \<Rightarrow>
             (let status = (case outcome of Inl err \<Rightarrow> (0, False) | Inr output \<Rightarrow> httpStatus output);
                  result = \<lparr>crSource = podInfoOf sleepPod,
                            crDestination = \<lparr>piName = ''httpbin'',
                              piNamespace = str p ''target_namespace'',
                              piIP = svcClusterIP httpbinService, piNode = []\<rparr>,
                            crSuccess = snd status, crStatusCode = fst status,
                            crResponse = (case outcome of Inl err \<Rightarrow> [] | Inr output \<Rightarrow> output),
                            crError = (case outcome of Inl err \<Rightarrow> err | Inr output \<Rightarrow> []),
                            crDuration = since w tr1, crCommand = join command '' '',
                            crTimestamp = now w tr\<rparr>
              in case testEndpoints w tr1 p sleepPod httpbinService rest of
                   (results, tr2) \<Rightarrow> (result # results, tr2)))"

definition sleepToHttpbinJson :: "ConnectivityTestResult list \<Rightarrow> json" where
  "sleepToHttpbinJson results =
     JObj [(''results'', sliceJson (map ConnectivityTestResultJson results)),
           (''summary'', JStr (''Sleep to Httpbin connectivity test completed: ''
              @ showInt (int (length (filter crSuccess results))) @ ''/''
              @ showInt (int (length results)) @ '' tests successful''))]"

definition TestSleepToHttpbin :: "world \<Rightarrow> call list \<Rightarrow> raw_message \<Rightarrow> go_return \<times> call list" where
  "TestSleepToHttpbin w tr args =
     (case Unmarshal TestSleepToHttpbin_schema args of
        Inl err \<Rightarrow> (errorResult (''Invalid parameters: '' @ err), tr)
      | Inr p0 \<Rightarrow>
     (let p = TestSleepToHttpbin_defaults p0;
          tr1 = tr @ [PodsList (str p ''source_namespace'') ''app=sleep''] in
      case listPods w tr (str p ''source_namespace'') ''app=sleep'' of
        Inl err \<Rightarrow> (errorResult (''Failed to list sleep pods: '' @ errorText err), tr1)
      | Inr [] \<Rightarrow> (errorResult ''No sleep pods found'', tr1)
      | Inr (sleepPod # others) \<Rightarrow>
     (let tr2 = tr1 @ [ServicesGet (str p ''target_namespace'') ''httpbin''] in
      case getService w tr1 (str p ''target_namespace'') ''httpbin'' of
        Inl err \<Rightarrow> (errorResult (''Failed to get httpbin service: '' @ errorText err), tr2)
      | Inr httpbinService \<Rightarrow>
     (case testEndpoints w tr2 p sleepPod httpbinService (strs p ''test_endpoints'') of
        (results, tr3) \<Rightarrow> (textResult (MarshalIndent (sleepToHttpbinJson results)), tr3)))))"

section \<open>Network tools\<close>

text \<open>
  The polling loop of \<open>getIptablesWithDebug\<close>, \<open>for time.Since(startTime) < maxWaitTime\<close>
  with thirty seconds to wait.  Time is counted in milliseconds: a round costs what its
  \<open>kubectl logs\<close> took plus the two seconds the loop sleeps on every path that does not
  leave it.  The loop leaves with the output once a round gave output and no error; when
  the time is up, the last round's output and error are what remains (none of either if
  there was no round).
\<close>

function pollLogs :: "world \<Rightarrow> string list \<Rightarrow> nat \<Rightarrow> string \<times> string option \<Rightarrow> call list
    \<Rightarrow> (string \<times> string option) \<times> call list" where
  "pollLogs w logsArgs elapsed lastRound tr =
     (if elapsed < 30000 then
        (case run w tr ''kubectl'' logsArgs of
           ((output, logsErr), tr1) \<Rightarrow>
             if logsErr = None \<and> length output > 0 then ((output, logsErr), tr1)
             else pollLogs w logsArgs (elapsed + spent w tr1 + 2000) (output, logsErr) tr1)
      else (lastRound, tr))"
  by pat_completeness auto
termination
  by (relation "measure (\<lambda>(w, logsArgs, elapsed, lastRound, tr). 30000 - elapsed)") auto

definition getIptablesWithDebug :: "world \<Rightarrow> call list \<Rightarrow> string \<Rightarrow> string \<Rightarrow> string
    \<Rightarrow> string list \<Rightarrow> (string + string) \<times> call list" where
  "getIptablesWithDebug w tr namespace podName table iptablesArgs =
     (let debugContainerName = ''debug-iptables-'' @ showInt (nowUnix w tr);
          kubectlArgs = [''debug'', podName, ''-n'', namespace, ''--image=istio/base'',
                         ''--profile=sysadmin'', ''--quiet'', ''--attach=false'', ''--stdin=false'',
                         ''-c'', debugContainerName, ''--'', ''iptables-nft''] @ iptablesArgs
      in case run w tr ''kubectl'' kubectlArgs of
           ((debugOutput, Some err), tr1) \<Rightarrow>
             (Inl (''failed to create ephemeral container: '' @ err @ '', output: '' @ debugOutput),
              tr1)
         | ((debugOutput, None), tr1) \<Rightarrow>
             (case pollLogs w [''logs'', podName, ''-n'', namespace, ''-c'', debugContainerName]
                     0 ([], None) tr1 of
                ((output, Some logsErr), tr2) \<Rightarrow>
                  (Inl (''failed to get logs from ephemeral container after 30s: '' @ logsErr
                        @ '', output: '' @ output), tr2)
              | ((output, None), tr2) \<Rightarrow> (Inr output, tr2)))"

text \<open>The loop over the tables of \<open>GetIptablesRules\<close>, filling the map from table name to
  rules: a failure is stored as text under the table's name.\<close>

fun queryTables :: "world \<Rightarrow> call list \<Rightarrow> string \<Rightarrow> string \<Rightarrow> bool \<Rightarrow> string list
    \<Rightarrow> (string \<times> string) list \<Rightarrow> (string \<times> string) list \<times> call list" where
  "queryTables w tr namespace podName verbose [] tables = (tables, tr)"
| "queryTables w tr namespace podName verbose (table # rest) tables =
     (let iptablesArgs = (if verbose then [''-t'', table, ''-L'', ''-v'', ''-n'', ''--line-numbers'']
                          else [''-t'', table, ''-L'', ''-n''])
      in case getIptablesWithDebug w tr namespace podName table iptablesArgs of
           (Inl err, tr1) \<Rightarrow>
             queryTables w tr1 namespace podName verbose rest (putKey table (''Error: '' @ err) tables)
         | (Inr output, tr1) \<Rightarrow>
             queryTables w tr1 namespace podName verbose rest (putKey table output tables))"

definition IptablesRulesJson :: "string \<Rightarrow> string \<Rightarrow> string \<Rightarrow> (string \<times> string) list
    \<Rightarrow> string \<Rightarrow> json" where
  "IptablesRulesJson podName namespace container tables timestamp =
     JObj [(''pod'', JStr podName), (''namespace'', JStr namespace), (''container'', JStr container),
           (''tables'', JObj (map (\<lambda>(k, v). (k, JStr v)) (sort_key fst tables))),
           (''timestamp'', JStr timestamp)]"

definition GetIptablesRules_schema :: schema where
  "GetIptablesRules_schema = [(''pod_name'', KString), (''namespace'', KString),
     (''container'', KString), (''tables'', KStrings), (''verbose'', KBool)]"

definition GetIptablesRules_defaults :: "params \<Rightarrow> params" where
  "GetIptablesRules_defaults p =
     defaultStrs ''tables'' [''filter'', ''nat'', ''mangle''] (defaultStr ''namespace'' ''default'' p)"

definition GetIptablesRules :: "world \<Rightarrow> call list \<Rightarrow> raw_message \<Rightarrow> go_return \<times> call list" where
  "GetIptablesRules w tr args =
     (case Unmarshal GetIptablesRules_schema args of
        Inl err \<Rightarrow> (errorResult (''Invalid parameters: '' @ err), tr)
      | Inr p0 \<Rightarrow>
     (let p = GetIptablesRules_defaults p0;
          namespace = str p ''namespace''; podName = str p ''pod_name'';
          tr1 = tr @ [PodsGet namespace podName] in
      case getPod w tr namespace podName of
        Inl err \<Rightarrow> (errorResult (''Failed to get pod: '' @ errorText err), tr1)
      | Inr pod \<Rightarrow>
     (let container =
            (if str p ''container'' = [] then
               (if \<not> (''istio-proxy'' \<in> set (pdContainers pod)) \<and> length (pdContainers pod) > 0
                then (case pdContainers pod of c # cs \<Rightarrow> c | [] \<Rightarrow> ''istio-proxy'')
                else ''istio-proxy'')
             else str p ''container'');
          timestamp = now w tr1
      in case queryTables w tr1 namespace podName (flag p ''verbose'') (strs p ''tables'') [] of
           (tables, tr2) \<Rightarrow>
             (textResult (MarshalIndent
                (IptablesRulesJson podName namespace container tables timestamp)), tr2))))"

text \<open>\<open>policyAppliesToPod\<close>.  A label the pod lacks reads as the empty string in the
  comparison of the match labels; an operator other than the four known ones decides
  nothing.\<close>

definition labelOf :: "(string \<times> string) list \<Rightarrow> string \<Rightarrow> string" where
  "labelOf podLabels key = (case map_of podLabels key of Some v \<Rightarrow> v | None \<Rightarrow> [])"

definition requirementHolds :: "(string \<times> string) list \<Rightarrow> Requirement \<Rightarrow> bool" where
  "requirementHolds podLabels expr =
     (case reqOp expr of
        OpIn \<Rightarrow> (case map_of podLabels (reqKey expr) of
                    None \<Rightarrow> False
                  | Some podValue \<Rightarrow> podValue \<in> set (reqValues expr))
      | OpNotIn \<Rightarrow> (case map_of podLabels (reqKey expr) of
                       None \<Rightarrow> True
                     | Some podValue \<Rightarrow> podValue \<notin> set (reqValues expr))
      | OpExists \<Rightarrow> map_of podLabels (reqKey expr) \<noteq> None
      | OpDoesNotExist \<Rightarrow> map_of podLabels (reqKey expr) = None
      | OpOther \<Rightarrow> True)"

definition policyAppliesToPod :: "NetworkPolicy \<Rightarrow> (string \<times> string) list \<Rightarrow> bool" where
  "policyAppliesToPod policy podLabels =
     (if length (npMatchLabels policy) = 0 \<and> length (npMatchExpressions policy) = 0 then True
      else list_all (\<lambda>(key, v). labelOf podLabels key = v) (npMatchLabels policy)
           \<and> list_all (requirementHolds podLabels) (npMatchExpressions policy))"

definition NetworkPolicyInfoJson :: "NetworkPolicy \<Rightarrow> json" where
  "NetworkPolicyInfoJson policy =
     JObj [(''name'', JStr (npName policy)), (''namespace'', JStr (npNamespace policy)),
           (''spec'', npSpec policy), (''status'', JStr ''active'')]"

definition GetNetworkPolicies_schema :: schema where
  "GetNetworkPolicies_schema = [(''namespace'', KString), (''pod_name'', KString),
     (''label_selector'', KString)]"

definition GetNetworkPolicies :: "world \<Rightarrow> call list \<Rightarrow> raw_message \<Rightarrow> go_return \<times> call list" where
  "GetNetworkPolicies w tr args =
     (case Unmarshal GetNetworkPolicies_schema args of
        Inl err \<Rightarrow> (errorResult (''Invalid parameters: '' @ err), tr)
      | Inr p0 \<Rightarrow>
     (let p = defaultStr ''namespace'' ''default'' p0;
          namespace = str p ''namespace''; podName = str p ''pod_name'';
          tr1 = tr @ [NetworkPoliciesList namespace (str p ''label_selector'')] in
      case listNetworkPolicies w tr namespace (str p ''label_selector'') of
        Inl err \<Rightarrow> (errorResult (''Failed to list network policies: '' @ errorText err), tr1)
      | Inr policies \<Rightarrow>
     (case (if podName \<noteq> []
            then (case getPod w tr1 namespace podName of
                    Inl err \<Rightarrow> (None, tr1 @ [PodsGet namespace podName])
                  | Inr pod \<Rightarrow> (pdLabels pod, tr1 @ [PodsGet namespace podName]))
            else (None, tr1)) of
        (podLabels, tr2) \<Rightarrow>
     (let policyInfos =
            filter (\<lambda>policy. case podLabels of
                                Some labels \<Rightarrow> podName = [] \<or> policyAppliesToPod policy labels
                              | None \<Rightarrow> True) policies
      in (textResult (MarshalIndent
            (JObj ([(''count'', JInt (int (length policyInfos)))]
                   @ (if podName \<noteq> [] then [(''filtered_for_pod'', JStr podName)] else [])
                   @ [(''namespace'', JStr namespace),
                      (''policies'', sliceJson (map NetworkPolicyInfoJson policyInfos))]))),
          tr2)))))"

text \<open>\<open>parseTracerouteOutput\<close>: of every line that is not empty and not a heading, the
  first two fields and, in brackets, the third if there is one.\<close>

definition hopOf :: "string \<Rightarrow> string list" where
  "hopOf rawLine =
     (let line = trimSpace rawLine in
      if line = [] \<or> hasPrefix line ''traceroute'' \<or> hasPrefix line ''tracepath'' then []
      else (case strFields line of
              f0 # f1 # f2 # fs \<Rightarrow> [f0 @ '' '' @ f1 @ '' ('' @ f2 @ '')'']
            | [f0, f1] \<Rightarrow> [f0 @ '' '' @ f1]
            | short \<Rightarrow> []))"

definition parseTracerouteOutput :: "string \<Rightarrow> string list" where
  "parseTracerouteOutput output = concat (map hopOf (split output NL))"

text \<open>\<open>addNetworkDiagnostics\<close> appends to the path and always returns a nil error.\<close>

definition addNetworkDiagnostics :: "world \<Rightarrow> call list \<Rightarrow> string list \<Rightarrow> string \<Rightarrow> string
    \<Rightarrow> (string list \<times> string option) \<times> call list" where
  "addNetworkDiagnostics w tr path namespace podName =
     (case execCommandInPod w tr None namespace podName ''sleep'' [''ip'', ''route''] of
        (route, tr1) \<Rightarrow>
     (let path1 = (case route of
                     Inr routeOutput \<Rightarrow>
                       path @ [''=== Routing Table ==='']
                         @ map (\<lambda>line. ''route: '' @ line)
                             (filter (\<lambda>line. trimSpace line \<noteq> []) (split routeOutput NL))
                   | Inl err \<Rightarrow> path) in
      case execCommandInPod w tr1 None namespace podName ''sleep'' [''ip'', ''addr''] of
        (ifs, tr2) \<Rightarrow>
          (((case ifs of
               Inr ifOutput \<Rightarrow>
                 path1 @ [''=== Network Interfaces ==='']
                   @ map (\<lambda>line. ''interface: '' @ line)
                       (filter (\<lambda>line. trimSpace line \<noteq> []
                                  \<and> (contains line ''inet'' \<or> contains line ''link''))
                          (split ifOutput NL))
             | Inl err \<Rightarrow> path1), None), tr2)))"

definition NetworkTraceJson :: "PodInfo \<Rightarrow> PodInfo \<Rightarrow> string list \<Rightarrow> bool \<Rightarrow> string list
    \<Rightarrow> string \<Rightarrow> json" where
  "NetworkTraceJson source destination path success issues timestamp =
     JObj ([(''source'', PodInfoJson source), (''destination'', PodInfoJson destination),
            (''path'', stringsJson path), (''success'', JBool success)]
           @ omitEmptyStrings ''issues'' issues
           @ [(''timestamp'', JStr timestamp)])"

definition TraceNetworkPath_schema :: schema where
  "TraceNetworkPath_schema = [(''source_pod'', KString), (''source_namespace'', KString),
     (''target_pod'', KString), (''target_namespace'', KString), (''target_host'', KString),
     (''target_port'', KInt 64), (''max_hops'', KInt 64)]"

definition TraceNetworkPath_defaults :: "params \<Rightarrow> params" where
  "TraceNetworkPath_defaults p =
     defaultInt ''max_hops'' 30
       (defaultStr ''target_namespace'' ''default'' (defaultStr ''source_namespace'' ''default'' p))"

text \<open>The part of \<open>TraceNetworkPath\<close> after the target is known: the traceroute (with
  \<open>tracepath\<close> as the second try), the diagnostics and the result.\<close>

definition tracePath :: "world \<Rightarrow> call list \<Rightarrow> params \<Rightarrow> Pod \<Rightarrow> string \<Rightarrow> string \<Rightarrow> PodInfo
    \<Rightarrow> go_return \<times> call list" where
  "tracePath w tr p sourcePod timestamp targetHost targetInfo =
     (let sourceNamespace = str p ''source_namespace''; sourcePodName = str p ''source_pod'';
          command = [''traceroute'', ''-n'', ''-m'', showInt (num p ''max_hops''), targetHost]
                    @ (if num p ''target_port'' > 0
                       then [''-p'', showInt (num p ''target_port'')] else []) in
      case execCommandInPod w tr None sourceNamespace sourcePodName ''sleep'' command of
        (first, tr1) \<Rightarrow>
     (case (case first of
              Inl err \<Rightarrow> execCommandInPod w tr1 None sourceNamespace sourcePodName ''sleep''
                           [''tracepath'', targetHost]
            | Inr output \<Rightarrow> (Inr output, tr1)) of
        (outcome, tr2) \<Rightarrow>
     (let success = (case outcome of Inl err \<Rightarrow> False | Inr output \<Rightarrow> True);
          issues1 = (case outcome of Inl err \<Rightarrow> [''Traceroute failed: '' @ err] | Inr output \<Rightarrow> []);
          path1 = (case outcome of Inl err \<Rightarrow> [] | Inr output \<Rightarrow> parseTracerouteOutput output) in
      case addNetworkDiagnostics w tr2 path1 sourceNamespace sourcePodName of
        ((path2, diagErr), tr3) \<Rightarrow>
          (textResult (MarshalIndent
             (NetworkTraceJson (podInfoOf sourcePod) targetInfo path2 success
                (issues1 @ (case diagErr of
                              Some err \<Rightarrow> [''Failed to get network diagnostics: '' @ err]
                            | None \<Rightarrow> []))
                timestamp)), tr3))))"

definition TraceNetworkPath :: "world \<Rightarrow> call list \<Rightarrow> raw_message \<Rightarrow> go_return \<times> call list" where
  "TraceNetworkPath w tr args =
     (case Unmarshal TraceNetworkPath_schema args of
        Inl err \<Rightarrow> (errorResult (''Invalid parameters: '' @ err), tr)
      | Inr p0 \<Rightarrow>
     (let p = TraceNetworkPath_defaults p0;
          sourceNamespace = str p ''source_namespace''; sourcePodName = str p ''source_pod'';
          tr1 = tr @ [PodsGet sourceNamespace sourcePodName] in
      case getPod w tr sourceNamespace sourcePodName of
        Inl err \<Rightarrow> (errorResult (''Failed to get source pod: '' @ errorText err), tr1)
      | Inr sourcePod \<Rightarrow>
     (let timestamp = now w tr1 in
      if str p ''target_pod'' \<noteq> [] then
        (let tr2 = tr1 @ [PodsGet (str p ''target_namespace'') (str p ''target_pod'')] in
         case getPod w tr1 (str p ''target_namespace'') (str p ''target_pod'') of
           Inl err \<Rightarrow> (errorResult (''Failed to get target pod: '' @ errorText err), tr2)
         | Inr targetPod \<Rightarrow>
             tracePath w tr2 p sourcePod timestamp (pdIP targetPod) (podInfoOf targetPod))
      else if str p ''target_host'' \<noteq> [] then
        tracePath w tr1 p sourcePod timestamp (str p ''target_host'')
          \<lparr>piName = str p ''target_host'', piNamespace = [],
            piIP = str p ''target_host'', piNode = []\<rparr>
      else (errorResult ''Either target_pod or target_host must be specified'', tr1))))"

section \<open>The dispatcher\<close>

text \<open>The names of the \<open>switch\<close> in \<open>ExecuteTool\<close>, in its order.\<close>

definition toolNames :: "string list" where
  "toolNames = [''list_contexts'', ''switch_context'', ''get_cluster_info'',
     ''install_istio'', ''uninstall_istio'', ''check_istio_status'',
     ''install_sail_operator'', ''uninstall_sail_operator'', ''check_sail_status'',
     ''deploy_sleep_app'', ''deploy_httpbin_app'', ''undeploy_sleep_app'', ''undeploy_httpbin_app'',
     ''test_connectivity'', ''test_sleep_to_httpbin'',
     ''get_pod_logs'', ''get_istio_proxy_logs'', ''exec_pod_command'',
     ''get_iptables_rules'', ''get_network_policies'', ''trace_network_path'']"

definition clientUnavailable :: string where
  "clientUnavailable =
     ''Kubernetes client not available. Please ensure kubeconfig is properly configured.''"

definition ExecuteTool :: "Manager \<Rightarrow> call list \<Rightarrow> string \<Rightarrow> raw_message \<Rightarrow> go_return \<times> call list" where
  "ExecuteTool m tr toolName args =
     (case k8sClient m of
        None \<Rightarrow> (errorResult clientUnavailable, tr)
      | Some w \<Rightarrow>
          if toolName = ''list_contexts'' then ListContexts w tr args
          else if toolName = ''switch_context'' then SwitchContext w tr args
          else if toolName = ''get_cluster_info'' then GetClusterInfo w tr args
          else if toolName = ''install_istio'' then InstallIstio w tr args
          else if toolName = ''uninstall_istio'' then UninstallIstio w tr args
          else if toolName = ''check_istio_status'' then CheckIstioStatus w tr args
          else if toolName = ''install_sail_operator'' then InstallSailOperator w tr args
          else if toolName = ''uninstall_sail_operator'' then UninstallSailOperator w tr args
          else if toolName = ''check_sail_status'' then CheckSailStatus w tr args
          else if toolName = ''deploy_sleep_app'' then DeploySleepApp w tr args
          else if toolName = ''deploy_httpbin_app'' then DeployHttpbinApp w tr args
          else if toolName = ''undeploy_sleep_app'' then UndeploySleepApp w tr args
          else if toolName = ''undeploy_httpbin_app'' then UndeployHttpbinApp w tr args
          else if toolName = ''test_connectivity'' then TestConnectivity w tr args
          else if toolName = ''test_sleep_to_httpbin'' then TestSleepToHttpbin w tr args
          else if toolName = ''get_pod_logs'' then GetPodLogs w tr args
          else if toolName = ''get_istio_proxy_logs'' then GetIstioProxyLogs w tr args
          else if toolName = ''exec_pod_command'' then ExecPodCommand w tr args
          else if toolName = ''get_iptables_rules'' then GetIptablesRules w tr args
          else if toolName = ''get_network_policies'' then GetNetworkPolicies w tr args
          else if toolName = ''trace_network_path'' then TraceNetworkPath w tr args
          else (errorResult (''Unknown tool: '' @ toolName), tr))"

section \<open>Notions used in the statements\<close>

text \<open>
  A result as the claims describe it: a result that is there, no error beside it, and in
  it exactly one content block, of type \<open>text\<close>, whose text is not empty.
\<close>

definition oneTextBlock :: "go_return \<Rightarrow> bool" where
  "oneTextBlock r =
     (case r of
        (Some res, None) \<Rightarrow>
          (case Content res of [b] \<Rightarrow> Type b = ''text'' \<and> Text b \<noteq> [] | _ \<Rightarrow> False)
      | _ \<Rightarrow> False)"


definition errorFlag :: "go_return \<Rightarrow> bool" where
  "errorFlag r = (case r of (Some res, e) \<Rightarrow> IsError res | (None, e) \<Rightarrow> False)"

definition decodingTools :: "string list" where
  "decodingTools = [''switch_context'',
     ''install_istio'', ''uninstall_istio'', ''check_istio_status'',
     ''install_sail_operator'', ''uninstall_sail_operator'', ''check_sail_status'',
     ''deploy_sleep_app'', ''deploy_httpbin_app'', ''undeploy_sleep_app'', ''undeploy_httpbin_app'',
     ''test_connectivity'', ''test_sleep_to_httpbin'',
     ''get_pod_logs'', ''get_istio_proxy_logs'', ''exec_pod_command'',
     ''get_iptables_rules'', ''get_network_policies'', ''trace_network_path'']"

definition schemaOf :: "string \<Rightarrow> schema" where
  "schemaOf toolName =
     (if toolName = ''switch_context'' then SwitchContext_schema
      else if toolName = ''install_istio'' then InstallIstio_schema
      else if toolName = ''uninstall_istio'' then UninstallIstio_schema
      else if toolName = ''check_istio_status'' then CheckIstioStatus_schema
      else if toolName = ''install_sail_operator'' then InstallSailOperator_schema
      else if toolName = ''uninstall_sail_operator'' then UninstallSailOperator_schema
      else if toolName = ''check_sail_status'' then CheckSailStatus_schema
      else if toolName = ''deploy_sleep_app'' then DeploySleepApp_schema
      else if toolName = ''deploy_httpbin_app'' then DeployHttpbinApp_schema
      else if toolName = ''undeploy_sleep_app'' then Undeploy_schema
      else if toolName = ''undeploy_httpbin_app'' then Undeploy_schema
      else if toolName = ''test_connectivity'' then TestConnectivity_schema
      else if toolName = ''test_sleep_to_httpbin'' then TestSleepToHttpbin_schema
      else if toolName = ''get_pod_logs'' then GetPodLogs_schema
      else if toolName = ''get_istio_proxy_logs'' then GetIstioProxyLogs_schema
      else if toolName = ''exec_pod_command'' then ExecPodCommand_schema
      else if toolName = ''get_iptables_rules'' then GetIptablesRules_schema
      else if toolName = ''get_network_policies'' then GetNetworkPolicies_schema
      else if toolName = ''trace_network_path'' then TraceNetworkPath_schema
      else [])"

definition stubPod :: "string \<Rightarrow> string \<Rightarrow> Pod" where
  "stubPod namespace name =
     \<lparr>pdName = name, pdNamespace = namespace, pdIP = ''10.244.0.7'', pdNode = ''node-1'',
      pdContainers = [''sleep''], pdLabels = None\<rparr>"

definition stubConfig :: Kubeconfig where
  "stubConfig =
     \<lparr>kcContexts = [(''dev'', \<lparr>ctxCluster = ''dev-cluster'', ctxAuthInfo = ''dev-user'',
                               ctxNamespace = ''default''\<rparr>),
                     (''prod'', \<lparr>ctxCluster = ''prod-cluster'', ctxAuthInfo = ''prod-user'',
                                ctxNamespace = ''default''\<rparr>)],
      kcCurrent = ''dev''\<rparr>"

definition curlOutput :: "string \<Rightarrow> string" where
  "curlOutput code = ''ok'' @ NL @ ''HTTP_CODE:'' @ code @ NL @ ''TIME_TOTAL:0.012'' @ NL"

definition stubWorld :: world where
  "stubWorld =
     \<lparr>getPod = (\<lambda>tr namespace name.
         if name = [] then Inl (ApiError OtherReason ''resource name may not be empty'')
         else Inr (stubPod namespace name)),
      listPods = (\<lambda>tr namespace selector. Inr [stubPod namespace ''sleep-abcde'']),
      streamLogs = (\<lambda>tr namespace name opts. Inr ([], None)),
      execInPod = (\<lambda>tr namespace name container command. Streamed (curlOutput ''200'') [] None),
      getService = (\<lambda>tr namespace name. Inr \<lparr>svcClusterIP = ''10.96.0.10''\<rparr>),
      getNamespace = (\<lambda>tr name. Inr \<lparr>nsLabels = None\<rparr>),
      listNamespaces = (\<lambda>tr. Inr [''default'']),
      listNodes = (\<lambda>tr. Inr 1),
      serverVersion = (\<lambda>tr. Inr ''v1.30.0''),
      listDeployments = (\<lambda>tr namespace selector. Inr []),
      getDaemonSet = (\<lambda>tr namespace name. Inl (ApiError NotFound ''daemonsets.apps not found'')),
      listNetworkPolicies = (\<lambda>tr namespace selector. Inr []),
      mutate = (\<lambda>tr c. None),
      runCommand = (\<lambda>tr prog args. ([], None)),
      rawConfig = (\<lambda>tr. Inr stubConfig),
      startingConfig = (\<lambda>tr. Inr stubConfig),
      modifyConfig = (\<lambda>tr name. None),
      configHost = ''https://127.0.0.1:6443'',
      now = (\<lambda>tr. ''2024-01-01T00:00:00Z''),
      nowUnix = (\<lambda>tr. 1704067200),
      since = (\<lambda>tr. ''12ms''),
      spent = (\<lambda>tr. 100),
      rangeOrder = (\<lambda>tr keys. if length tr \<le> 1 then keys else rev keys),
      parseTime = (\<lambda>s. None),
      durationError = (\<lambda>s. None),
      scanJson = (\<lambda>s. Malformed ''unexpected end of JSON input'')\<rparr>"


definition anyPodWorld :: world where
  "anyPodWorld = stubWorld\<lparr>getPod := (\<lambda>tr namespace name. Inr (stubPod namespace name))\<rparr>"

text \<open>The requests an invocation made: what it added to the history it was given.\<close>

definition callsMade :: "call list \<Rightarrow> go_return \<times> call list \<Rightarrow> call list" where
  "callsMade tr x = drop (length tr) (snd x)"

text \<open>The argument lists of the \<open>helm install\<close> commands among some requests.\<close>

definition helmInstalls :: "call list \<Rightarrow> string list list" where
  "helmInstalls calls =
     List.map_filter
       (\<lambda>c. case c of
              Command prog args \<Rightarrow>
                if prog = ''helm'' \<and> take 1 args = [''install''] then Some args else None
            | _ \<Rightarrow> None) calls"

text \<open>Two notions for the proofs: a request that, if it is a \<open>helm install\<close>, has one
  of the given argument lists; and a history that extends another by requests that are
  all of a given kind.\<close>

definition installsWithin :: "string list set \<Rightarrow> call \<Rightarrow> bool" where
  "installsWithin S c =
     (case c of
        Command prog args \<Rightarrow> prog = ''helm'' \<and> take 1 args = [''install''] \<longrightarrow> args \<in> S
      | _ \<Rightarrow> True)"

definition madeOnly :: "(call \<Rightarrow> bool) \<Rightarrow> call list \<Rightarrow> call list \<Rightarrow> bool" where
  "madeOnly good tr t = (take (length tr) t = tr \<and> list_all good (drop (length tr) t))"



text \<open>Properties of the requests of one kind: the namespace and the replica count of the
  deployments created, the options of the log requests, the commands run in pods.\<close>

definition deployments :: "(string \<Rightarrow> int \<Rightarrow> bool) \<Rightarrow> call \<Rightarrow> bool" where
  "deployments P c = (case c of DeploymentsCreate namespace name replicas \<Rightarrow> P namespace replicas | _ \<Rightarrow> True)"



text \<open>What \<open>curl -s -w\<close> with the format of \<open>TestConnectivity\<close> prints for a response with
  the given body and status code: the body, then the trailer that the format asks for.
  \<open>echoOutput\<close> is the output for a response with status 200 whose body is the text
  \<open>HTTP_CODE:503\<close>, and \<open>echoWorld\<close> a world in which every command prints it.\<close>

definition curlPrints :: "string \<Rightarrow> string \<Rightarrow> string" where
  "curlPrints body code = body @ NL @ ''HTTP_CODE:'' @ code @ NL @ ''TIME_TOTAL:0.012'' @ NL"

definition echoOutput :: string where
  "echoOutput = curlPrints ''HTTP_CODE:503'' ''200''"

definition echoWorld :: world where
  "echoWorld = stubWorld\<lparr>execInPod :=
     (\<lambda>tr namespace name container command. Streamed echoOutput [] None)\<rparr>"

text \<open>
  The texts of the results.  A diagnostic begins with one of the phrases with which the
  dispatcher and the handlers open the text of a result whose error flag they set.  The
  twelve tools of \<open>structuredTools\<close> answer with the indented JSON encoding of a value; the
  other nine answer with a sentence that begins with the tool's \<open>completionPhrase\<close>.
\<close>

definition diagnosticPhrases :: "string list" where
  "diagnosticPhrases =
     [''Kubernetes client not available'', ''Unknown tool: '', ''Invalid parameters: '',
      ''Failed to '', ''Helm is not available: '', ''No containers found in pod'',
      ''No sleep pods found'', ''Unsupported protocol: '', ''Invalid duration format: '',
      ''Context name is required'', ''Context '' @ SQ, ''Command is required'',
      ''source_pod is required'', ''target_service is required'', ''target_port is required'',
      ''Either target_pod or target_host must be specified'']"

definition diagnostic :: "string \<Rightarrow> bool" where
  "diagnostic msg = list_ex (hasPrefix msg) diagnosticPhrases"




section \<open>Lemmas\<close>

subsection \<open>Every result is one text block\<close>

text \<open>The handlers are case distinctions whose leaves are \<open>errorResult\<close> or \<open>textResult\<close>
  of a text that is not empty; the rules below walk down the case distinctions.\<close>

lemma showNat_nonempty: "showNat n \<noteq> []"
  by (subst showNat.simps) simp

lemma showInt_nonempty: "showInt i \<noteq> []"
  by (simp add: showInt_def showNat_nonempty)

lemma quote_nonempty: "quote s \<noteq> []"
  by (simp add: quote_def DQ_def)

lemma encodeIndent_nonempty: "encodeIndent d v \<noteq> []"
  by (cases v) (simp_all add: showInt_nonempty quote_nonempty floatText_def showNat_nonempty)

lemma MarshalIndent_nonempty [simp]: "MarshalIndent v \<noteq> []"
  by (simp add: MarshalIndent_def encodeIndent_nonempty)

lemma oneTextBlock_errorResult [simp]: "oneTextBlock (errorResult msg) = (msg \<noteq> [])"
  by (simp add: oneTextBlock_def errorResult_def)

lemma oneTextBlock_textResult [simp]: "oneTextBlock (textResult msg) = (msg \<noteq> [])"
  by (simp add: oneTextBlock_def textResult_def)





subsection \<open>Payloads that do not decode, and the dispatch\<close>

lemma invalid_SwitchContext: "Unmarshal SwitchContext_schema args = Inl e \<Longrightarrow>
    SwitchContext w tr args = (errorResult (''Invalid parameters: '' @ e), tr)"
  by (simp add: SwitchContext_def)
lemma invalid_InstallIstio: "Unmarshal InstallIstio_schema args = Inl e \<Longrightarrow>
    InstallIstio w tr args = (errorResult (''Invalid parameters: '' @ e), tr)"
  by (simp add: InstallIstio_def)
lemma invalid_UninstallIstio: "Unmarshal UninstallIstio_schema args = Inl e \<Longrightarrow>
    UninstallIstio w tr args = (errorResult (''Invalid parameters: '' @ e), tr)"
  by (simp add: UninstallIstio_def)
lemma invalid_CheckIstioStatus: "Unmarshal CheckIstioStatus_schema args = Inl e \<Longrightarrow>
    CheckIstioStatus w tr args = (errorResult (''Invalid parameters: '' @ e), tr)"
  by (simp add: CheckIstioStatus_def)
lemma invalid_InstallSailOperator: "Unmarshal InstallSailOperator_schema args = Inl e \<Longrightarrow>
    InstallSailOperator w tr args = (errorResult (''Invalid parameters: '' @ e), tr)"
  by (simp add: InstallSailOperator_def)
lemma invalid_UninstallSailOperator: "Unmarshal UninstallSailOperator_schema args = Inl e \<Longrightarrow>
    UninstallSailOperator w tr args = (errorResult (''Invalid parameters: '' @ e), tr)"
  by (simp add: UninstallSailOperator_def)
lemma invalid_CheckSailStatus: "Unmarshal CheckSailStatus_schema args = Inl e \<Longrightarrow>
    CheckSailStatus w tr args = (errorResult (''Invalid parameters: '' @ e), tr)"
  by (simp add: CheckSailStatus_def)
lemma invalid_DeploySleepApp: "Unmarshal DeploySleepApp_schema args = Inl e \<Longrightarrow>
    DeploySleepApp w tr args = (errorResult (''Invalid parameters: '' @ e), tr)"
  by (simp add: DeploySleepApp_def)
lemma invalid_DeployHttpbinApp: "Unmarshal DeployHttpbinApp_schema args = Inl e \<Longrightarrow>
    DeployHttpbinApp w tr args = (errorResult (''Invalid parameters: '' @ e), tr)"
  by (simp add: DeployHttpbinApp_def)
lemma invalid_UndeploySleepApp: "Unmarshal Undeploy_schema args = Inl e \<Longrightarrow>
    UndeploySleepApp w tr args = (errorResult (''Invalid parameters: '' @ e), tr)"
  by (simp add: UndeploySleepApp_def)
lemma invalid_UndeployHttpbinApp: "Unmarshal Undeploy_schema args = Inl e \<Longrightarrow>
    UndeployHttpbinApp w tr args = (errorResult (''Invalid parameters: '' @ e), tr)"
  by (simp add: UndeployHttpbinApp_def)
lemma invalid_TestConnectivity: "Unmarshal TestConnectivity_schema args = Inl e \<Longrightarrow>
    TestConnectivity w tr args = (errorResult (''Invalid parameters: '' @ e), tr)"
  by (simp add: TestConnectivity_def)
lemma invalid_TestSleepToHttpbin: "Unmarshal TestSleepToHttpbin_schema args = Inl e \<Longrightarrow>
    TestSleepToHttpbin w tr args = (errorResult (''Invalid parameters: '' @ e), tr)"
  by (simp add: TestSleepToHttpbin_def)
lemma invalid_GetPodLogs: "Unmarshal GetPodLogs_schema args = Inl e \<Longrightarrow>
    GetPodLogs w tr args = (errorResult (''Invalid parameters: '' @ e), tr)"
  by (simp add: GetPodLogs_def)
lemma invalid_GetIstioProxyLogs: "Unmarshal GetIstioProxyLogs_schema args = Inl e \<Longrightarrow>
    GetIstioProxyLogs w tr args = (errorResult (''Invalid parameters: '' @ e), tr)"
  by (simp add: GetIstioProxyLogs_def)
lemma invalid_ExecPodCommand: "Unmarshal ExecPodCommand_schema args = Inl e \<Longrightarrow>
    ExecPodCommand w tr args = (errorResult (''Invalid parameters: '' @ e), tr)"
  by (simp add: ExecPodCommand_def)
lemma invalid_GetIptablesRules: "Unmarshal GetIptablesRules_schema args = Inl e \<Longrightarrow>
    GetIptablesRules w tr args = (errorResult (''Invalid parameters: '' @ e), tr)"
  by (simp add: GetIptablesRules_def)
lemma invalid_GetNetworkPolicies: "Unmarshal GetNetworkPolicies_schema args = Inl e \<Longrightarrow>
    GetNetworkPolicies w tr args = (errorResult (''Invalid parameters: '' @ e), tr)"
  by (simp add: GetNetworkPolicies_def)
lemma invalid_TraceNetworkPath: "Unmarshal TraceNetworkPath_schema args = Inl e \<Longrightarrow>
    TraceNetworkPath w tr args = (errorResult (''Invalid parameters: '' @ e), tr)"
  by (simp add: TraceNetworkPath_def)

lemmas handlers_invalid = invalid_SwitchContext invalid_InstallIstio invalid_UninstallIstio
  invalid_CheckIstioStatus invalid_InstallSailOperator invalid_UninstallSailOperator
  invalid_CheckSailStatus invalid_DeploySleepApp invalid_DeployHttpbinApp
  invalid_UndeploySleepApp invalid_UndeployHttpbinApp invalid_TestConnectivity
  invalid_TestSleepToHttpbin invalid_GetPodLogs invalid_GetIstioProxyLogs
  invalid_ExecPodCommand invalid_GetIptablesRules invalid_GetNetworkPolicies
  invalid_TraceNetworkPath

lemma dispatch:
  assumes "k8sClient m = Some w"
  shows "ExecuteTool m tr ''list_contexts'' args = ListContexts w tr args"
    "ExecuteTool m tr ''switch_context'' args = SwitchContext w tr args"
    "ExecuteTool m tr ''get_cluster_info'' args = GetClusterInfo w tr args"
    "ExecuteTool m tr ''install_istio'' args = InstallIstio w tr args"
    "ExecuteTool m tr ''uninstall_istio'' args = UninstallIstio w tr args"
    "ExecuteTool m tr ''check_istio_status'' args = CheckIstioStatus w tr args"
    "ExecuteTool m tr ''install_sail_operator'' args = InstallSailOperator w tr args"
    "ExecuteTool m tr ''uninstall_sail_operator'' args = UninstallSailOperator w tr args"
    "ExecuteTool m tr ''check_sail_status'' args = CheckSailStatus w tr args"
    "ExecuteTool m tr ''deploy_sleep_app'' args = DeploySleepApp w tr args"
    "ExecuteTool m tr ''deploy_httpbin_app'' args = DeployHttpbinApp w tr args"
    "ExecuteTool m tr ''undeploy_sleep_app'' args = UndeploySleepApp w tr args"
    "ExecuteTool m tr ''undeploy_httpbin_app'' args = UndeployHttpbinApp w tr args"
    "ExecuteTool m tr ''test_connectivity'' args = TestConnectivity w tr args"
    "ExecuteTool m tr ''test_sleep_to_httpbin'' args = TestSleepToHttpbin w tr args"
    "ExecuteTool m tr ''get_pod_logs'' args = GetPodLogs w tr args"
    "ExecuteTool m tr ''get_istio_proxy_logs'' args = GetIstioProxyLogs w tr args"
    "ExecuteTool m tr ''exec_pod_command'' args = ExecPodCommand w tr args"
    "ExecuteTool m tr ''get_iptables_rules'' args = GetIptablesRules w tr args"
    "ExecuteTool m tr ''get_network_policies'' args = GetNetworkPolicies w tr args"
    "ExecuteTool m tr ''trace_network_path'' args = TraceNetworkPath w tr args"
  using assms by (simp_all add: ExecuteTool_def)

lemma schemaOf_simps:
  "schemaOf ''switch_context'' = SwitchContext_schema"
  "schemaOf ''install_istio'' = InstallIstio_schema"
  "schemaOf ''uninstall_istio'' = UninstallIstio_schema"
  "schemaOf ''check_istio_status'' = CheckIstioStatus_schema"
  "schemaOf ''install_sail_operator'' = InstallSailOperator_schema"
  "schemaOf ''uninstall_sail_operator'' = UninstallSailOperator_schema"
  "schemaOf ''check_sail_status'' = CheckSailStatus_schema"
  "schemaOf ''deploy_sleep_app'' = DeploySleepApp_schema"
  "schemaOf ''deploy_httpbin_app'' = DeployHttpbinApp_schema"
  "schemaOf ''undeploy_sleep_app'' = Undeploy_schema"
  "schemaOf ''undeploy_httpbin_app'' = Undeploy_schema"
  "schemaOf ''test_connectivity'' = TestConnectivity_schema"
  "schemaOf ''test_sleep_to_httpbin'' = TestSleepToHttpbin_schema"
  "schemaOf ''get_pod_logs'' = GetPodLogs_schema"
  "schemaOf ''get_istio_proxy_logs'' = GetIstioProxyLogs_schema"
  "schemaOf ''exec_pod_command'' = ExecPodCommand_schema"
  "schemaOf ''get_iptables_rules'' = GetIptablesRules_schema"
  "schemaOf ''get_network_policies'' = GetNetworkPolicies_schema"
  "schemaOf ''trace_network_path'' = TraceNetworkPath_schema"
  by (simp_all add: schemaOf_def)

lemma ExecuteTool_invalid:
  assumes "k8sClient m = Some w" and "toolName \<in> set decodingTools"
    and "Unmarshal (schemaOf toolName) args = Inl e"
  shows "ExecuteTool m tr toolName args = (errorResult (''Invalid parameters: '' @ e), tr)"
proof -
  have "toolName = ''switch_context'' \<or> toolName = ''install_istio''
      \<or> toolName = ''uninstall_istio'' \<or> toolName = ''check_istio_status''
      \<or> toolName = ''install_sail_operator'' \<or> toolName = ''uninstall_sail_operator''
      \<or> toolName = ''check_sail_status'' \<or> toolName = ''deploy_sleep_app''
      \<or> toolName = ''deploy_httpbin_app'' \<or> toolName = ''undeploy_sleep_app''
      \<or> toolName = ''undeploy_httpbin_app'' \<or> toolName = ''test_connectivity''
      \<or> toolName = ''test_sleep_to_httpbin'' \<or> toolName = ''get_pod_logs''
      \<or> toolName = ''get_istio_proxy_logs'' \<or> toolName = ''exec_pod_command''
      \<or> toolName = ''get_iptables_rules'' \<or> toolName = ''get_network_policies''
      \<or> toolName = ''trace_network_path''"
    using assms(2) unfolding decodingTools_def by simp
  then show ?thesis
    using assms(1,3)
    by (elim disjE) (simp_all only: dispatch schemaOf_simps handlers_invalid)
qed


lemma errorFlag_errorResult [simp]: "errorFlag (errorResult msg)"
  by (simp add: errorFlag_def errorResult_def)

lemma ExecuteTool_unknown:
  "k8sClient m = Some w \<Longrightarrow> toolName \<notin> set toolNames \<Longrightarrow>
     ExecuteTool m tr toolName args = (errorResult (''Unknown tool: '' @ toolName), tr)"
  by (simp add: ExecuteTool_def toolNames_def)

lemma ExecuteTool_no_client:
  "k8sClient m = None \<Longrightarrow> ExecuteTool m tr toolName args = (errorResult clientUnavailable, tr)"
  by (simp add: ExecuteTool_def)

lemmas decode_simps = Unmarshal_def decodeValue_def fieldFor_def zeroParams_def inRange_def
  elemString_def elemOk_def asMap_def toLower_def toLowerChar_def
lemmas param_simps = str_def num_def flag_def strs_def obj_def defaultStr_def defaultInt_def
  defaultStrs_def always_def

lemma errorFlag_textResult [simp]: "\<not> errorFlag (textResult msg)"
  by (simp add: errorFlag_def textResult_def)

subsection \<open>The text of a result\<close>


lemmas diagnostic_simps = diagnostic_def diagnosticPhrases_def clientUnavailable_def SQ_def

lemma diagnostic_nonempty: "diagnostic msg \<Longrightarrow> msg \<noteq> []"
  by (auto simp: diagnostic_simps)




subsection \<open>The requests an invocation makes\<close>

text \<open>Rules for \<open>madeOnly\<close>: the history a handler returns extends the history it was
  given, by requests that all have a given property.\<close>

lemma madeOnly_iff: "madeOnly good tr t = (\<exists>ext. t = tr @ ext \<and> list_all good ext)"
proof
  assume "madeOnly good tr t"
  then have "t = tr @ drop (length tr) t" and "list_all good (drop (length tr) t)"
    using append_take_drop_id [of "length tr" t] by (simp_all add: madeOnly_def)
  then show "\<exists>ext. t = tr @ ext \<and> list_all good ext" by blast
next
  assume "\<exists>ext. t = tr @ ext \<and> list_all good ext"
  then show "madeOnly good tr t" by (auto simp: madeOnly_def)
qed

lemma mo_refl: "madeOnly good tr tr"
  by (simp add: madeOnly_iff)

lemma mo_snoc: "madeOnly good tr t \<Longrightarrow> good c \<Longrightarrow> madeOnly good tr (t @ [c])"
  by (auto simp: madeOnly_iff)

lemma mo_pair: "madeOnly good tr t \<Longrightarrow> madeOnly good tr (snd (r, t))"
  by simp

lemma mo_seq:
  "madeOnly good tr (snd x) \<Longrightarrow> (\<And>a t. madeOnly good tr t \<Longrightarrow> madeOnly good tr (snd (f a t)))
     \<Longrightarrow> madeOnly good tr (snd (case_prod f x))"
  by (cases x) simp

lemma mo_prod: "(\<And>a b. madeOnly good tr (snd (f a b))) \<Longrightarrow> madeOnly good tr (snd (case_prod f x))"
  by (cases x) simp

lemma mo_option:
  "madeOnly good tr (snd a) \<Longrightarrow> (\<And>v. madeOnly good tr (snd (f v)))
     \<Longrightarrow> madeOnly good tr (snd (case_option a f x))"
  by (cases x) simp_all

lemma mo_sum:
  "(\<And>v. madeOnly good tr (snd (f v))) \<Longrightarrow> (\<And>v. madeOnly good tr (snd (g v)))
     \<Longrightarrow> madeOnly good tr (snd (case_sum f g x))"
  by (cases x) simp_all

lemma mo_list:
  "madeOnly good tr (snd a) \<Longrightarrow> (\<And>y ys. madeOnly good tr (snd (f y ys)))
     \<Longrightarrow> madeOnly good tr (snd (case_list a f x))"
  by (cases x) simp_all

lemma mo_if:
  "madeOnly good tr (snd a) \<Longrightarrow> madeOnly good tr (snd b) \<Longrightarrow> madeOnly good tr (snd (if c then a else b))"
  by simp

lemmas mo_rules = mo_seq mo_prod mo_option mo_sum mo_list mo_if mo_pair mo_snoc

lemma mo_run:
  "madeOnly good tr t \<Longrightarrow> good (Command prog args) \<Longrightarrow> madeOnly good tr (snd (run w t prog args))"
  by (simp add: run_def mo_snoc)

lemma mo_runHelm:
  "madeOnly good tr t \<Longrightarrow> good (Command ''helm'' args) \<Longrightarrow> madeOnly good tr (snd (runHelm w t what args))"
  unfolding runHelm_def by (intro mo_rules mo_run) 

lemma mo_checkHelmAvailable:
  "madeOnly good tr t \<Longrightarrow> good (Command ''helm'' [''version'', ''--short''])
     \<Longrightarrow> madeOnly good tr (snd (checkHelmAvailable w t))"
  unfolding checkHelmAvailable_def by (intro mo_rules mo_run)

lemma mo_updateHelmRepo:
  "madeOnly good tr t \<Longrightarrow> good (Command ''helm'' [''repo'', ''update'', name])
     \<Longrightarrow> madeOnly good tr (snd (updateHelmRepo w t name))"
  unfolding updateHelmRepo_def by (intro mo_rules mo_run)

lemma mo_addHelmRepo:
  "madeOnly good tr t \<Longrightarrow> good (Command ''helm'' [''repo'', ''add'', name, url])
     \<Longrightarrow> good (Command ''helm'' [''repo'', ''update'', name])
     \<Longrightarrow> madeOnly good tr (snd (addHelmRepo w t name url))"
  unfolding addHelmRepo_def by (intro mo_rules mo_run mo_updateHelmRepo)

lemma mo_getIstioHelmReleaseVersion:
  "madeOnly good tr t
     \<Longrightarrow> good (Command ''helm'' [''list'', ''--namespace'', namespace, ''--filter'', releaseName,
                                 ''--output'', ''json''])
     \<Longrightarrow> madeOnly good tr (snd (getIstioHelmReleaseVersion w t namespace releaseName))"
  unfolding getIstioHelmReleaseVersion_def by (intro mo_rules mo_run)

lemma mo_getIstioStatus:
  "madeOnly good tr t \<Longrightarrow> good (NamespacesGet namespace)
     \<Longrightarrow> good (DaemonSetsGet namespace ''istio-cni-node'')
     \<Longrightarrow> good (DeploymentsList namespace ''app=istiod'')
     \<Longrightarrow> good (Command ''helm'' [''list'', ''--namespace'', namespace, ''--filter'', ''istiod'',
                                 ''--output'', ''json''])
     \<Longrightarrow> madeOnly good tr (snd (getIstioStatus w t namespace))"
  unfolding getIstioStatus_def Let_def
  by (intro mo_rules mo_getIstioHelmReleaseVersion)

lemma mo_installIstioBase:
  "madeOnly good tr t
     \<Longrightarrow> good (Command ''helm'' ([''install'', ''istio-base'', ''istio/base'', ''--namespace'', namespace,
                   ''--create-namespace''] @ versionArgs version @ waitArgs wait timeout))
     \<Longrightarrow> madeOnly good tr (snd (installIstioBase w t namespace version wait timeout))"
  unfolding installIstioBase_def by (intro mo_runHelm)

lemma mo_installIstiod:
  "madeOnly good tr t
     \<Longrightarrow> good (Command ''helm'' ([''install'', ''istiod'', ''istio/istiod'', ''--namespace'', namespace]
                   @ versionArgs version @ waitArgs wait timeout @ setJsonArgs w t values))
     \<Longrightarrow> madeOnly good tr (snd (installIstiod w t namespace version values wait timeout))"
  unfolding installIstiod_def by (intro mo_runHelm)

lemma Unmarshal_empty_object: "Unmarshal sch (Wellformed (JObj [])) = Inr (zeroParams sch)"
  by (simp add: Unmarshal_def)

lemma rangeMap_empty: "rangeMap w t [] = []"
  by (simp add: rangeMap_def asMap_def visitOrder_def List.map_filter_simps)

lemma setJsonArgs_empty: "setJsonArgs w t [] = []"
  by (simp add: setJsonArgs_def rangeMap_empty)

lemma helmInstalls_madeOnly:
  assumes "madeOnly good tr t"
    and "\<And>args. good (Command ''helm'' args) \<Longrightarrow> take 1 args = [''install''] \<Longrightarrow> args \<in> S"
  shows "set (helmInstalls (drop (length tr) t)) \<subseteq> S"
proof -
  from assms(1) obtain ext where t: "t = tr @ ext" and g: "list_all good ext"
    by (auto simp: madeOnly_iff)
  have "set (helmInstalls ext) \<subseteq> S"
    using g assms(2)
    by (auto simp: helmInstalls_def List.map_filter_def list_all_iff split: call.splits if_splits)
  then show ?thesis by (simp add: t)
qed

lemma InstallIstio_empty_installs:
  "madeOnly (installsWithin
       {[''install'', ''istio-base'', ''istio/base'', ''--namespace'', ''istio-system'',
         ''--create-namespace'', ''--wait'', ''--timeout'', ''5m''],
        [''install'', ''istiod'', ''istio/istiod'', ''--namespace'', ''istio-system'',
         ''--wait'', ''--timeout'', ''5m'']})
     tr (snd (InstallIstio w tr (Wellformed (JObj []))))"
  apply (simp add: InstallIstio_def Unmarshal_empty_object InstallIstio_defaults_def
      InstallIstio_schema_def zeroParams_def param_simps Let_def setJsonArgs_empty
      addIstioHelmRepo_def
      del: split_paired_All split_paired_Ex
      cong: option.case_cong sum.case_cong prod.case_cong list.case_cong)
  apply (intro mo_rules mo_checkHelmAvailable mo_addHelmRepo mo_installIstioBase mo_installIstiod
      mo_getIstioStatus mo_refl)
  apply (simp_all add: versionArgs_def waitArgs_def setJsonArgs_empty installsWithin_def)
  done

lemma helmInstalls_append: "helmInstalls (xs @ ys) = helmInstalls xs @ helmInstalls ys"
  by (simp add: helmInstalls_def List.map_filter_def)

lemma helmInstalls_none: "list_all (installsWithin {}) ext \<Longrightarrow> helmInstalls ext = []"
  by (induction ext)
     (auto simp: helmInstalls_def List.map_filter_simps installsWithin_def split: call.splits)

lemma getIstioStatus_calls:
  "\<exists>ext. snd (getIstioStatus w t namespace) = t @ ext \<and> helmInstalls ext = []"
proof -
  have "madeOnly (installsWithin {}) t (snd (getIstioStatus w t namespace))"
    by (intro mo_getIstioStatus mo_refl) (simp_all add: installsWithin_def)
  then show ?thesis
    by (auto simp: madeOnly_iff helmInstalls_none)
qed

lemma helm_works:
  assumes "\<forall>t args. snd (runCommand w t ''helm'' args) = None"
  shows "runHelm w t what args = (None, t @ [Command ''helm'' args])"
    "checkHelmAvailable w t = (None, t @ [Command ''helm'' [''version'', ''--short'']])"
    "addHelmRepo w t name url =
       (None, t @ [Command ''helm'' [''repo'', ''add'', name, url],
                   Command ''helm'' [''repo'', ''update'', name]])"
  using assms
  by (simp_all add: runHelm_def checkHelmAvailable_def addHelmRepo_def updateHelmRepo_def run_def
      case_prod_beta)

subsection \<open>Zero values and omitted fields\<close>







































lemma TestConnectivity_default_timeout:
  "num (TestConnectivity_defaults p0) ''timeout''
     = (if num p0 ''timeout'' = 0 then 10 else num p0 ''timeout'')"
  by (simp add: TestConnectivity_defaults_def param_simps)









subsection \<open>Reading the status code\<close>

text \<open>\<open>strings.Split\<close> at the first occurrence of the separator, and \<open>Sscanf\<close> on a run of
  digits.\<close>

lemma hasPrefix_take: "hasPrefix s p = (take (length p) s = p)"
  by (induction s p rule: hasPrefix.induct) auto

lemma hasPrefix_append: "hasPrefix (sep @ post) sep"
  by (simp add: hasPrefix_take)

lemma contains_prefix: "hasPrefix s sub \<Longrightarrow> contains s sub"
  by (cases s; cases sub) simp_all

lemma contains_middle: "contains (a @ sep @ b) sep"
  by (induction a) (simp_all add: contains_prefix hasPrefix_append)

lemma splitFrom_first:
  assumes "sep = pre @ [x]"
  shows "\<not> contains (body @ pre) sep \<Longrightarrow>
     splitFrom sep acc (body @ sep @ post) = (rev acc @ body) # splitFrom sep [] post"
proof (induction body arbitrary: acc)
  case Nil
  obtain c cs where sep: "sep = c # cs" using assms by (cases pre) auto
  have "hasPrefix (c # cs @ post) (c # cs)" using hasPrefix_append [of "c # cs" post] by simp
  then show ?case unfolding sep by simp
next
  case (Cons b bs)
  from Cons.prems have np: "\<not> hasPrefix ((b # bs) @ pre) sep"
    and nc: "\<not> contains (bs @ pre) sep" by simp_all
  have "take (length sep) ((b # bs) @ sep @ post) = take (length sep) ((b # bs) @ pre)"
    using assms by simp
  with np have "\<not> hasPrefix ((b # bs) @ sep @ post) sep"
    by (simp only: hasPrefix_take simp_thms)
  then have "splitFrom sep acc ((b # bs) @ sep @ post) = splitFrom sep (b # acc) (bs @ sep @ post)"
    by simp
  also have "\<dots> = (rev (b # acc) @ bs) # splitFrom sep [] post" by (rule Cons.IH [OF nc])
  finally show ?case by simp
qed

lemma splitFrom_head: "\<exists>tail pieces. splitFrom sep acc s = (rev acc @ tail) # pieces"
proof (induction s arbitrary: acc)
  case Nil show ?case by simp
next
  case (Cons c cs)
  show ?case
  proof (cases "sep \<noteq> [] \<and> hasPrefix (c # cs) sep")
    case True then show ?thesis by simp
  next
    case False
    from Cons.IH [of "c # acc"] obtain tail pieces
      where "splitFrom sep (c # acc) cs = (rev (c # acc) @ tail) # pieces" by blast
    with False show ?thesis by auto
  qed
qed

lemma splitFrom_keeps:
  "\<forall>c \<in> set pre. c \<noteq> h \<Longrightarrow>
     \<exists>tail pieces. splitFrom (h # t) acc (pre @ s) = (rev acc @ pre @ tail) # pieces"
proof (induction pre arbitrary: acc)
  case Nil show ?case using splitFrom_head [of "h # t" acc s] by simp
next
  case (Cons c cs)
  then have "c \<noteq> h" and rest: "\<forall>c \<in> set cs. c \<noteq> h" by simp_all
  from Cons.IH [OF rest, of "c # acc"] obtain tail pieces
    where "splitFrom (h # t) (c # acc) (cs @ s) = (rev (c # acc) @ cs @ tail) # pieces" by blast
  with \<open>c \<noteq> h\<close> show ?case by auto
qed

lemma contains_single: "x \<notin> set s \<Longrightarrow> \<not> contains s [x]"
  by (induction s) auto

lemma isDigit_chars: "isDigit c \<Longrightarrow> c \<noteq> CHR ''H'' \<and> c \<noteq> CHR 0x0A
    \<and> c \<noteq> CHR ''-'' \<and> c \<noteq> CHR ''+''"
  by (auto simp: isDigit_def)

lemma spaceLen_digit: "isDigit c \<Longrightarrow> spaceLen (c # cs) = 0"
proof -
  assume "isDigit c"
  then have "c \<noteq> CHR 0x20" "c \<noteq> CHR 0x09" "c \<noteq> CHR 0x0B" "c \<noteq> CHR 0x0C" "c \<noteq> CHR 0x0D"
    "c \<noteq> CHR 0xC2" "c \<noteq> CHR 0xE1" "c \<noteq> CHR 0xE2" "c \<noteq> CHR 0xE3"
    by (auto simp: isDigit_def)
  then show ?thesis by (simp add: spaceLen_def)
qed

lemma skipSpace_digit: "isDigit c \<Longrightarrow> skipSpace (c # cs) = Some (c # cs)"
proof -
  assume d: "isDigit c"
  then have "c \<noteq> CHR 0x0A" by (auto simp: isDigit_def)
  then show ?thesis by (subst skipSpace.simps) (simp add: spaceLen_digit [OF d])
qed

lemma sscanfInt_digits:
  assumes "ct \<noteq> []" and "list_all isDigit ct" and "readNat 0 ct < 2 ^ 63"
  shows "sscanfInt ct = Some (int (readNat 0 ct))"
proof -
  obtain c cs where ct: "ct = c # cs" using assms(1) by (cases ct) auto
  have c: "isDigit c" using assms(2) ct by simp
  have tw: "takeWhile isDigit ct = ct"
    using assms(2) by (simp add: list_all_iff)
  have "int (readNat 0 ct) < int (2 ^ 63)" using assms(3) by (simp only: of_nat_less_iff)
  then have r: "int (readNat 0 ct) < 2 ^ 63" by simp
  have dw: "skipSpace ct = Some ct" using skipSpace_digit [OF c] ct by simp
  have lo: "- (2 ^ 63) \<le> int (readNat 0 ct)"
    by (rule order_trans [of _ 0]) simp_all
  have neg: "(case ct of c # x \<Rightarrow> c = CHR ''-'' | [] \<Rightarrow> False) = False"
    using isDigit_chars [OF c] by (simp add: ct)
  have s2: "(case ct of c # cs \<Rightarrow> if c = CHR ''+'' \<or> c = CHR ''-'' then cs else ct | [] \<Rightarrow> ct) = ct"
    using isDigit_chars [OF c] by (simp add: ct)
  show ?thesis
    unfolding sscanfInt_def Let_def dw option.case neg s2 tw
    using assms(1) r lo by (simp only: if_False if_True simp_thms)
qed

lemma httpStatus_first_marker:
  assumes first: "\<not> contains (body @ ''HTTP_CODE'') ''HTTP_CODE:''"
    and ne: "ct \<noteq> []" and dg: "list_all isDigit ct" and rg: "readNat 0 ct < 2 ^ 63"
  shows "httpStatus (body @ ''HTTP_CODE:'' @ ct @ NL @ rest)
       = (int (readNat 0 ct), 200 \<le> int (readNat 0 ct) \<and> int (readNat 0 ct) < 400)"
proof -
  have c: "contains (body @ ''HTTP_CODE:'' @ ct @ NL @ rest) ''HTTP_CODE:''"
    by (rule contains_middle)
  have s1: "split (body @ ''HTTP_CODE:'' @ (ct @ NL @ rest)) ''HTTP_CODE:''
      = body # splitFrom ''HTTP_CODE:'' [] (ct @ NL @ rest)"
    unfolding split_def
    using splitFrom_first [of "''HTTP_CODE:''" "''HTTP_CODE''" "CHR '':''" body "[]"
        "ct @ NL @ rest"] first by simp
  have "\<forall>c \<in> set (ct @ NL). c \<noteq> CHR ''H''"
    using dg isDigit_chars by (auto simp: list_all_iff NL_def)
  from splitFrom_keeps [OF this, of "''TTP_CODE:''" "[]" rest] obtain tail pieces
    where s2: "splitFrom ''HTTP_CODE:'' [] (ct @ NL @ rest) = (ct @ NL @ tail) # pieces"
    by auto
  have "CHR 0x0A \<notin> set ct" using dg isDigit_chars by (auto simp: list_all_iff)
  then have "\<not> contains (ct @ []) [CHR 0x0A]" by (simp add: contains_single)
  from splitFrom_first [of "[CHR 0x0A]" "[]" "CHR 0x0A" ct, OF _ this, of "[]" tail]
  have s3: "split (ct @ NL @ tail) NL = ct # splitFrom NL [] tail"
    by (simp add: split_def NL_def)
  show ?thesis
    unfolding httpStatus_def
    using c s1 s2 s3 sscanfInt_digits [OF ne dg rg]
    by (simp del: contains.simps hasPrefix.simps splitFrom.simps)
qed

lemma TestConnectivity_http:
  assumes u: "Unmarshal TestConnectivity_schema args = Inr p0"
    and req: "str p0 ''source_pod'' \<noteq> []" "str p0 ''target_service'' \<noteq> []"
      "num p0 ''target_port'' \<noteq> 0"
    and p: "p = TestConnectivity_defaults p0"
    and pod: "getPod w tr (str p ''source_namespace'') (str p ''source_pod'') = Inr pod"
    and http: "str p ''protocol'' = ''http'' \<or> str p ''protocol'' = ''https''"
    and cmd: "connectivityCommand p = Some command"
    and ex: "execInPod w (tr @ [PodsGet (str p ''source_namespace'') (str p ''source_pod'')])
               (str p ''source_namespace'') (str p ''source_pod'') ''sleep'' command
             = Streamed output errOut None"
  shows "TestConnectivity w tr args =
     (textResult (MarshalIndent (connectivityJson
        \<lparr>crSource = podInfoOf pod,
          crDestination = \<lparr>piName = str p ''target_service'', piNamespace = [],
                            piIP = str p ''target_service'', piNode = []\<rparr>,
          crSuccess = snd (httpStatus output), crStatusCode = fst (httpStatus output),
          crResponse = output, crError = [],
          crDuration = since w (tr @ [PodsGet (str p ''source_namespace'') (str p ''source_pod''),
                  PodsExec (str p ''source_namespace'') (str p ''source_pod'') ''sleep'' command None]),
          crCommand = join command '' '',
          crTimestamp = now w (tr @ [PodsGet (str p ''source_namespace'') (str p ''source_pod'')])\<rparr>)),
      tr @ [PodsGet (str p ''source_namespace'') (str p ''source_pod''),
            PodsExec (str p ''source_namespace'') (str p ''source_pod'') ''sleep'' command None])"
  using req pod http cmd ex unfolding p
  by (simp add: TestConnectivity_def u Let_def execCommandInPod_def connectivityOutcome_def)

lemma TestConnectivity_unsupported:
  assumes u: "Unmarshal TestConnectivity_schema args = Inr p0"
    and req: "str p0 ''source_pod'' \<noteq> []" "str p0 ''target_service'' \<noteq> []"
      "num p0 ''target_port'' \<noteq> 0"
    and p: "p = TestConnectivity_defaults p0"
    and pod: "getPod w tr (str p ''source_namespace'') (str p ''source_pod'') = Inr pod"
    and other: "str p ''protocol'' \<notin> {''http'', ''https'', ''tcp''}"
  shows "TestConnectivity w tr args =
     (errorResult (''Unsupported protocol: '' @ str p ''protocol''),
      tr @ [PodsGet (str p ''source_namespace'') (str p ''source_pod'')])"
proof -
  have "connectivityCommand p = None" using other by (simp add: connectivityCommand_def)
  then show ?thesis
    using req pod unfolding p
    by (simp add: TestConnectivity_def u Let_def)
qed

lemma TestConnectivity_default_protocol:
  "str (TestConnectivity_defaults p0) ''protocol''
     = (if str p0 ''protocol'' = [] then ''http'' else str p0 ''protocol'')"
  by (simp add: TestConnectivity_defaults_def param_simps)

lemma status_members:
  "\<exists>members. ConnectivityTestResultJson r = JObj members
     \<and> (''success'', JBool (crSuccess r)) \<in> set members
     \<and> (crStatusCode r \<noteq> 0 \<longrightarrow> (''status_code'', JInt (crStatusCode r)) \<in> set members)"
  by (simp add: ConnectivityTestResultJson_def omitEmptyInt_def)

subsection \<open>The requests made with a zero \<open>lines\<close> or \<open>timeout\<close>\<close>








subsection \<open>The status code of the first marker\<close>

lemma TestConnectivity_first_marker:
  assumes "k8sClient m = Some w"
    and "Unmarshal TestConnectivity_schema args = Inr decoded"
    and "str decoded ''source_pod'' \<noteq> []" and "str decoded ''target_service'' \<noteq> []"
    and "num decoded ''target_port'' \<noteq> 0"
    and "p = TestConnectivity_defaults decoded"
    and "getPod w tr (str p ''source_namespace'') (str p ''source_pod'') = Inr pod"
  shows "str p ''protocol'' = (if str decoded ''protocol'' = [] then ''http'' else str decoded ''protocol'')
   \<and> num p ''timeout'' = (if num decoded ''timeout'' = 0 then 10 else num decoded ''timeout'')
   \<and> ((str p ''protocol'' = ''http'' \<or> str p ''protocol'' = ''https'')
        \<and> connectivityCommand p = Some command
        \<and> execInPod w (tr @ [PodsGet (str p ''source_namespace'') (str p ''source_pod'')])
             (str p ''source_namespace'') (str p ''source_pod'') ''sleep'' command
           = Streamed (body @ ''HTTP_CODE:'' @ code @ NL @ rest) errOut None
        \<and> \<not> contains (body @ ''HTTP_CODE'') ''HTTP_CODE:''
        \<and> code \<noteq> [] \<and> list_all isDigit code \<and> readNat 0 code < 2 ^ 63
      \<longrightarrow> (\<exists>r members.
             ExecuteTool m tr ''test_connectivity'' args
               = (textResult (MarshalIndent (connectivityJson r)),
                  tr @ [PodsGet (str p ''source_namespace'') (str p ''source_pod''),
                        PodsExec (str p ''source_namespace'') (str p ''source_pod'') ''sleep''
                          command None])
           \<and> \<not> errorFlag (fst (ExecuteTool m tr ''test_connectivity'' args))
           \<and> crStatusCode r = int (readNat 0 code)
           \<and> crSuccess r = (200 \<le> int (readNat 0 code) \<and> int (readNat 0 code) < 400)
           \<and> ConnectivityTestResultJson r = JObj members
           \<and> (''success'', JBool (crSuccess r)) \<in> set members
           \<and> (crStatusCode r \<noteq> 0 \<longrightarrow> (''status_code'', JInt (crStatusCode r)) \<in> set members)))
   \<and> (str p ''protocol'' \<notin> {''http'', ''https'', ''tcp''}
      \<longrightarrow> ExecuteTool m tr ''test_connectivity'' args
          = (errorResult (''Unsupported protocol: '' @ str p ''protocol''),
             tr @ [PodsGet (str p ''source_namespace'') (str p ''source_pod'')]))"
proof (intro conjI impI)
  show "str p ''protocol'' = (if str decoded ''protocol'' = [] then ''http'' else str decoded ''protocol'')"
    unfolding assms(6) by (rule TestConnectivity_default_protocol)
  show "num p ''timeout'' = (if num decoded ''timeout'' = 0 then 10 else num decoded ''timeout'')"
    unfolding assms(6) by (rule TestConnectivity_default_timeout)
next
  assume h: "(str p ''protocol'' = ''http'' \<or> str p ''protocol'' = ''https'')
        \<and> connectivityCommand p = Some command
        \<and> execInPod w (tr @ [PodsGet (str p ''source_namespace'') (str p ''source_pod'')])
             (str p ''source_namespace'') (str p ''source_pod'') ''sleep'' command
           = Streamed (body @ ''HTTP_CODE:'' @ code @ NL @ rest) errOut None
        \<and> \<not> contains (body @ ''HTTP_CODE'') ''HTTP_CODE:''
        \<and> code \<noteq> [] \<and> list_all isDigit code \<and> readNat 0 code < 2 ^ 63"
  then have http: "str p ''protocol'' = ''http'' \<or> str p ''protocol'' = ''https''"
    and cmd: "connectivityCommand p = Some command"
    and ex: "execInPod w (tr @ [PodsGet (str p ''source_namespace'') (str p ''source_pod'')])
             (str p ''source_namespace'') (str p ''source_pod'') ''sleep'' command
           = Streamed (body @ ''HTTP_CODE:'' @ code @ NL @ rest) errOut None"
    and first: "\<not> contains (body @ ''HTTP_CODE'') ''HTTP_CODE:''"
    and code: "code \<noteq> []" "list_all isDigit code" "readNat 0 code < 2 ^ 63"
    by blast+
  note run = TestConnectivity_http [OF assms(2-7) http cmd ex]
  note st = httpStatus_first_marker [OF first code, of rest]
  define r where "r = \<lparr>crSource = podInfoOf pod,
          crDestination = \<lparr>piName = str p ''target_service'', piNamespace = [],
                            piIP = str p ''target_service'', piNode = []\<rparr>,
          crSuccess = snd (httpStatus (body @ ''HTTP_CODE:'' @ code @ NL @ rest)),
          crStatusCode = fst (httpStatus (body @ ''HTTP_CODE:'' @ code @ NL @ rest)),
          crResponse = body @ ''HTTP_CODE:'' @ code @ NL @ rest, crError = [],
          crDuration = since w (tr @ [PodsGet (str p ''source_namespace'') (str p ''source_pod''),
                  PodsExec (str p ''source_namespace'') (str p ''source_pod'') ''sleep'' command None]),
          crCommand = join command '' '',
          crTimestamp = now w (tr @ [PodsGet (str p ''source_namespace'') (str p ''source_pod'')])\<rparr>"
  have res: "ExecuteTool m tr ''test_connectivity'' args
               = (textResult (MarshalIndent (connectivityJson r)),
                  tr @ [PodsGet (str p ''source_namespace'') (str p ''source_pod''),
                        PodsExec (str p ''source_namespace'') (str p ''source_pod'') ''sleep''
                          command None])"
    unfolding r_def by (simp only: dispatch [OF assms(1)] run)
  have ne: "\<not> errorFlag (fst (ExecuteTool m tr ''test_connectivity'' args))"
    by (simp only: res fst_conv errorFlag_textResult simp_thms)
  have sc: "crStatusCode r = int (readNat 0 code)"
    and su: "crSuccess r = (200 \<le> int (readNat 0 code) \<and> int (readNat 0 code) < 400)"
    by (simp_all add: r_def st del: append.simps)
  from status_members [of r] obtain members where
    mem: "ConnectivityTestResultJson r = JObj members"
      "(''success'', JBool (crSuccess r)) \<in> set members"
      "crStatusCode r \<noteq> 0 \<longrightarrow> (''status_code'', JInt (crStatusCode r)) \<in> set members"
    by blast
  show "\<exists>r members.
             ExecuteTool m tr ''test_connectivity'' args
               = (textResult (MarshalIndent (connectivityJson r)),
                  tr @ [PodsGet (str p ''source_namespace'') (str p ''source_pod''),
                        PodsExec (str p ''source_namespace'') (str p ''source_pod'') ''sleep''
                          command None])
           \<and> \<not> errorFlag (fst (ExecuteTool m tr ''test_connectivity'' args))
           \<and> crStatusCode r = int (readNat 0 code)
           \<and> crSuccess r = (200 \<le> int (readNat 0 code) \<and> int (readNat 0 code) < 400)
           \<and> ConnectivityTestResultJson r = JObj members
           \<and> (''success'', JBool (crSuccess r)) \<in> set members
           \<and> (crStatusCode r \<noteq> 0 \<longrightarrow> (''status_code'', JInt (crStatusCode r)) \<in> set members)"
    by (intro exI [of _ r] exI [of _ members] conjI) (rule res ne sc su mem)+
next
  assume "str p ''protocol'' \<notin> {''http'', ''https'', ''tcp''}"
  from TestConnectivity_unsupported [OF assms(2-7) this]
  show "ExecuteTool m tr ''test_connectivity'' args
          = (errorResult (''Unsupported protocol: '' @ str p ''protocol''),
             tr @ [PodsGet (str p ''source_namespace'') (str p ''source_pod'')])"
    by (simp only: dispatch [OF assms(1)])
qed

lemma show_8000: "showInt 8000 = ''8000''"
  by (simp add: showInt_def digitChar_def char_of_eq_iff)
lemma show_10: "showInt 10 = ''10''"
  by (simp add: showInt_def digitChar_def char_of_eq_iff)
lemma read_200: "readNat 0 ''200'' = 200" by (simp add: digitVal_def)
lemma digits_200: "list_all isDigit ''200''" by (simp add: isDigit_def)
lemma no_marker_ok: "\<not> contains ((''ok'' @ NL) @ ''HTTP_CODE'') ''HTTP_CODE:''"
  by (simp add: NL_def)
lemma echo_contains: "contains echoOutput ''HTTP_CODE:200''"
  by (simp add: echoOutput_def curlPrints_def NL_def)

lemma echo_status: "httpStatus echoOutput = (503, False)"
proof -
  have a: "\<not> contains ([] @ ''HTTP_CODE'') ''HTTP_CODE:''" by simp
  have b: "''503'' \<noteq> []" by simp
  have c: "list_all isDigit ''503''" by (simp add: isDigit_def)
  have d: "readNat 0 ''503'' = 503" by (simp add: digitVal_def)
  have e: "readNat 0 ''503'' < 2 ^ 63" unfolding d by simp
  have f: "echoOutput = [] @ ''HTTP_CODE:'' @ ''503'' @ NL @ (''HTTP_CODE:200'' @ NL @ ''TIME_TOTAL:0.012'' @ NL)"
    by (simp add: echoOutput_def curlPrints_def)
  show ?thesis
    unfolding f using httpStatus_first_marker [OF a b c e] by (simp only: d) simp
qed

subsection \<open>Repeated invocations\<close>

text \<open>The result of \<open>check_istio_status\<close> is a function of the answers it gets; the
  contexts that \<open>list_contexts\<close> lists are the same whatever the order of the visit.\<close>

lemmas fst_distribs = option.case_distrib [of fst] sum.case_distrib [of fst]
  list.case_distrib [of fst] prod.case_distrib [of fst] if_distrib [of fst]

lemma getIstioHelmReleaseVersion_same:
  assumes "runCommand w t ''helm''
             [''list'', ''--namespace'', namespace, ''--filter'', releaseName, ''--output'', ''json'']
         = runCommand w t' ''helm''
             [''list'', ''--namespace'', namespace, ''--filter'', releaseName, ''--output'', ''json'']"
  shows "fst (getIstioHelmReleaseVersion w t namespace releaseName)
       = fst (getIstioHelmReleaseVersion w t' namespace releaseName)"
  unfolding getIstioHelmReleaseVersion_def run_def
  by (simp add: fst_distribs assms case_prod_beta
      cong: option.case_cong sum.case_cong list.case_cong if_cong)

lemma getIstioStatus_same:
  assumes "getNamespace w t namespace = getNamespace w t' namespace"
    and "getDaemonSet w (t @ [NamespacesGet namespace]) namespace ''istio-cni-node''
       = getDaemonSet w (t' @ [NamespacesGet namespace]) namespace ''istio-cni-node''"
    and "listDeployments w (t @ [NamespacesGet namespace, DaemonSetsGet namespace ''istio-cni-node''])
           namespace ''app=istiod''
       = listDeployments w (t' @ [NamespacesGet namespace, DaemonSetsGet namespace ''istio-cni-node''])
           namespace ''app=istiod''"
    and "runCommand w (t @ [NamespacesGet namespace, DaemonSetsGet namespace ''istio-cni-node'',
              DeploymentsList namespace ''app=istiod'']) ''helm''
             [''list'', ''--namespace'', namespace, ''--filter'', ''istiod'', ''--output'', ''json'']
         = runCommand w (t' @ [NamespacesGet namespace, DaemonSetsGet namespace ''istio-cni-node'',
              DeploymentsList namespace ''app=istiod'']) ''helm''
             [''list'', ''--namespace'', namespace, ''--filter'', ''istiod'', ''--output'', ''json'']"
  shows "fst (getIstioStatus w t namespace) = fst (getIstioStatus w t' namespace)"
  unfolding getIstioStatus_def Let_def
  by (simp add: fst_distribs case_prod_beta assms getIstioHelmReleaseVersion_same [OF assms(4)]
      cong: option.case_cong sum.case_cong list.case_cong if_cong)

lemma CheckIstioStatus_same:
  assumes "\<forall>ext name. getNamespace w (tr @ ext) name = getNamespace w (tr' @ ext) name"
    and "\<forall>ext namespace name. getDaemonSet w (tr @ ext) namespace name
                                = getDaemonSet w (tr' @ ext) namespace name"
    and "\<forall>ext namespace selector. listDeployments w (tr @ ext) namespace selector
                                = listDeployments w (tr' @ ext) namespace selector"
    and "\<forall>ext prog args. runCommand w (tr @ ext) prog args = runCommand w (tr' @ ext) prog args"
  shows "fst (CheckIstioStatus w tr args) = fst (CheckIstioStatus w tr' args)"
proof -
  have s: "fst (getIstioStatus w tr namespace) = fst (getIstioStatus w tr' namespace)" for namespace
    using assms(1) [rule_format, of "[]" namespace] assms(2-4)
    by (intro getIstioStatus_same) simp_all
  show ?thesis
    unfolding CheckIstioStatus_def Let_def
    by (simp add: fst_distribs case_prod_beta s
        cong: option.case_cong sum.case_cong list.case_cong if_cong)
qed

lemma putKey_keys: "set (map fst (putKey k v m)) = insert k (set (map fst m))"
  by (induction k v m rule: putKey.induct) (simp_all add: insert_commute)

lemma putKey_distinct: "distinct (map fst m) \<Longrightarrow> distinct (map fst (putKey k v m))"
proof (induction m)
  case Nil show ?case by simp
next
  case (Cons a m)
  obtain k' v' where a: "a = (k', v')" by (cases a)
  show ?case
  proof (cases "k' = k")
    case True with Cons.prems a show ?thesis by simp
  next
    case False
    from Cons.prems a have "k' \<notin> set (map fst m)" and d: "distinct (map fst m)" by simp_all
    with False have "k' \<notin> set (map fst (putKey k v m))" by (simp only: putKey_keys) simp
    with Cons.IH [OF d] a False show ?thesis by simp
  qed
qed

lemma foldl_putKey_distinct:
  "distinct (map fst m) \<Longrightarrow> distinct (map fst (foldl (\<lambda>m (k, v). putKey k v m) m kvs))"
  by (induction kvs arbitrary: m) (auto simp: putKey_distinct)

lemma asMap_distinct: "distinct (map fst (asMap kvs))"
  unfolding asMap_def by (rule foldl_putKey_distinct) simp

lemma visitOrder_mset:
  assumes "distinct keys"
  shows "mset (visitOrder keys answer) = mset keys"
proof -
  have d: "distinct (visitOrder keys answer)"
    using assms by (auto simp: visitOrder_def)
  have s: "set (visitOrder keys answer) = set keys"
    by (auto simp: visitOrder_def)
  from d assms s show ?thesis by (simp add: set_eq_iff_mset_eq_distinct)
qed

lemma map_filter_mset:
  "mset xs = mset ys \<Longrightarrow> mset (List.map_filter g xs) = mset (List.map_filter g ys)"
proof -
  assume a: "mset xs = mset ys"
  have "mset (List.map_filter g zs) = image_mset (the \<circ> g) (filter_mset (\<lambda>x. g x \<noteq> None) (mset zs))"
    for zs by (simp add: List.map_filter_def)
  then show ?thesis using a by simp
qed

lemma rangeMap_mset: "mset (rangeMap w t m) = mset (rangeMap w' t' m)"
proof -
  have "mset (visitOrder (map fst (asMap m)) (rangeOrder w t (map fst (asMap m))))
      = mset (visitOrder (map fst (asMap m)) (rangeOrder w' t' (map fst (asMap m))))"
    by (simp add: visitOrder_mset asMap_distinct)
  then show ?thesis
    unfolding rangeMap_def Let_def by (rule map_filter_mset)
qed

lemma ListContexts_same_entries:
  assumes "rawConfig w tr = rawConfig w tr'"
  shows "\<exists>cs cs'. mset cs = mset cs'
     \<and> (fst (ListContexts w tr args) = textResult (MarshalIndent (sliceJson cs))
          \<and> fst (ListContexts w tr' args) = textResult (MarshalIndent (sliceJson cs'))
        \<or> errorFlag (fst (ListContexts w tr args))
          \<and> fst (ListContexts w tr args) = fst (ListContexts w tr' args))"
proof (cases "rawConfig w tr'")
  case (Inl err)
  then show ?thesis using assms by (auto simp: ListContexts_def Let_def)
next
  case (Inr config)
  have "mset (map (\<lambda>(name, c). ContextInfoJson (kcCurrent config) name c)
                (rangeMap w (tr @ [KubeconfigRaw]) (kcContexts config)))
      = mset (map (\<lambda>(name, c). ContextInfoJson (kcCurrent config) name c)
                (rangeMap w (tr' @ [KubeconfigRaw]) (kcContexts config)))"
    using rangeMap_mset [of w "tr @ [KubeconfigRaw]" "kcContexts config" w "tr' @ [KubeconfigRaw]"]
    by simp
  moreover have "fst (ListContexts w tr args)
      = textResult (MarshalIndent (sliceJson
          (map (\<lambda>(name, c). ContextInfoJson (kcCurrent config) name c)
                (rangeMap w (tr @ [KubeconfigRaw]) (kcContexts config)))))"
    using assms Inr by (simp add: ListContexts_def Let_def)
  moreover have "fst (ListContexts w tr' args)
      = textResult (MarshalIndent (sliceJson
          (map (\<lambda>(name, c). ContextInfoJson (kcCurrent config) name c)
                (rangeMap w (tr' @ [KubeconfigRaw]) (kcContexts config)))))"
    using Inr by (simp add: ListContexts_def Let_def)
  ultimately show ?thesis by blast
qed

lemma ListContexts_same_order:
  assumes "rawConfig w tr = rawConfig w tr'"
    and "\<forall>keys. rangeOrder w (tr @ [KubeconfigRaw]) keys = rangeOrder w (tr' @ [KubeconfigRaw]) keys"
  shows "fst (ListContexts w tr args) = fst (ListContexts w tr' args)"
proof -
  have "rangeMap w (tr @ [KubeconfigRaw]) m = rangeMap w (tr' @ [KubeconfigRaw]) m"
    for m :: "(string \<times> KubeContext) list"
    using assms(2) by (simp add: rangeMap_def)
  then show ?thesis
    by (cases "rawConfig w tr'") (simp_all add: ListContexts_def Let_def assms(1))
qed

lemma contexts_differ:
  "MarshalIndent (JArr [ContextInfoJson ''dev'' ''dev''
        \<lparr>ctxCluster = ''dev-cluster'', ctxAuthInfo = ''dev-user'', ctxNamespace = ''default''\<rparr>,
      ContextInfoJson ''dev'' ''prod''
        \<lparr>ctxCluster = ''prod-cluster'', ctxAuthInfo = ''prod-user'', ctxNamespace = ''default''\<rparr>])
   \<noteq> MarshalIndent (JArr [ContextInfoJson ''dev'' ''prod''
        \<lparr>ctxCluster = ''prod-cluster'', ctxAuthInfo = ''prod-user'', ctxNamespace = ''default''\<rparr>,
      ContextInfoJson ''dev'' ''dev''
        \<lparr>ctxCluster = ''dev-cluster'', ctxAuthInfo = ''dev-user'', ctxNamespace = ''default''\<rparr>])"
  by (simp add: MarshalIndent_def ContextInfoJson_def quote_def escapeChar_def indent_def
      NL_def DQ_def BS_def)

lemma list_first:
  "ListContexts stubWorld [] (Wellformed (JObj []))
     = (textResult (MarshalIndent (JArr [ContextInfoJson ''dev'' ''dev''
        \<lparr>ctxCluster = ''dev-cluster'', ctxAuthInfo = ''dev-user'', ctxNamespace = ''default''\<rparr>,
      ContextInfoJson ''dev'' ''prod''
        \<lparr>ctxCluster = ''prod-cluster'', ctxAuthInfo = ''prod-user'', ctxNamespace = ''default''\<rparr>])),
        [KubeconfigRaw])"
  by (simp add: ListContexts_def stubWorld_def stubConfig_def Let_def rangeMap_def asMap_def
      visitOrder_def List.map_filter_simps sliceJson_def)

lemma list_second:
  "ListContexts stubWorld [KubeconfigRaw] (Wellformed (JObj []))
     = (textResult (MarshalIndent (JArr [ContextInfoJson ''dev'' ''prod''
        \<lparr>ctxCluster = ''prod-cluster'', ctxAuthInfo = ''prod-user'', ctxNamespace = ''default''\<rparr>,
      ContextInfoJson ''dev'' ''dev''
        \<lparr>ctxCluster = ''dev-cluster'', ctxAuthInfo = ''dev-user'', ctxNamespace = ''default''\<rparr>])),
        [KubeconfigRaw, KubeconfigRaw])"
  by (simp add: ListContexts_def stubWorld_def stubConfig_def Let_def rangeMap_def asMap_def
      visitOrder_def List.map_filter_simps sliceJson_def)

lemma status_first:
  "snd (CheckIstioStatus stubWorld [] (Wellformed (JObj [])))
     = [NamespacesGet ''istio-system'', DaemonSetsGet ''istio-system'' ''istio-cni-node'',
        DeploymentsList ''istio-system'' ''app=istiod'',
        Command ''helm'' [''list'', ''--namespace'', ''istio-system'', ''--filter'', ''istiod'',
          ''--output'', ''json'']]"
  by (simp add: CheckIstioStatus_def Unmarshal_empty_object CheckIstioStatus_schema_def
      zeroParams_def param_simps getIstioStatus_def Let_def stubWorld_def
      getIstioHelmReleaseVersion_def run_def UnmarshalSlice_def)

section \<open>The claims\<close>




text \<open>
  Claim C2.  With no client (\<open>k8sClient\<close> is nil) \<open>ExecuteTool\<close> returns the fixed
  ``Kubernetes client not available'' result with the error flag set, for every tool name,
  registered or not, and every payload; the history of requests is returned as it was
  given, so no handler ran and nothing was asked of any collaborator.  The name is not
  looked at: the check comes before the \<open>switch\<close> over the names.
\<close>

theorem C2_no_client_short_circuit:
  "k8sClient m = None \<Longrightarrow>
     ExecuteTool m tr toolName args =
       ((Some \<lparr>IsError = True,
               Content = [\<lparr>Type = ''text'',
                 Text = ''Kubernetes client not available. Please ensure kubeconfig is properly configured.''\<rparr>]\<rparr>,
         None), tr)"
  by (simp add: ExecuteTool_no_client errorResult_def clientUnavailable_def)

theorem C2_witness:
  "k8sClient \<lparr>k8sClient = None\<rparr> = None
   \<and> ''no_such_tool'' \<notin> set toolNames
   \<and> ExecuteTool \<lparr>k8sClient = None\<rparr> [] ''no_such_tool'' (Malformed ''unexpected end of JSON input'') =
       ((Some \<lparr>IsError = True,
               Content = [\<lparr>Type = ''text'',
                 Text = ''Kubernetes client not available. Please ensure kubeconfig is properly configured.''\<rparr>]\<rparr>,
         None), [])"
proof -
  have h: "k8sClient \<lparr>k8sClient = None\<rparr> = None" by simp
  have n: "''no_such_tool'' \<notin> set toolNames" by (simp add: toolNames_def)
  show ?thesis using h n C2_no_client_short_circuit [OF h] by simp
qed

text \<open>
  Claim C3.  With a client, a name that is none of the 21 names of the \<open>switch\<close> gives,
  for every payload, the result with the error flag set whose text is \<open>Unknown tool: \<close>
  followed by the name; the history of requests is returned as it was given, so no
  handler ran and nothing outside the process was touched.
\<close>

theorem C3_unknown_tool:
  "k8sClient m = Some w \<Longrightarrow> toolName \<notin> set toolNames \<Longrightarrow>
     length toolNames = 21 \<and> distinct toolNames
     \<and> ExecuteTool m tr toolName args =
         ((Some \<lparr>IsError = True,
                 Content = [\<lparr>Type = ''text'', Text = ''Unknown tool: '' @ toolName\<rparr>]\<rparr>, None), tr)"
  by (simp add: ExecuteTool_unknown errorResult_def) (simp add: toolNames_def)

theorem C3_witness:
  "k8sClient \<lparr>k8sClient = Some stubWorld\<rparr> = Some stubWorld
   \<and> ''restart_cluster'' \<notin> set toolNames
   \<and> ExecuteTool \<lparr>k8sClient = Some stubWorld\<rparr> [] ''restart_cluster'' (Wellformed (JObj [])) =
         ((Some \<lparr>IsError = True,
                 Content = [\<lparr>Type = ''text'', Text = ''Unknown tool: restart_cluster''\<rparr>]\<rparr>, None), [])"
proof -
  have h: "k8sClient \<lparr>k8sClient = Some stubWorld\<rparr> = Some stubWorld" by simp
  have n: "''restart_cluster'' \<notin> set toolNames" by (simp add: toolNames_def)
  show ?thesis using h n C3_unknown_tool [OF h n, of "[]" "Wellformed (JObj [])"] by simp
qed




text \<open>
  Claim C4, as amended.  For each of the nineteen tools that decode their payload (all
  but \<open>list_contexts\<close> and \<open>get_cluster_info\<close>), a payload that does not decode into the
  tool's parameter struct, with the error \<open>e\<close>, gives the result with the error flag set
  and the text \<open>Invalid parameters: e\<close>; the history of requests is returned as it was
  given, so no collaborator was contacted.
\<close>

theorem C4_invalid_parameters:
  "k8sClient m = Some w \<Longrightarrow> toolName \<in> set decodingTools \<Longrightarrow>
   Unmarshal (schemaOf toolName) args = Inl e \<Longrightarrow>
     decodingTools = filter (\<lambda>n. n \<noteq> ''list_contexts'' \<and> n \<noteq> ''get_cluster_info'') toolNames
     \<and> ExecuteTool m tr toolName args =
         ((Some \<lparr>IsError = True,
                 Content = [\<lparr>Type = ''text'', Text = ''Invalid parameters: '' @ e\<rparr>]\<rparr>, None), tr)"
  by (simp add: ExecuteTool_invalid errorResult_def) (simp add: decodingTools_def toolNames_def)

theorem C4_witness:
  "k8sClient \<lparr>k8sClient = Some stubWorld\<rparr> = Some stubWorld
   \<and> ''install_istio'' \<in> set decodingTools
   \<and> Unmarshal (schemaOf ''install_istio'') (Malformed ''unexpected end of JSON input'')
       = Inl ''unexpected end of JSON input''
   \<and> ExecuteTool \<lparr>k8sClient = Some stubWorld\<rparr> [] ''install_istio''
        (Malformed ''unexpected end of JSON input'') =
         ((Some \<lparr>IsError = True,
                 Content = [\<lparr>Type = ''text'',
                   Text = ''Invalid parameters: unexpected end of JSON input''\<rparr>]\<rparr>, None), [])
   \<and> ''test_connectivity'' \<in> set decodingTools
   \<and> Unmarshal (schemaOf ''test_connectivity'')
        (Wellformed (JObj [(''source_pod'', JStr ''sleep-abcde''), (''target_port'', JStr ''8000'')]))
       = Inl ''json: cannot unmarshal string into Go struct field .target_port of type int''
   \<and> ExecuteTool \<lparr>k8sClient = Some stubWorld\<rparr> [] ''test_connectivity''
        (Wellformed (JObj [(''source_pod'', JStr ''sleep-abcde''), (''target_port'', JStr ''8000'')])) =
         ((Some \<lparr>IsError = True,
                 Content = [\<lparr>Type = ''text'',
                   Text = ''Invalid parameters: json: cannot unmarshal string into Go struct field .target_port of type int''\<rparr>]\<rparr>,
           None), [])"
proof -
  have a: "k8sClient \<lparr>k8sClient = Some stubWorld\<rparr> = Some stubWorld" by simp
  have b: "''install_istio'' \<in> set decodingTools" by (simp add: decodingTools_def)
  have c: "Unmarshal (schemaOf ''install_istio'') (Malformed ''unexpected end of JSON input'')
       = Inl ''unexpected end of JSON input''"
    by (simp add: Unmarshal_def)
  have d: "''test_connectivity'' \<in> set decodingTools" by (simp add: decodingTools_def)
  have e: "Unmarshal (schemaOf ''test_connectivity'')
        (Wellformed (JObj [(''source_pod'', JStr ''sleep-abcde''), (''target_port'', JStr ''8000'')]))
       = Inl ''json: cannot unmarshal string into Go struct field .target_port of type int''"
    by (simp add: schemaOf_simps TestConnectivity_schema_def decode_simps typeError_def)
  show ?thesis
    using a b c d e C4_invalid_parameters [OF a b c, of "[]"] C4_invalid_parameters [OF a d e, of "[]"]
    by simp
qed

text \<open>
  The claim as stated fails for \<open>list_contexts\<close> (and \<open>get_cluster_info\<close>): the handler
  takes no parameters and never decodes the payload, so a malformed payload changes
  nothing; the kubeconfig is read and the contexts are listed.
\<close>

theorem C4_counterexample:
  "\<not> errorFlag (fst (ExecuteTool \<lparr>k8sClient = Some stubWorld\<rparr> [] ''list_contexts''
            (Malformed ''unexpected end of JSON input'')))
   \<and> snd (ExecuteTool \<lparr>k8sClient = Some stubWorld\<rparr> [] ''list_contexts''
            (Malformed ''unexpected end of JSON input'')) = [KubeconfigRaw]"
  by (simp add: dispatch ListContexts_def stubWorld_def Let_def)

text \<open>
  Claim C5 at the input that shows the defect: \<open>get_pod_logs\<close> with the empty object, so
  with \<open>pod_name\<close> omitted.  The handler never tests the field.  It asks the cluster for
  the pod of the empty name in namespace \<open>default\<close>; with a client that refuses the empty
  name the text is the client's error and names no field, and with a client that answers
  for any name the logs are fetched and the result is not an error at all.
\<close>

theorem C5_missing_pod_name_reaches_cluster:
  "ExecuteTool \<lparr>k8sClient = Some stubWorld\<rparr> [] ''get_pod_logs'' (Wellformed (JObj []))
     = ((Some \<lparr>IsError = True,
               Content = [\<lparr>Type = ''text'',
                 Text = ''Failed to get pod: resource name may not be empty''\<rparr>]\<rparr>, None),
        [PodsGet ''default'' []])
   \<and> ExecuteTool \<lparr>k8sClient = Some anyPodWorld\<rparr> [] ''get_pod_logs'' (Wellformed (JObj []))
     = ((Some \<lparr>IsError = False,
               Content = [\<lparr>Type = ''text'',
                 Text = MarshalIndent (LogResultJson
                   \<lparr>lrPod = [], lrNamespace = ''default'', lrContainer = ''sleep'', lrLines = 0,
                     lrEntries = [], lrRawLogs = [], lrTruncated = False\<rparr>)\<rparr>]\<rparr>, None),
        [PodsGet ''default'' [],
         PodsGetLogs ''default'' []
           \<lparr>loContainer = ''sleep'', loPrevious = False, loTimestamps = True, loTailLines = 100,
             loSince = None\<rparr>])"
  by (simp add: dispatch GetPodLogs_def GetPodLogs_schema_def GetPodLogs_defaults_def decode_simps
      param_simps stubWorld_def anyPodWorld_def stubPod_def errorResult_def textResult_def
      processLogs_def Let_def)

text \<open>
  Claim C6.  \<open>install_istio\<close> with the empty object \<open>{}\<close>: the payload decodes, and the
  defaults set right after decoding make the namespace \<open>istio-system\<close>, the gateway
  namespace \<open>istio-ingress\<close>, the timeout \<open>5m\<close> and \<open>wait\<close> true.  Whatever the
  collaborators answer, every \<open>helm install\<close> the invocation runs is the one of the base
  chart or the one of istiod, each with \<open>--namespace istio-system\<close>, \<open>--wait\<close> and
  \<open>--timeout 5m\<close>; and when helm succeeds the invocation runs exactly these two, in this
  order.  (That five minutes lie in the documented range of five to ten is a reading of
  the text \<open>5m\<close> and not part of the formal statement.)
\<close>

theorem C6_install_istio_defaults:
  "k8sClient m = Some w \<Longrightarrow>
   (\<exists>p0. Unmarshal InstallIstio_schema (Wellformed (JObj [])) = Inr p0
      \<and> str (InstallIstio_defaults p0) ''namespace'' = ''istio-system''
      \<and> str (InstallIstio_defaults p0) ''gateway_namespace'' = ''istio-ingress''
      \<and> str (InstallIstio_defaults p0) ''timeout'' = ''5m''
      \<and> flag (InstallIstio_defaults p0) ''wait'')
   \<and> set (helmInstalls (callsMade tr (ExecuteTool m tr ''install_istio'' (Wellformed (JObj [])))))
       \<subseteq> {[''install'', ''istio-base'', ''istio/base'', ''--namespace'', ''istio-system'',
             ''--create-namespace'', ''--wait'', ''--timeout'', ''5m''],
            [''install'', ''istiod'', ''istio/istiod'', ''--namespace'', ''istio-system'',
             ''--wait'', ''--timeout'', ''5m'']}
   \<and> ((\<forall>t args. snd (runCommand w t ''helm'' args) = None) \<longrightarrow>
        helmInstalls (callsMade tr (ExecuteTool m tr ''install_istio'' (Wellformed (JObj []))))
          = [[''install'', ''istio-base'', ''istio/base'', ''--namespace'', ''istio-system'',
              ''--create-namespace'', ''--wait'', ''--timeout'', ''5m''],
             [''install'', ''istiod'', ''istio/istiod'', ''--namespace'', ''istio-system'',
              ''--wait'', ''--timeout'', ''5m'']])"
proof (intro conjI impI)
  assume m: "k8sClient m = Some w"
  show "\<exists>p0. Unmarshal InstallIstio_schema (Wellformed (JObj [])) = Inr p0
      \<and> str (InstallIstio_defaults p0) ''namespace'' = ''istio-system''
      \<and> str (InstallIstio_defaults p0) ''gateway_namespace'' = ''istio-ingress''
      \<and> str (InstallIstio_defaults p0) ''timeout'' = ''5m''
      \<and> flag (InstallIstio_defaults p0) ''wait''"
    by (simp add: Unmarshal_empty_object InstallIstio_defaults_def InstallIstio_schema_def
        zeroParams_def param_simps)
  show "set (helmInstalls (callsMade tr (ExecuteTool m tr ''install_istio'' (Wellformed (JObj [])))))
       \<subseteq> {[''install'', ''istio-base'', ''istio/base'', ''--namespace'', ''istio-system'',
             ''--create-namespace'', ''--wait'', ''--timeout'', ''5m''],
            [''install'', ''istiod'', ''istio/istiod'', ''--namespace'', ''istio-system'',
             ''--wait'', ''--timeout'', ''5m'']}"
    unfolding callsMade_def dispatch [OF m]
    by (rule helmInstalls_madeOnly [OF InstallIstio_empty_installs]) (simp add: installsWithin_def)
next
  assume m: "k8sClient m = Some w"
    and h: "\<forall>t args. snd (runCommand w t ''helm'' args) = None"
  obtain ext where ext: "snd (getIstioStatus w
        (tr @ [Command ''helm'' [''version'', ''--short''],
               Command ''helm'' [''repo'', ''add'', ''istio'',
                 ''https://istio-release.storage.googleapis.com/charts''],
               Command ''helm'' [''repo'', ''update'', ''istio''],
               Command ''helm'' [''install'', ''istio-base'', ''istio/base'', ''--namespace'',
                 ''istio-system'', ''--create-namespace'', ''--wait'', ''--timeout'', ''5m''],
               Command ''helm'' [''install'', ''istiod'', ''istio/istiod'', ''--namespace'',
                 ''istio-system'', ''--wait'', ''--timeout'', ''5m'']]) ''istio-system'')
      = (tr @ [Command ''helm'' [''version'', ''--short''],
               Command ''helm'' [''repo'', ''add'', ''istio'',
                 ''https://istio-release.storage.googleapis.com/charts''],
               Command ''helm'' [''repo'', ''update'', ''istio''],
               Command ''helm'' [''install'', ''istio-base'', ''istio/base'', ''--namespace'',
                 ''istio-system'', ''--create-namespace'', ''--wait'', ''--timeout'', ''5m''],
               Command ''helm'' [''install'', ''istiod'', ''istio/istiod'', ''--namespace'',
                 ''istio-system'', ''--wait'', ''--timeout'', ''5m'']]) @ ext"
    and none: "helmInstalls ext = []"
    using getIstioStatus_calls by blast
  have five: "helmInstalls
       [Command ''helm'' [''version'', ''--short''],
        Command ''helm'' [''repo'', ''add'', ''istio'',
          ''https://istio-release.storage.googleapis.com/charts''],
        Command ''helm'' [''repo'', ''update'', ''istio''],
        Command ''helm'' [''install'', ''istio-base'', ''istio/base'', ''--namespace'',
          ''istio-system'', ''--create-namespace'', ''--wait'', ''--timeout'', ''5m''],
        Command ''helm'' [''install'', ''istiod'', ''istio/istiod'', ''--namespace'',
          ''istio-system'', ''--wait'', ''--timeout'', ''5m'']]
     = [[''install'', ''istio-base'', ''istio/base'', ''--namespace'', ''istio-system'',
         ''--create-namespace'', ''--wait'', ''--timeout'', ''5m''],
        [''install'', ''istiod'', ''istio/istiod'', ''--namespace'', ''istio-system'',
         ''--wait'', ''--timeout'', ''5m'']]"
    by (simp add: helmInstalls_def List.map_filter_simps)
  have split5: "helmInstalls (a # b # c # d # e # ext) = helmInstalls [a, b, c, d, e] @ helmInstalls ext"
    for a b c d e
    using helmInstalls_append [of "[a, b, c, d, e]" ext] by simp
  show "helmInstalls (callsMade tr (ExecuteTool m tr ''install_istio'' (Wellformed (JObj []))))
          = [[''install'', ''istio-base'', ''istio/base'', ''--namespace'', ''istio-system'',
              ''--create-namespace'', ''--wait'', ''--timeout'', ''5m''],
             [''install'', ''istiod'', ''istio/istiod'', ''--namespace'', ''istio-system'',
              ''--wait'', ''--timeout'', ''5m'']]"
    unfolding callsMade_def dispatch [OF m]
    using ext none
    by (simp add: InstallIstio_def Unmarshal_empty_object InstallIstio_defaults_def
        InstallIstio_schema_def zeroParams_def param_simps Let_def setJsonArgs_empty
        addIstioHelmRepo_def installIstioBase_def installIstiod_def helm_works [OF h]
        versionArgs_def waitArgs_def case_prod_beta split5 five)
qed

theorem C6_witness:
  "k8sClient \<lparr>k8sClient = Some stubWorld\<rparr> = Some stubWorld
   \<and> (\<forall>t args. snd (runCommand stubWorld t ''helm'' args) = None)
   \<and> helmInstalls (callsMade [] (ExecuteTool \<lparr>k8sClient = Some stubWorld\<rparr> [] ''install_istio''
        (Wellformed (JObj []))))
          = [[''install'', ''istio-base'', ''istio/base'', ''--namespace'', ''istio-system'',
              ''--create-namespace'', ''--wait'', ''--timeout'', ''5m''],
             [''install'', ''istiod'', ''istio/istiod'', ''--namespace'', ''istio-system'',
              ''--wait'', ''--timeout'', ''5m'']]"
proof -
  have a: "k8sClient \<lparr>k8sClient = Some stubWorld\<rparr> = Some stubWorld" by simp
  have b: "\<forall>t args. snd (runCommand stubWorld t ''helm'' args) = None"
    by (simp add: stubWorld_def)
  show ?thesis using a b C6_install_istio_defaults [OF a, of "[]"] by blast
qed



text \<open>
  Claim C7 at the input that shows the defect.  \<open>test_connectivity\<close> with the three
  required fields, against a target that answers with status 200 and the body
  \<open>HTTP_CODE:503\<close>.  The handler asks \<open>curl\<close> to print the trailer \<open>HTTP_CODE:200\<close> after
  the body, and then reads the status from the first \<open>HTTP_CODE:\<close> of the whole output,
  which here lies in the body: the output does contain \<open>HTTP_CODE:200\<close>, the result is
  not an error, and it reports the status code 503 and no success.
\<close>

theorem C7_status_read_at_first_marker:
  "echoOutput = curlPrints ''HTTP_CODE:503'' ''200''
   \<and> contains echoOutput ''HTTP_CODE:200''
   \<and> ExecuteTool \<lparr>k8sClient = Some echoWorld\<rparr> [] ''test_connectivity''
        (Wellformed (JObj [(''source_pod'', JStr ''sleep-abcde''),
           (''target_service'', JStr ''httpbin.default.svc.cluster.local''),
           (''target_port'', JInt 8000)]))
     = (textResult (MarshalIndent (connectivityJson
          \<lparr>crSource = \<lparr>piName = ''sleep-abcde'', piNamespace = ''default'', piIP = ''10.244.0.7'',
                        piNode = ''node-1''\<rparr>,
            crDestination = \<lparr>piName = ''httpbin.default.svc.cluster.local'', piNamespace = [],
                             piIP = ''httpbin.default.svc.cluster.local'', piNode = []\<rparr>,
            crSuccess = False, crStatusCode = 503, crResponse = echoOutput, crError = [],
            crDuration = ''12ms'',
            crCommand = join [''curl'', ''-s'', ''-w'', curlFormat, ''-X'', ''GET'',
               ''--connect-timeout'', ''10'', ''http://httpbin.default.svc.cluster.local:8000/''] '' '',
            crTimestamp = ''2024-01-01T00:00:00Z''\<rparr>)),
        [PodsGet ''default'' ''sleep-abcde'',
         PodsExec ''default'' ''sleep-abcde'' ''sleep''
           [''curl'', ''-s'', ''-w'', curlFormat, ''-X'', ''GET'', ''--connect-timeout'', ''10'',
            ''http://httpbin.default.svc.cluster.local:8000/''] None])"
proof -
  define p0 where "p0 = (zeroParams TestConnectivity_schema)
     (''source_pod'' := VString ''sleep-abcde'',
      ''target_service'' := VString ''httpbin.default.svc.cluster.local'',
      ''target_port'' := VInt 8000)"
  have u0: "Unmarshal TestConnectivity_schema
        (Wellformed (JObj [(''source_pod'', JStr ''sleep-abcde''),
           (''target_service'', JStr ''httpbin.default.svc.cluster.local''),
           (''target_port'', JInt 8000)])) = Inr p0"
    by (simp add: p0_def TestConnectivity_schema_def decode_simps)
  have f0: "str p0 ''source_pod'' = ''sleep-abcde''"
      "str p0 ''target_service'' = ''httpbin.default.svc.cluster.local''"
      "num p0 ''target_port'' = 8000"
      "str (TestConnectivity_defaults p0) ''source_pod'' = ''sleep-abcde''"
      "str (TestConnectivity_defaults p0) ''target_service'' = ''httpbin.default.svc.cluster.local''"
      "str (TestConnectivity_defaults p0) ''source_namespace'' = ''default''"
      "str (TestConnectivity_defaults p0) ''protocol'' = ''http''"
      "connectivityCommand (TestConnectivity_defaults p0)
         = Some [''curl'', ''-s'', ''-w'', curlFormat, ''-X'', ''GET'', ''--connect-timeout'', ''10'',
            ''http://httpbin.default.svc.cluster.local:8000/'']"
    by (simp_all add: p0_def TestConnectivity_schema_def zeroParams_def param_simps
        TestConnectivity_defaults_def connectivityCommand_def show_8000 show_10)
  have run: "TestConnectivity echoWorld [] (Wellformed (JObj [(''source_pod'', JStr ''sleep-abcde''),
           (''target_service'', JStr ''httpbin.default.svc.cluster.local''),
           (''target_port'', JInt 8000)])) = 
      (textResult (MarshalIndent (connectivityJson
          \<lparr>crSource = \<lparr>piName = ''sleep-abcde'', piNamespace = ''default'', piIP = ''10.244.0.7'',
                        piNode = ''node-1''\<rparr>,
            crDestination = \<lparr>piName = ''httpbin.default.svc.cluster.local'', piNamespace = [],
                             piIP = ''httpbin.default.svc.cluster.local'', piNode = []\<rparr>,
            crSuccess = False, crStatusCode = 503, crResponse = echoOutput, crError = [],
            crDuration = ''12ms'',
            crCommand = join [''curl'', ''-s'', ''-w'', curlFormat, ''-X'', ''GET'',
               ''--connect-timeout'', ''10'', ''http://httpbin.default.svc.cluster.local:8000/''] '' '',
            crTimestamp = ''2024-01-01T00:00:00Z''\<rparr>)),
        [PodsGet ''default'' ''sleep-abcde'',
         PodsExec ''default'' ''sleep-abcde'' ''sleep''
           [''curl'', ''-s'', ''-w'', curlFormat, ''-X'', ''GET'', ''--connect-timeout'', ''10'',
            ''http://httpbin.default.svc.cluster.local:8000/''] None])"
    unfolding TestConnectivity_def u0 sum.case Let_def
    by (simp add: f0 echoWorld_def stubWorld_def stubPod_def podInfoOf_def execCommandInPod_def
        connectivityOutcome_def echo_status del: join.simps)
  show ?thesis
    by (simp only: dispatch run echo_contains simp_thms Manager.simps) (simp add: echoOutput_def)
qed

text \<open>
  Claim C8, as amended.  Two invocations, one after the history \<open>tr\<close> and one after the
  history \<open>tr'\<close> (the second may follow the first).  \<open>check_istio_status\<close>: when the
  cluster and helm answer after \<open>tr'\<close> as they answer after \<open>tr\<close>, the two results are
  equal, so the content is the same byte for byte.  \<open>list_contexts\<close>: when the kubeconfig
  is read the same both times, the two results are equal provided the runtime visits the
  map of contexts in the same order both times; without that proviso they are either the
  same error or two arrays with the same entries, each as often in the one as in the
  other, in an order that may differ.
\<close>

theorem C8_repeated_invocation:
  assumes "k8sClient m = Some w"
  shows "((\<forall>ext name. getNamespace w (tr @ ext) name = getNamespace w (tr' @ ext) name)
        \<and> (\<forall>ext namespace name. getDaemonSet w (tr @ ext) namespace name
                                   = getDaemonSet w (tr' @ ext) namespace name)
        \<and> (\<forall>ext namespace selector. listDeployments w (tr @ ext) namespace selector
                                   = listDeployments w (tr' @ ext) namespace selector)
        \<and> (\<forall>ext prog args. runCommand w (tr @ ext) prog args = runCommand w (tr' @ ext) prog args)
      \<longrightarrow> fst (ExecuteTool m tr ''check_istio_status'' args)
          = fst (ExecuteTool m tr' ''check_istio_status'' args))
   \<and> (rawConfig w tr = rawConfig w tr'
        \<and> (\<forall>keys. rangeOrder w (tr @ [KubeconfigRaw]) keys
                     = rangeOrder w (tr' @ [KubeconfigRaw]) keys)
      \<longrightarrow> fst (ExecuteTool m tr ''list_contexts'' args)
          = fst (ExecuteTool m tr' ''list_contexts'' args))
   \<and> (rawConfig w tr = rawConfig w tr'
      \<longrightarrow> (\<exists>cs cs'. mset cs = mset cs'
            \<and> (fst (ExecuteTool m tr ''list_contexts'' args)
                  = textResult (MarshalIndent (sliceJson cs))
                \<and> fst (ExecuteTool m tr' ''list_contexts'' args)
                  = textResult (MarshalIndent (sliceJson cs'))
              \<or> errorFlag (fst (ExecuteTool m tr ''list_contexts'' args))
                \<and> fst (ExecuteTool m tr ''list_contexts'' args)
                  = fst (ExecuteTool m tr' ''list_contexts'' args))))"
proof (intro conjI impI)
  assume "(\<forall>ext name. getNamespace w (tr @ ext) name = getNamespace w (tr' @ ext) name)
        \<and> (\<forall>ext namespace name. getDaemonSet w (tr @ ext) namespace name
                                   = getDaemonSet w (tr' @ ext) namespace name)
        \<and> (\<forall>ext namespace selector. listDeployments w (tr @ ext) namespace selector
                                   = listDeployments w (tr' @ ext) namespace selector)
        \<and> (\<forall>ext prog args. runCommand w (tr @ ext) prog args = runCommand w (tr' @ ext) prog args)"
  then have "fst (CheckIstioStatus w tr args) = fst (CheckIstioStatus w tr' args)"
    by (intro CheckIstioStatus_same) blast+
  then show "fst (ExecuteTool m tr ''check_istio_status'' args)
          = fst (ExecuteTool m tr' ''check_istio_status'' args)"
    by (simp only: dispatch [OF assms])
next
  assume "rawConfig w tr = rawConfig w tr'
        \<and> (\<forall>keys. rangeOrder w (tr @ [KubeconfigRaw]) keys
                     = rangeOrder w (tr' @ [KubeconfigRaw]) keys)"
  then have "fst (ListContexts w tr args) = fst (ListContexts w tr' args)"
    by (intro ListContexts_same_order) blast+
  then show "fst (ExecuteTool m tr ''list_contexts'' args)
          = fst (ExecuteTool m tr' ''list_contexts'' args)"
    by (simp only: dispatch [OF assms])
next
  assume "rawConfig w tr = rawConfig w tr'"
  from ListContexts_same_entries [OF this, of args]
  show "\<exists>cs cs'. mset cs = mset cs'
            \<and> (fst (ExecuteTool m tr ''list_contexts'' args)
                  = textResult (MarshalIndent (sliceJson cs))
                \<and> fst (ExecuteTool m tr' ''list_contexts'' args)
                  = textResult (MarshalIndent (sliceJson cs'))
              \<or> errorFlag (fst (ExecuteTool m tr ''list_contexts'' args))
                \<and> fst (ExecuteTool m tr ''list_contexts'' args)
                  = fst (ExecuteTool m tr' ''list_contexts'' args))"
    by (simp only: dispatch [OF assms])
qed

theorem C8_witness:
  "snd (ExecuteTool \<lparr>k8sClient = Some stubWorld\<rparr> [] ''check_istio_status'' (Wellformed (JObj [])))
     = [NamespacesGet ''istio-system'', DaemonSetsGet ''istio-system'' ''istio-cni-node'',
        DeploymentsList ''istio-system'' ''app=istiod'',
        Command ''helm'' [''list'', ''--namespace'', ''istio-system'', ''--filter'', ''istiod'',
          ''--output'', ''json'']]
   \<and> fst (ExecuteTool \<lparr>k8sClient = Some stubWorld\<rparr> [] ''check_istio_status''
          (Wellformed (JObj [])))
     = fst (ExecuteTool \<lparr>k8sClient = Some stubWorld\<rparr>
          [NamespacesGet ''istio-system'', DaemonSetsGet ''istio-system'' ''istio-cni-node'',
           DeploymentsList ''istio-system'' ''app=istiod'',
           Command ''helm'' [''list'', ''--namespace'', ''istio-system'', ''--filter'', ''istiod'',
             ''--output'', ''json'']]
          ''check_istio_status'' (Wellformed (JObj [])))
   \<and> rawConfig stubWorld [KubeconfigRaw] = rawConfig stubWorld [KubeconfigRaw, KubeconfigRaw]
   \<and> fst (ExecuteTool \<lparr>k8sClient = Some stubWorld\<rparr> [KubeconfigRaw] ''list_contexts''
          (Wellformed (JObj [])))
     = fst (ExecuteTool \<lparr>k8sClient = Some stubWorld\<rparr> [KubeconfigRaw, KubeconfigRaw]
          ''list_contexts'' (Wellformed (JObj [])))
   \<and> rawConfig stubWorld [] = rawConfig stubWorld [KubeconfigRaw]
   \<and> (\<exists>cs cs'. mset cs = mset cs'
        \<and> fst (ExecuteTool \<lparr>k8sClient = Some stubWorld\<rparr> [] ''list_contexts''
               (Wellformed (JObj [])))
            = textResult (MarshalIndent (sliceJson cs))
        \<and> fst (ExecuteTool \<lparr>k8sClient = Some stubWorld\<rparr> [KubeconfigRaw] ''list_contexts''
               (Wellformed (JObj [])))
            = textResult (MarshalIndent (sliceJson cs')))"
proof -
  have m: "k8sClient \<lparr>k8sClient = Some stubWorld\<rparr> = Some stubWorld" by simp
  have a: "snd (ExecuteTool \<lparr>k8sClient = Some stubWorld\<rparr> [] ''check_istio_status''
          (Wellformed (JObj [])))
     = [NamespacesGet ''istio-system'', DaemonSetsGet ''istio-system'' ''istio-cni-node'',
        DeploymentsList ''istio-system'' ''app=istiod'',
        Command ''helm'' [''list'', ''--namespace'', ''istio-system'', ''--filter'', ''istiod'',
          ''--output'', ''json'']]"
    by (simp only: dispatch [OF m] status_first)
  have h: "(\<forall>ext name. getNamespace stubWorld (tr @ ext) name = getNamespace stubWorld (tr' @ ext) name)
        \<and> (\<forall>ext namespace name. getDaemonSet stubWorld (tr @ ext) namespace name
                                   = getDaemonSet stubWorld (tr' @ ext) namespace name)
        \<and> (\<forall>ext namespace selector. listDeployments stubWorld (tr @ ext) namespace selector
                                   = listDeployments stubWorld (tr' @ ext) namespace selector)
        \<and> (\<forall>ext prog args. runCommand stubWorld (tr @ ext) prog args
                                   = runCommand stubWorld (tr' @ ext) prog args)" for tr tr'
    by (simp add: stubWorld_def)
  have raw: "rawConfig stubWorld t = rawConfig stubWorld t'" for t t'
    by (simp add: stubWorld_def)
  have ord: "\<forall>keys. rangeOrder stubWorld ([KubeconfigRaw] @ [KubeconfigRaw]) keys
                   = rangeOrder stubWorld ([KubeconfigRaw, KubeconfigRaw] @ [KubeconfigRaw]) keys"
    by (simp add: stubWorld_def)
  note t1 = C8_repeated_invocation [OF m, of "[]"
      "[NamespacesGet ''istio-system'', DaemonSetsGet ''istio-system'' ''istio-cni-node'',
        DeploymentsList ''istio-system'' ''app=istiod'',
        Command ''helm'' [''list'', ''--namespace'', ''istio-system'', ''--filter'', ''istiod'',
          ''--output'', ''json'']]" "Wellformed (JObj [])"]
  note t2 = C8_repeated_invocation [OF m, of "[KubeconfigRaw]" "[KubeconfigRaw, KubeconfigRaw]"
      "Wellformed (JObj [])"]
  note t3 = C8_repeated_invocation [OF m, of "[]" "[KubeconfigRaw]" "Wellformed (JObj [])"]
  from t1 h have b: "fst (ExecuteTool \<lparr>k8sClient = Some stubWorld\<rparr> [] ''check_istio_status''
          (Wellformed (JObj [])))
     = fst (ExecuteTool \<lparr>k8sClient = Some stubWorld\<rparr>
          [NamespacesGet ''istio-system'', DaemonSetsGet ''istio-system'' ''istio-cni-node'',
           DeploymentsList ''istio-system'' ''app=istiod'',
           Command ''helm'' [''list'', ''--namespace'', ''istio-system'', ''--filter'', ''istiod'',
             ''--output'', ''json'']]
          ''check_istio_status'' (Wellformed (JObj [])))"
    by blast
  from t2 raw ord have c: "fst (ExecuteTool \<lparr>k8sClient = Some stubWorld\<rparr> [KubeconfigRaw] ''list_contexts''
          (Wellformed (JObj [])))
     = fst (ExecuteTool \<lparr>k8sClient = Some stubWorld\<rparr> [KubeconfigRaw, KubeconfigRaw]
          ''list_contexts'' (Wellformed (JObj [])))"
    by blast
  have ne: "\<not> errorFlag (fst (ExecuteTool \<lparr>k8sClient = Some stubWorld\<rparr> [] ''list_contexts''
               (Wellformed (JObj []))))"
    by (simp only: dispatch [OF m] list_first fst_conv errorFlag_textResult simp_thms)
  from t3 raw [of "[]" "[KubeconfigRaw]"] ne
  have d: "\<exists>cs cs'. mset cs = mset cs'
        \<and> fst (ExecuteTool \<lparr>k8sClient = Some stubWorld\<rparr> [] ''list_contexts''
               (Wellformed (JObj [])))
            = textResult (MarshalIndent (sliceJson cs))
        \<and> fst (ExecuteTool \<lparr>k8sClient = Some stubWorld\<rparr> [KubeconfigRaw] ''list_contexts''
               (Wellformed (JObj [])))
            = textResult (MarshalIndent (sliceJson cs'))"
    by blast
  show ?thesis
    by (intro conjI) (rule a b raw c d)+
qed

text \<open>
  The claim as stated fails for \<open>list_contexts\<close>: the handler ranges over the Go map
  \<open>config.Contexts\<close> and appends in the order of the visit, which the language leaves
  open.  With an unchanged kubeconfig of two contexts and a runtime that visits them the
  other way round the second time, the two texts differ.
\<close>

theorem C8_counterexample:
  "rawConfig stubWorld [] = rawConfig stubWorld [KubeconfigRaw]
   \<and> ExecuteTool \<lparr>k8sClient = Some stubWorld\<rparr> [] ''list_contexts'' (Wellformed (JObj []))
     = (textResult (MarshalIndent (JArr [ContextInfoJson ''dev'' ''dev''
          \<lparr>ctxCluster = ''dev-cluster'', ctxAuthInfo = ''dev-user'', ctxNamespace = ''default''\<rparr>,
        ContextInfoJson ''dev'' ''prod''
          \<lparr>ctxCluster = ''prod-cluster'', ctxAuthInfo = ''prod-user'', ctxNamespace = ''default''\<rparr>])),
        [KubeconfigRaw])
   \<and> ExecuteTool \<lparr>k8sClient = Some stubWorld\<rparr> [KubeconfigRaw] ''list_contexts''
        (Wellformed (JObj []))
     = (textResult (MarshalIndent (JArr [ContextInfoJson ''dev'' ''prod''
          \<lparr>ctxCluster = ''prod-cluster'', ctxAuthInfo = ''prod-user'', ctxNamespace = ''default''\<rparr>,
        ContextInfoJson ''dev'' ''dev''
          \<lparr>ctxCluster = ''dev-cluster'', ctxAuthInfo = ''dev-user'', ctxNamespace = ''default''\<rparr>])),
        [KubeconfigRaw, KubeconfigRaw])
   \<and> fst (ExecuteTool \<lparr>k8sClient = Some stubWorld\<rparr> [] ''list_contexts'' (Wellformed (JObj [])))
     \<noteq> fst (ExecuteTool \<lparr>k8sClient = Some stubWorld\<rparr> [KubeconfigRaw] ''list_contexts''
           (Wellformed (JObj [])))"
proof -
  have m: "k8sClient \<lparr>k8sClient = Some stubWorld\<rparr> = Some stubWorld" by simp
  have raw: "rawConfig stubWorld [] = rawConfig stubWorld [KubeconfigRaw]"
    by (simp add: stubWorld_def)
  have ne: "fst (ListContexts stubWorld [] (Wellformed (JObj [])))
     \<noteq> fst (ListContexts stubWorld [KubeconfigRaw] (Wellformed (JObj [])))"
    unfolding list_first list_second fst_conv
    using contexts_differ by (simp add: textResult_def)
  show ?thesis
    unfolding dispatch [OF m]
    by (intro conjI) (rule raw list_first list_second ne)+
qed

end
